theory Spec2Isabelle
  imports Main
begin

section \<open>JavaScript values used by the parsers\<close>

text \<open>
  A JavaScript string is modelled as a \<^typ>\<open>string\<close>: one \<^typ>\<open>char\<close> per code unit, for
  the code units 0..255.  An array read \<open>elements[i]\<close> yields the element or \<open>undefined\<close>;
  \<open>undefined\<close> is \<open>None\<close>.
\<close>

type_synonym elem = "string option"

definition el :: "string list \<Rightarrow> nat \<Rightarrow> elem" where
  "el elements i = (if i < length elements then Some (elements ! i) else None)"

text \<open>\<open>String.prototype.split\<close> with a one-character separator: never an empty array.\<close>

fun split_from :: "char \<Rightarrow> string \<Rightarrow> string \<Rightarrow> string list" where
  "split_from d piece [] = [piece]"
| "split_from d piece (c # cs) =
     (if c = d then piece # split_from d [] cs else split_from d (piece @ [c]) cs)"

definition js_split :: "char \<Rightarrow> string \<Rightarrow> string list" where
  "js_split d s = split_from d [] s"

text \<open>
  \<open>String.prototype.trim\<close>: the white space and line terminators of ECMAScript among
  the code units 0..255 are TAB, LF, VT, FF, CR, SPACE and NBSP.
\<close>

definition is_ws :: "char \<Rightarrow> bool" where
  "is_ws c = (c = CHR 0x09 \<or> c = CHR 0x0A \<or> c = CHR 0x0B \<or> c = CHR 0x0C \<or>
              c = CHR 0x0D \<or> c = CHR 0x20 \<or> c = CHR 0xA0)"

definition trim :: "string \<Rightarrow> string" where
  "trim s = rev (dropWhile is_ws (rev (dropWhile is_ws s)))"

text \<open>\<open>.replace(/\r\n/g, '\n')\<close>: leftmost matches, not overlapping.\<close>

fun replace_crlf :: "string \<Rightarrow> string" where
  "replace_crlf (a # b # cs) =
     (if a = CHR 0x0D \<and> b = CHR 0x0A then CHR 0x0A # replace_crlf cs
      else a # replace_crlf (b # cs))"
| "replace_crlf cs = cs"

text \<open>\<open>.replace(/\r/g, '\n')\<close> and \<open>.replace(/\n/g, '')\<close>.\<close>

definition replace_cr :: "string \<Rightarrow> string" where
  "replace_cr s = map (\<lambda>c. if c = CHR 0x0D then CHR 0x0A else c) s"

definition remove_lf :: "string \<Rightarrow> string" where
  "remove_lf s = filter (\<lambda>c. c \<noteq> CHR 0x0A) s"

text \<open>\<open>cleanData\<close> has the same text in both parser classes.\<close>

definition cleanData :: "string \<Rightarrow> string" where
  "cleanData data = trim (remove_lf (replace_cr (replace_crlf data)))"

text \<open>
  The segment buffer of \<open>parse\<close>:
  \<open>cleanData.split(d).map(segment => segment.trim()).filter(segment => segment.length > 0)\<close>.
\<close>

definition split_segments :: "char \<Rightarrow> string \<Rightarrow> string list" where
  "split_segments d cleaned = filter (\<lambda>segment. length segment > 0) (map trim (js_split d cleaned))"

text \<open>\<open>new Error(message)\<close>.\<close>

datatype error = Error string

text \<open>
  What a statement of a segment handler can throw.  The handlers read and write
  properties only; a property read or write on \<open>null\<close> or \<open>undefined\<close> throws a \<open>TypeError\<close>
  (the argument names the property), every other read yields a value or \<open>undefined\<close>.
\<close>

datatype thrown = TypeError string

text \<open>\<open>obj.property\<close>, read or written, with what follows it (\<open>k\<close>): \<open>obj\<close> is a reference
  to an object or \<open>null\<close>.\<close>

definition on_object :: "'r option \<Rightarrow> string \<Rightarrow> ('r \<Rightarrow> 'a) \<Rightarrow> thrown + 'a" where
  "on_object obj property k =
     (case obj of None \<Rightarrow> Inl (TypeError property) | Some r \<Rightarrow> Inr (k r))"

text \<open>
  \<open>if (!o.xs) o.xs = []; o.xs.push(x)\<close> on a list-valued property that may be absent
  (\<open>None\<close>): the list is created on the first push.
\<close>

fun push_lazy :: "'a list option \<Rightarrow> 'a \<Rightarrow> 'a list option" where
  "push_lazy None x = Some [x]"
| "push_lazy (Some xs) x = Some (xs @ [x])"

section \<open>Records shared by the two output trees\<close>

text \<open>
  Every object literal of the source is a record with the literal's property names.  A
  property that is assigned after the object was created is an \<open>option\<close>: \<open>None\<close> while the
  property is absent.  For a scalar property of that kind the type is \<open>elem option\<close>,
  \<open>Some None\<close> being the property present with the value \<open>undefined\<close>.
\<close>

record interchange_t =
  authorizationQualifier :: elem
  authorizationInfo :: elem
  securityQualifier :: elem
  securityInfo :: elem
  senderQualifier :: elem
  senderId :: elem
  receiverQualifier :: elem
  receiverId :: elem
  date :: elem
  time :: elem
  repetitionSeparator :: elem
  versionNumber :: elem
  controlNumber :: elem
  acknowledgmentRequested :: elem
  testIndicator :: elem

record group_t =
  functionalCode :: elem
  applicationSender :: elem
  applicationReceiver :: elem
  date :: elem
  time :: elem
  controlNumber :: elem
  responsibleAgency :: elem
  version :: elem

record transactionSet_t =
  type :: elem
  controlNumber :: elem
  implementationGuide :: elem

record reference_t =
  qualifierCode :: elem
  referenceId :: elem
  description :: elem

record contact_t =
  contactFunctionCode :: elem
  name :: elem
  communicationNumberQualifier1 :: elem
  communicationNumber1 :: elem
  communicationNumberQualifier2 :: elem
  communicationNumber2 :: elem

record address_t =
  addressLine1 :: elem
  addressLine2 :: elem
  city :: "elem option"
  state :: "elem option"
  postalCode :: "elem option"
  countryCode :: "elem option"

record transactionSetTrailer_t =
  segmentCount :: elem
  controlNumber :: elem

record functionalGroupTrailer_t =
  transactionSetCount :: elem
  controlNumber :: elem

record interchangeTrailer_t =
  groupCount :: elem
  controlNumber :: elem

text \<open>The object literals of \<open>parseISA\<close>, \<open>parseGS\<close>, \<open>parseST\<close>, \<open>parseREF\<close>, \<open>parsePER\<close>,
  \<open>parseN3\<close>, \<open>parseSE\<close>, \<open>parseGE\<close> and \<open>parseIEA\<close>, the same text in both classes.\<close>

definition interchange_of :: "string list \<Rightarrow> interchange_t" where
  "interchange_of elements =
     \<lparr> interchange_t.authorizationQualifier = el elements 1,
       interchange_t.authorizationInfo = el elements 2,
       interchange_t.securityQualifier = el elements 3,
       interchange_t.securityInfo = el elements 4,
       interchange_t.senderQualifier = el elements 5,
       interchange_t.senderId = el elements 6,
       interchange_t.receiverQualifier = el elements 7,
       interchange_t.receiverId = el elements 8,
       interchange_t.date = el elements 9,
       interchange_t.time = el elements 10,
       interchange_t.repetitionSeparator = el elements 11,
       interchange_t.versionNumber = el elements 12,
       interchange_t.controlNumber = el elements 13,
       interchange_t.acknowledgmentRequested = el elements 14,
       interchange_t.testIndicator = el elements 15 \<rparr>"

definition group_of :: "string list \<Rightarrow> group_t" where
  "group_of elements =
     \<lparr> group_t.functionalCode = el elements 1,
       group_t.applicationSender = el elements 2,
       group_t.applicationReceiver = el elements 3,
       group_t.date = el elements 4,
       group_t.time = el elements 5,
       group_t.controlNumber = el elements 6,
       group_t.responsibleAgency = el elements 7,
       group_t.version = el elements 8 \<rparr>"

definition transactionSet_of :: "string list \<Rightarrow> transactionSet_t" where
  "transactionSet_of elements =
     \<lparr> transactionSet_t.type = el elements 1,
       transactionSet_t.controlNumber = el elements 2,
       transactionSet_t.implementationGuide = el elements 3 \<rparr>"

definition reference_of :: "string list \<Rightarrow> reference_t" where
  "reference_of elements =
     \<lparr> reference_t.qualifierCode = el elements 1,
       reference_t.referenceId = el elements 2,
       reference_t.description = el elements 3 \<rparr>"

definition contact_of :: "string list \<Rightarrow> contact_t" where
  "contact_of elements =
     \<lparr> contact_t.contactFunctionCode = el elements 1,
       contact_t.name = el elements 2,
       contact_t.communicationNumberQualifier1 = el elements 3,
       contact_t.communicationNumber1 = el elements 4,
       contact_t.communicationNumberQualifier2 = el elements 5,
       contact_t.communicationNumber2 = el elements 6 \<rparr>"

definition address_of :: "string list \<Rightarrow> address_t" where
  "address_of elements =
     \<lparr> address_t.addressLine1 = el elements 1,
       address_t.addressLine2 = el elements 2,
       address_t.city = None,
       address_t.state = None,
       address_t.postalCode = None,
       address_t.countryCode = None \<rparr>"

text \<open>The four assignments of \<open>parseN4\<close> to the address it found.\<close>

definition set_city_state :: "string list \<Rightarrow> address_t \<Rightarrow> address_t" where
  "set_city_state elements lastAddress =
     lastAddress\<lparr> address_t.city := Some (el elements 1),
                  address_t.state := Some (el elements 2),
                  address_t.postalCode := Some (el elements 3),
                  address_t.countryCode := Some (el elements 4) \<rparr>"

definition transactionSetTrailer_of :: "string list \<Rightarrow> transactionSetTrailer_t" where
  "transactionSetTrailer_of elements =
     \<lparr> transactionSetTrailer_t.segmentCount = el elements 1,
       transactionSetTrailer_t.controlNumber = el elements 2 \<rparr>"

definition functionalGroupTrailer_of :: "string list \<Rightarrow> functionalGroupTrailer_t" where
  "functionalGroupTrailer_of elements =
     \<lparr> functionalGroupTrailer_t.transactionSetCount = el elements 1,
       functionalGroupTrailer_t.controlNumber = el elements 2 \<rparr>"

definition interchangeTrailer_of :: "string list \<Rightarrow> interchangeTrailer_t" where
  "interchangeTrailer_of elements =
     \<lparr> interchangeTrailer_t.groupCount = el elements 1,
       interchangeTrailer_t.controlNumber = el elements 2 \<rparr>"

section \<open>The 837 parser: class \<open>EDI837Parser\<close>\<close>

subsection \<open>Output tree\<close>

record beginningTransaction_t =
  hierarchicalStructure :: elem
  transactionPurpose :: elem
  referenceId :: elem
  date :: elem
  time :: elem
  transactionType :: elem

text \<open>
  The value of \<open>entityTypes[code] || code\<close> is a string, \<open>undefined\<close> (when \<open>code\<close> is), or
  a member that the object literal inherits from \<open>Object.prototype\<close>.
\<close>

datatype jsval = Undefined | Str string | Inherited string

record demographics_t =
  dateFormat :: elem
  birthDate :: elem
  gender :: elem

record entity_t =
  type :: jsval
  entityTypeCode :: elem
  entityType :: elem
  lastName :: elem
  firstName :: elem
  middleName :: elem
  namePrefix :: elem
  nameSuffix :: elem
  identificationQualifier :: elem
  identificationCode :: elem
  providerCode :: "elem option"
  referenceIdQualifier :: "elem option"
  referenceId :: "elem option"
  demographics :: "demographics_t option"

record dateInfo837_t =
  qualifier :: elem
  formatQualifier :: elem
  date :: elem

record service837_t =
  serviceCode :: elem
  chargeAmount :: elem
  unitOfMeasure :: elem
  serviceUnits :: elem
  placeOfService :: elem
  diagnosisPointer :: elem

record healthInfo_t =
  codeQualifier :: elem
  code :: elem
  dateQualifier :: elem
  date :: elem

record claim837_t =
  claimId :: elem
  totalChargeAmount :: elem
  placeOfService :: elem
  providerSignatureIndicator :: elem
  assignmentOfBenefitsIndicator :: elem
  releaseOfInformationIndicator :: elem
  patientSignatureSourceCode :: elem
  services :: "service837_t list option"
  dates :: "dateInfo837_t list option"
  healthInfo :: "healthInfo_t list option"

record subscriberInfo_t =
  payerResponsibilitySequence :: elem
  individualRelationshipCode :: elem
  groupOrPolicyNumber :: elem
  groupName :: elem
  insuranceTypeCode :: elem
  coordinationOfBenefitsCode :: elem

text \<open>
  \<open>this.parsedData\<close> of the 837 parser.  \<open>interchange\<close> is \<open>None\<close> while it is the empty
  object \<open>{}\<close> of the initial literal.
\<close>

record parsedData837_t =
  interchange :: "interchange_t option"
  groups :: "group_t list"
  claims :: "claim837_t list"
  providers :: "entity_t list"
  subscribers :: "entity_t list"
  patients :: "entity_t list"
  services :: "service837_t list"
  transactionSet :: "transactionSet_t option"
  beginningTransaction :: "beginningTransaction_t option"
  references :: "reference_t list option"
  contacts :: "contact_t list option"
  addresses :: "address_t list option"
  subscriberInfo :: "subscriberInfo_t option"
  serviceLineNumber :: "elem option"
  transactionSetTrailer :: "transactionSetTrailer_t option"
  functionalGroupTrailer :: "functionalGroupTrailer_t option"
  interchangeTrailer :: "interchangeTrailer_t option"

text \<open>
  An entity object lives in exactly one of the three entity lists, which only grow at the
  end; a reference to it is the list and the position.  A claim object lives in \<open>claims\<close>;
  a reference to it is its position.
\<close>

datatype entity_ref = SubscriberAt nat | PatientAt nat | ProviderAt nat

text \<open>The local variables of \<open>parseSegments\<close> together with \<open>this.parsedData\<close>.\<close>

record context837_t =
  parsedData :: parsedData837_t
  currentClaim :: "nat option"
  currentSubscriber :: "entity_ref option"
  currentPatient :: "entity_ref option"
  currentProvider :: "entity_ref option"

subsection \<open>Segment handlers\<close>

definition parseISA_837 :: "string list \<Rightarrow> parsedData837_t \<Rightarrow> parsedData837_t" where
  "parseISA_837 elements t = t\<lparr> parsedData837_t.interchange := Some (interchange_of elements) \<rparr>"

definition parseGS_837 :: "string list \<Rightarrow> parsedData837_t \<Rightarrow> parsedData837_t" where
  "parseGS_837 elements t =
     t\<lparr> parsedData837_t.groups := parsedData837_t.groups t @ [group_of elements] \<rparr>"

definition parseST_837 :: "string list \<Rightarrow> parsedData837_t \<Rightarrow> parsedData837_t" where
  "parseST_837 elements t =
     t\<lparr> parsedData837_t.transactionSet := Some (transactionSet_of elements) \<rparr>"

definition parseBHT :: "string list \<Rightarrow> parsedData837_t \<Rightarrow> parsedData837_t" where
  "parseBHT elements t =
     t\<lparr> parsedData837_t.beginningTransaction := Some
         \<lparr> beginningTransaction_t.hierarchicalStructure = el elements 1,
           beginningTransaction_t.transactionPurpose = el elements 2,
           beginningTransaction_t.referenceId = el elements 3,
           beginningTransaction_t.date = el elements 4,
           beginningTransaction_t.time = el elements 5,
           beginningTransaction_t.transactionType = el elements 6 \<rparr> \<rparr>"

definition entityTypes :: "(string \<times> string) list" where
  "entityTypes =
     [(''85'', ''billing_provider''),
      (''IL'', ''subscriber''),
      (''QC'', ''patient''),
      (''PR'', ''payer''),
      (''82'', ''rendering_provider''),
      (''77'', ''service_facility''),
      (''DN'', ''referring_provider'')]"

text \<open>The property names every object literal inherits from \<open>Object.prototype\<close>; their
  values are functions or objects, hence truthy.\<close>

definition object_prototype_members :: "string list" where
  "object_prototype_members =
     [''constructor'', ''hasOwnProperty'', ''isPrototypeOf'', ''propertyIsEnumerable'',
      ''toLocaleString'', ''toString'', ''valueOf'', ''__proto__'',
      ''__defineGetter__'', ''__defineSetter__'', ''__lookupGetter__'', ''__lookupSetter__'']"

definition getEntityType :: "elem \<Rightarrow> jsval" where
  "getEntityType c0 =
     (case c0 of
        None \<Rightarrow> Undefined
      | Some c \<Rightarrow>
          (case map_of entityTypes c of
             Some role \<Rightarrow> Str role
           | None \<Rightarrow> if c \<in> set object_prototype_members then Inherited c else Str c))"

definition parseNM1_837 :: "string list \<Rightarrow> entity_t" where
  "parseNM1_837 elements =
     (let typeCode = el elements 1;
          resolved = getEntityType typeCode
      in \<lparr> entity_t.type = resolved,
           entity_t.entityTypeCode = typeCode,
           entity_t.entityType = el elements 2,
           entity_t.lastName = el elements 3,
           entity_t.firstName = el elements 4,
           entity_t.middleName = el elements 5,
           entity_t.namePrefix = el elements 6,
           entity_t.nameSuffix = el elements 7,
           entity_t.identificationQualifier = el elements 8,
           entity_t.identificationCode = el elements 9,
           entity_t.providerCode = None,
           entity_t.referenceIdQualifier = None,
           entity_t.referenceId = None,
           entity_t.demographics = None \<rparr>)"

text \<open>Assignment to properties of the entity object a reference points to.\<close>

fun update_entity :: "entity_ref \<Rightarrow> (entity_t \<Rightarrow> entity_t) \<Rightarrow> parsedData837_t \<Rightarrow> parsedData837_t" where
  "update_entity (SubscriberAt i) f t =
     t\<lparr> parsedData837_t.subscribers :=
          (parsedData837_t.subscribers t)[i := f (parsedData837_t.subscribers t ! i)] \<rparr>"
| "update_entity (PatientAt i) f t =
     t\<lparr> parsedData837_t.patients :=
          (parsedData837_t.patients t)[i := f (parsedData837_t.patients t ! i)] \<rparr>"
| "update_entity (ProviderAt i) f t =
     t\<lparr> parsedData837_t.providers :=
          (parsedData837_t.providers t)[i := f (parsedData837_t.providers t ! i)] \<rparr>"

definition parsePRV :: "string list \<Rightarrow> entity_ref option \<Rightarrow> parsedData837_t \<Rightarrow> thrown + parsedData837_t" where
  "parsePRV elements provider t =
     (if provider \<noteq> None then
        on_object provider ''providerCode''
          (\<lambda>r.
          update_entity r
            (\<lambda>e. e\<lparr> entity_t.providerCode := Some (el elements 1),
                     entity_t.referenceIdQualifier := Some (el elements 2),
                     entity_t.referenceId := Some (el elements 3) \<rparr>) t)
      else Inr t)"

definition parseDMG :: "string list \<Rightarrow> entity_ref option \<Rightarrow> parsedData837_t \<Rightarrow> thrown + parsedData837_t" where
  "parseDMG elements entity t =
     (if entity \<noteq> None then
        on_object entity ''demographics''
          (\<lambda>r.
          update_entity r
            (\<lambda>e. e\<lparr> entity_t.demographics := Some
                       \<lparr> demographics_t.dateFormat = el elements 1,
                         demographics_t.birthDate = el elements 2,
                         demographics_t.gender = el elements 3 \<rparr> \<rparr>) t)
      else Inr t)"

definition parseREF_837 :: "string list \<Rightarrow> parsedData837_t \<Rightarrow> parsedData837_t" where
  "parseREF_837 elements t =
     (let reference = reference_of elements
      in t\<lparr> parsedData837_t.references := push_lazy (parsedData837_t.references t) reference \<rparr>)"

definition parsePER_837 :: "string list \<Rightarrow> parsedData837_t \<Rightarrow> parsedData837_t" where
  "parsePER_837 elements t =
     (let contact = contact_of elements
      in t\<lparr> parsedData837_t.contacts := push_lazy (parsedData837_t.contacts t) contact \<rparr>)"

definition parseCLM :: "string list \<Rightarrow> claim837_t" where
  "parseCLM elements =
     \<lparr> claim837_t.claimId = el elements 1,
       claim837_t.totalChargeAmount = el elements 2,
       claim837_t.placeOfService = el elements 5,
       claim837_t.providerSignatureIndicator = el elements 6,
       claim837_t.assignmentOfBenefitsIndicator = el elements 7,
       claim837_t.releaseOfInformationIndicator = el elements 8,
       claim837_t.patientSignatureSourceCode = el elements 9,
       claim837_t.services = None,
       claim837_t.dates = None,
       claim837_t.healthInfo = None \<rparr>"

text \<open>Assignment to properties of the claim object at a position of \<open>claims\<close>.\<close>

definition update_claim837 :: "nat \<Rightarrow> (claim837_t \<Rightarrow> claim837_t) \<Rightarrow> parsedData837_t \<Rightarrow> parsedData837_t" where
  "update_claim837 i f t =
     t\<lparr> parsedData837_t.claims :=
          (parsedData837_t.claims t)[i := f (parsedData837_t.claims t ! i)] \<rparr>"

definition parseDTP :: "string list \<Rightarrow> nat option \<Rightarrow> parsedData837_t \<Rightarrow> thrown + parsedData837_t" where
  "parseDTP elements claim t =
     (let dateInfo = \<lparr> dateInfo837_t.qualifier = el elements 1,
                       dateInfo837_t.formatQualifier = el elements 2,
                       dateInfo837_t.date = el elements 3 \<rparr>
      in if claim \<noteq> None then
           on_object claim ''dates''
             (\<lambda>i.
             update_claim837 i
               (\<lambda>c. c\<lparr> claim837_t.dates := push_lazy (claim837_t.dates c) dateInfo \<rparr>) t)
         else Inr t)"

definition parseSV1 :: "string list \<Rightarrow> service837_t" where
  "parseSV1 elements =
     \<lparr> service837_t.serviceCode = el elements 1,
       service837_t.chargeAmount = el elements 2,
       service837_t.unitOfMeasure = el elements 3,
       service837_t.serviceUnits = el elements 4,
       service837_t.placeOfService = el elements 5,
       service837_t.diagnosisPointer = el elements 7 \<rparr>"

definition parseN3_837 :: "string list \<Rightarrow> parsedData837_t \<Rightarrow> parsedData837_t" where
  "parseN3_837 elements t =
     t\<lparr> parsedData837_t.addresses :=
          push_lazy (parsedData837_t.addresses t) (address_of elements) \<rparr>"

text \<open>\<open>this.parsedData.addresses?.[this.parsedData.addresses.length - 1]\<close> is \<open>undefined\<close>
  when \<open>addresses\<close> is absent or empty, and else the last address object, here its
  position.\<close>

definition parseN4_837 :: "string list \<Rightarrow> parsedData837_t \<Rightarrow> thrown + parsedData837_t" where
  "parseN4_837 elements t =
     (let lastAddress =
            (case parsedData837_t.addresses t of
               None \<Rightarrow> None
             | Some addrs \<Rightarrow> if addrs = [] then None else Some (length addrs - 1))
      in if lastAddress \<noteq> None then
           on_object lastAddress ''city''
             (\<lambda>i. t\<lparr> parsedData837_t.addresses :=
                       map_option (\<lambda>addrs. addrs[i := set_city_state elements (addrs ! i)])
                         (parsedData837_t.addresses t) \<rparr>)
         else Inr t)"

definition parseSBR :: "string list \<Rightarrow> parsedData837_t \<Rightarrow> parsedData837_t" where
  "parseSBR elements t =
     t\<lparr> parsedData837_t.subscriberInfo := Some
         \<lparr> subscriberInfo_t.payerResponsibilitySequence = el elements 1,
           subscriberInfo_t.individualRelationshipCode = el elements 2,
           subscriberInfo_t.groupOrPolicyNumber = el elements 3,
           subscriberInfo_t.groupName = el elements 4,
           subscriberInfo_t.insuranceTypeCode = el elements 5,
           subscriberInfo_t.coordinationOfBenefitsCode = el elements 9 \<rparr> \<rparr>"

text \<open>\<open>elements[1]?.split(':')[k]\<close>.\<close>

definition colon_part :: "elem \<Rightarrow> nat \<Rightarrow> elem" where
  "colon_part e k = (case e of None \<Rightarrow> None | Some field \<Rightarrow> el (js_split (CHR '':'') field) k)"

definition healthInfo_of :: "string list \<Rightarrow> healthInfo_t" where
  "healthInfo_of elements =
     \<lparr> healthInfo_t.codeQualifier = colon_part (el elements 1) 0,
       healthInfo_t.code = colon_part (el elements 1) 1,
       healthInfo_t.dateQualifier = el elements 2,
       healthInfo_t.date = el elements 3 \<rparr>"

definition parseHI :: "string list \<Rightarrow> nat option \<Rightarrow> parsedData837_t \<Rightarrow> thrown + parsedData837_t" where
  "parseHI elements claim t =
     (let info = healthInfo_of elements
      in if claim \<noteq> None then
           on_object claim ''healthInfo''
             (\<lambda>i.
             update_claim837 i
               (\<lambda>c. c\<lparr> claim837_t.healthInfo := push_lazy (claim837_t.healthInfo c) info \<rparr>) t)
         else Inr t)"

definition parseLX :: "string list \<Rightarrow> parsedData837_t \<Rightarrow> parsedData837_t" where
  "parseLX elements t = t\<lparr> parsedData837_t.serviceLineNumber := Some (el elements 1) \<rparr>"

definition parseSE_837 :: "string list \<Rightarrow> parsedData837_t \<Rightarrow> parsedData837_t" where
  "parseSE_837 elements t =
     t\<lparr> parsedData837_t.transactionSetTrailer := Some (transactionSetTrailer_of elements) \<rparr>"

definition parseGE_837 :: "string list \<Rightarrow> parsedData837_t \<Rightarrow> parsedData837_t" where
  "parseGE_837 elements t =
     t\<lparr> parsedData837_t.functionalGroupTrailer := Some (functionalGroupTrailer_of elements) \<rparr>"

definition parseIEA_837 :: "string list \<Rightarrow> parsedData837_t \<Rightarrow> parsedData837_t" where
  "parseIEA_837 elements t =
     t\<lparr> parsedData837_t.interchangeTrailer := Some (interchangeTrailer_of elements) \<rparr>"

subsection \<open>The dispatch loop \<open>parseSegments\<close>\<close>

definition on_parsedData837 :: "(parsedData837_t \<Rightarrow> parsedData837_t) \<Rightarrow> context837_t \<Rightarrow> context837_t" where
  "on_parsedData837 f s = s\<lparr> context837_t.parsedData := f (context837_t.parsedData s) \<rparr>"

text \<open>A handler that may throw, run on \<open>this.parsedData\<close> in the state \<open>s\<close>: what is thrown
  comes with the state at that moment, here \<open>s\<close> itself, since every such handler throws, if
  at all, before its first assignment.\<close>

definition in_state837 ::
  "thrown + parsedData837_t \<Rightarrow> context837_t \<Rightarrow> (thrown \<times> context837_t) + context837_t" where
  "in_state837 r s =
     (case r of
        Inl e \<Rightarrow> Inl (e, s)
      | Inr t \<Rightarrow> Inr (s\<lparr> context837_t.parsedData := t \<rparr>))"

text \<open>The body of \<open>case 'NM1'\<close>: the entity is pushed, and becomes current, only when its
  resolved \<open>type\<close> is exactly \<open>'subscriber'\<close>, \<open>'patient'\<close> or \<open>'provider'\<close>.\<close>

definition case_NM1_837 :: "string list \<Rightarrow> context837_t \<Rightarrow> context837_t" where
  "case_NM1_837 elements s =
     (let e = parseNM1_837 elements; t = context837_t.parsedData s
      in if entity_t.type e = Str ''subscriber'' then
           s\<lparr> context837_t.currentSubscriber := Some (SubscriberAt (length (parsedData837_t.subscribers t))),
              context837_t.parsedData :=
                t\<lparr> parsedData837_t.subscribers := parsedData837_t.subscribers t @ [e] \<rparr> \<rparr>
         else if entity_t.type e = Str ''patient'' then
           s\<lparr> context837_t.currentPatient := Some (PatientAt (length (parsedData837_t.patients t))),
              context837_t.parsedData :=
                t\<lparr> parsedData837_t.patients := parsedData837_t.patients t @ [e] \<rparr> \<rparr>
         else if entity_t.type e = Str ''provider'' then
           s\<lparr> context837_t.currentProvider := Some (ProviderAt (length (parsedData837_t.providers t))),
              context837_t.parsedData :=
                t\<lparr> parsedData837_t.providers := parsedData837_t.providers t @ [e] \<rparr> \<rparr>
         else s)"

text \<open>The body of \<open>case 'CLM'\<close>.\<close>

definition case_CLM :: "string list \<Rightarrow> context837_t \<Rightarrow> context837_t" where
  "case_CLM elements s =
     (let t = context837_t.parsedData s
      in s\<lparr> context837_t.currentClaim := Some (length (parsedData837_t.claims t)),
            context837_t.parsedData :=
              t\<lparr> parsedData837_t.claims := parsedData837_t.claims t @ [parseCLM elements] \<rparr> \<rparr>)"

text \<open>The body of \<open>case 'SV1'\<close>: the service goes to the flat list and, when a claim is
  current, to that claim's own list.\<close>

definition case_SV1 :: "string list \<Rightarrow> context837_t \<Rightarrow> (thrown \<times> context837_t) + context837_t" where
  "case_SV1 elements s =
     (let service = parseSV1 elements;
          t = context837_t.parsedData s;
          s1 = s\<lparr> context837_t.parsedData :=
                    t\<lparr> parsedData837_t.services := parsedData837_t.services t @ [service] \<rparr> \<rparr>
      in if context837_t.currentClaim s \<noteq> None then
           in_state837
             (on_object (context837_t.currentClaim s) ''services''
                (\<lambda>i. update_claim837 i
                        (\<lambda>c. c\<lparr> claim837_t.services := push_lazy (claim837_t.services c) service \<rparr>)
                        (context837_t.parsedData s1)))
             s1
         else Inr s1)"

text \<open>\<open>currentSubscriber || currentPatient\<close>: an object reference is truthy.\<close>

definition js_or :: "'a option \<Rightarrow> 'a option \<Rightarrow> 'a option" where
  "js_or a b = (case a of Some x \<Rightarrow> Some x | None \<Rightarrow> b)"

text \<open>
  The \<open>try\<close> block of one turn of the loop: split the segment into elements and switch on
  \<open>elements[0]\<close>.  The result is the state after the case body, or what the body threw
  together with the state at that moment.
\<close>

definition switch_837 ::
  "char \<Rightarrow> context837_t \<Rightarrow> string \<Rightarrow> (thrown \<times> context837_t) + context837_t" where
  "switch_837 delim s segment =
     (let elements = js_split delim segment;
          segmentId = el elements 0;
          t = context837_t.parsedData s
      in if segmentId = Some ''ISA'' then Inr (on_parsedData837 (parseISA_837 elements) s)
         else if segmentId = Some ''GS'' then Inr (on_parsedData837 (parseGS_837 elements) s)
         else if segmentId = Some ''ST'' then Inr (on_parsedData837 (parseST_837 elements) s)
         else if segmentId = Some ''BHT'' then Inr (on_parsedData837 (parseBHT elements) s)
         else if segmentId = Some ''NM1'' then Inr (case_NM1_837 elements s)
         else if segmentId = Some ''PRV'' then
           in_state837 (parsePRV elements (context837_t.currentProvider s) t) s
         else if segmentId = Some ''DMG'' then
           in_state837
             (parseDMG elements
                (js_or (context837_t.currentSubscriber s) (context837_t.currentPatient s)) t) s
         else if segmentId = Some ''REF'' then Inr (on_parsedData837 (parseREF_837 elements) s)
         else if segmentId = Some ''PER'' then Inr (on_parsedData837 (parsePER_837 elements) s)
         else if segmentId = Some ''CLM'' then Inr (case_CLM elements s)
         else if segmentId = Some ''DTP'' then
           in_state837 (parseDTP elements (context837_t.currentClaim s) t) s
         else if segmentId = Some ''SV1'' then case_SV1 elements s
         else if segmentId = Some ''N3'' then Inr (on_parsedData837 (parseN3_837 elements) s)
         else if segmentId = Some ''N4'' then in_state837 (parseN4_837 elements t) s
         else if segmentId = Some ''SBR'' then Inr (on_parsedData837 (parseSBR elements) s)
         else if segmentId = Some ''HI'' then
           in_state837 (parseHI elements (context837_t.currentClaim s) t) s
         else if segmentId = Some ''LX'' then Inr (on_parsedData837 (parseLX elements) s)
         else if segmentId = Some ''SE'' then Inr (on_parsedData837 (parseSE_837 elements) s)
         else if segmentId = Some ''GE'' then Inr (on_parsedData837 (parseGE_837 elements) s)
         else if segmentId = Some ''IEA'' then Inr (on_parsedData837 (parseIEA_837 elements) s)
         else Inr s)"

text \<open>
  One turn of the loop, with its \<open>catch\<close>: what the case body threw is written to the
  console, which is no part of the state, and the loop goes on from the state the throw
  left.
\<close>

definition handleSegment_837 :: "char \<Rightarrow> context837_t \<Rightarrow> string \<Rightarrow> context837_t" where
  "handleSegment_837 delim s segment =
     (case switch_837 delim s segment of
        Inl (segmentError, s0) \<Rightarrow> s0
      | Inr s' \<Rightarrow> s')"

text \<open>The state at the top of \<open>parseSegments\<close>: the four locals are \<open>null\<close>.\<close>

definition start_837 :: "parsedData837_t \<Rightarrow> context837_t" where
  "start_837 t =
     \<lparr> context837_t.parsedData = t,
       context837_t.currentClaim = None,
       context837_t.currentSubscriber = None,
       context837_t.currentPatient = None,
       context837_t.currentProvider = None \<rparr>"

definition parseSegments_837 :: "char \<Rightarrow> string list \<Rightarrow> parsedData837_t \<Rightarrow> parsedData837_t" where
  "parseSegments_837 delim segs t =
     context837_t.parsedData (foldl (handleSegment_837 delim) (start_837 t) segs)"

subsection \<open>The entry point \<open>parse\<close>\<close>

text \<open>The fields of a parser object; \<open>parsedData\<close> is \<open>None\<close> while it is the \<open>{}\<close> of the
  constructor.\<close>

record parser837_t =
  segmentDelimiter :: char
  elementDelimiter :: char
  subElementDelimiter :: char
  segments :: "string list"
  parsedData :: "parsedData837_t option"

definition new_EDI837Parser :: parser837_t where
  "new_EDI837Parser =
     \<lparr> parser837_t.segmentDelimiter = CHR ''~'',
       parser837_t.elementDelimiter = CHR ''*'',
       parser837_t.subElementDelimiter = CHR ''^'',
       parser837_t.segments = [],
       parser837_t.parsedData = None \<rparr>"

definition initial_parsedData837 :: parsedData837_t where
  "initial_parsedData837 =
     \<lparr> parsedData837_t.interchange = None,
       parsedData837_t.groups = [],
       parsedData837_t.claims = [],
       parsedData837_t.providers = [],
       parsedData837_t.subscribers = [],
       parsedData837_t.patients = [],
       parsedData837_t.services = [],
       parsedData837_t.transactionSet = None,
       parsedData837_t.beginningTransaction = None,
       parsedData837_t.references = None,
       parsedData837_t.contacts = None,
       parsedData837_t.addresses = None,
       parsedData837_t.subscriberInfo = None,
       parsedData837_t.serviceLineNumber = None,
       parsedData837_t.transactionSetTrailer = None,
       parsedData837_t.functionalGroupTrailer = None,
       parsedData837_t.interchangeTrailer = None \<rparr>"

text \<open>The \<open>try\<close> block of \<open>parse\<close>: the thrown error or the returned tree, and the parser
  object as the call leaves it.\<close>

definition parse_try_837 :: "parser837_t \<Rightarrow> string \<Rightarrow> (error + parsedData837_t) \<times> parser837_t" where
  "parse_try_837 this ediData =
     (let cleaned = cleanData ediData;
          this1 = this\<lparr> parser837_t.segments :=
                           split_segments (parser837_t.segmentDelimiter this) cleaned \<rparr>
      in if length (parser837_t.segments this1) = 0 then
           (Inl (Error ''No valid EDI segments found''), this1)
         else
           (let result = parseSegments_837 (parser837_t.elementDelimiter this1)
                           (parser837_t.segments this1) initial_parsedData837
            in (Inr result, this1\<lparr> parser837_t.parsedData := Some result \<rparr>)))"

text \<open>The \<open>catch\<close> of \<open>parse\<close> wraps the message of whatever the \<open>try\<close> block threw.\<close>

definition parse_837 :: "parser837_t \<Rightarrow> string \<Rightarrow> (error + parsedData837_t) \<times> parser837_t" where
  "parse_837 this ediData =
     (case parse_try_837 this ediData of
        (Inl (Error message), this') \<Rightarrow> (Inl (Error (''Parsing failed: '' @ message)), this')
      | (Inr tree, this') \<Rightarrow> (Inr tree, this'))"

section \<open>The 835 parser: class \<open>EDI835Parser\<close>\<close>

subsection \<open>Output tree\<close>

record traceNumber_t =
  traceTypeCode :: elem
  traceNumber :: elem
  originatingCompanyId :: elem
  referenceId :: elem

record dateInfo835_t =
  qualifier :: elem
  date :: elem
  time :: elem
  timeCode :: elem

text \<open>
  A payment object.  \<open>claims\<close> holds references: each entry is the position, in the
  top-level \<open>claims\<close> list, of the claim object that was pushed to both lists, so that a
  later assignment to the claim is seen from both.
\<close>

record payment_t =
  transactionHandlingCode :: elem
  totalPremiumPaymentAmount :: elem
  creditDebitFlag :: elem
  paymentMethodCode :: elem
  paymentFormatCode :: elem
  senderDFIIdQualifier :: elem
  senderDFIId :: elem
  senderAccountQualifier :: elem
  senderAccountNumber :: elem
  originatingCompanyId :: elem
  originatingCompanySupplementalCode :: elem
  receiverDFIIdQualifier :: elem
  receiverDFIId :: elem
  receiverAccountQualifier :: elem
  receiverAccountNumber :: elem
  effectiveEntryDate :: elem
  traceNumber :: "traceNumber_t option"
  dates :: "dateInfo835_t list option"
  claims :: "nat list option"

record payer_t =
  entityIdentifierCode :: elem
  name :: elem
  identificationCodeQualifier :: elem
  identificationCode :: elem

record adjustment_t =
  claimAdjustmentGroupCode :: elem
  adjustmentReasonCode1 :: elem
  adjustmentAmount1 :: elem
  adjustmentQuantity1 :: elem
  adjustmentReasonCode2 :: elem
  adjustmentAmount2 :: elem
  adjustmentQuantity2 :: elem

record entity835_t =
  entityIdentifierCode :: elem
  entityTypeQualifier :: elem
  lastName :: elem
  firstName :: elem
  middleName :: elem
  namePrefix :: elem
  nameSuffix :: elem
  identificationCodeQualifier :: elem
  identificationCode :: elem

record inpatientAdjudication_t =
  coveredDays :: elem
  ppsOperatingOutlierAmount :: elem
  lifetimeReserveDays :: elem
  coinsuranceDays :: elem
  nonCoveredDays :: elem
  totalDeductibleAmount :: elem
  totalCoinsuranceAmount :: elem
  accommodationTotalAmount :: elem
  otherMedicalServiceTotalAmount :: elem

record outpatientAdjudication_t =
  reimbursementRate :: elem
  hcpcsPayableAmount :: elem
  remarkCode1 :: elem
  remarkCode2 :: elem
  remarkCode3 :: elem
  remarkCode4 :: elem
  remarkCode5 :: elem
  endStageRenalDiseasePaymentAmount :: elem
  nonPayableProfessionalComponentBilledAmount :: elem

record service835_t =
  serviceCode :: elem
  chargeAmount :: elem
  paymentAmount :: elem
  revenueCode :: elem
  paidUnits :: elem
  bundledUnits :: elem

record amount_t =
  amountQualifierCode :: elem
  monetaryAmount :: elem

record quantity_t =
  quantityQualifier :: elem
  quantity :: elem

record providerAdjustment_t =
  providerIdentifier :: elem
  fiscalPeriodDate :: elem
  adjustmentIdentifier1 :: elem
  providerAdjustmentAmount1 :: elem
  adjustmentIdentifier2 :: elem
  providerAdjustmentAmount2 :: elem

record claim835_t =
  claimSubmitterIdentifier :: elem
  claimStatusCode :: elem
  totalClaimChargeAmount :: elem
  claimPaymentAmount :: elem
  patientResponsibilityAmount :: elem
  claimFilingIndicatorCode :: elem
  payerClaimControlNumber :: elem
  facilityTypeCode :: elem
  claimFrequencyCode :: elem
  adjustments :: "adjustment_t list option"
  entities :: "entity835_t list option"
  inpatientAdjudication :: "inpatientAdjudication_t option"
  outpatientAdjudication :: "outpatientAdjudication_t option"
  services :: "service835_t list option"
  amounts :: "amount_t list option"
  quantities :: "quantity_t list option"

text \<open>\<open>this.parsedData\<close> of the 835 parser; \<open>interchange\<close> is \<open>None\<close> while it is \<open>{}\<close>.\<close>

record parsedData835_t =
  interchange :: "interchange_t option"
  groups :: "group_t list"
  payments :: "payment_t list"
  claims :: "claim835_t list"
  services :: "service835_t list"
  adjustments :: "providerAdjustment_t list"
  references :: "reference_t list"
  contacts :: "contact_t list"
  addresses :: "address_t list"
  transactionSet :: "transactionSet_t option"
  transactionSetTrailer :: "transactionSetTrailer_t option"
  functionalGroupTrailer :: "functionalGroupTrailer_t option"
  interchangeTrailer :: "interchangeTrailer_t option"

text \<open>The local variables of \<open>parseSegments\<close> together with \<open>this.parsedData\<close>.  The current
  payment and the current claim are positions in \<open>payments\<close> and \<open>claims\<close>; the object of
  \<open>parseN1\<close> is kept in \<open>currentProvider\<close> only.\<close>

record context835_t =
  parsedData :: parsedData835_t
  currentPayment :: "nat option"
  currentClaim :: "nat option"
  currentProvider :: "payer_t option"

subsection \<open>Segment handlers\<close>

definition parseISA_835 :: "string list \<Rightarrow> parsedData835_t \<Rightarrow> parsedData835_t" where
  "parseISA_835 elements t = t\<lparr> parsedData835_t.interchange := Some (interchange_of elements) \<rparr>"

definition parseGS_835 :: "string list \<Rightarrow> parsedData835_t \<Rightarrow> parsedData835_t" where
  "parseGS_835 elements t =
     t\<lparr> parsedData835_t.groups := parsedData835_t.groups t @ [group_of elements] \<rparr>"

definition parseST_835 :: "string list \<Rightarrow> parsedData835_t \<Rightarrow> parsedData835_t" where
  "parseST_835 elements t =
     t\<lparr> parsedData835_t.transactionSet := Some (transactionSet_of elements) \<rparr>"

definition parseBPR :: "string list \<Rightarrow> payment_t" where
  "parseBPR elements =
     \<lparr> payment_t.transactionHandlingCode = el elements 1,
       payment_t.totalPremiumPaymentAmount = el elements 2,
       payment_t.creditDebitFlag = el elements 3,
       payment_t.paymentMethodCode = el elements 4,
       payment_t.paymentFormatCode = el elements 5,
       payment_t.senderDFIIdQualifier = el elements 6,
       payment_t.senderDFIId = el elements 7,
       payment_t.senderAccountQualifier = el elements 8,
       payment_t.senderAccountNumber = el elements 9,
       payment_t.originatingCompanyId = el elements 10,
       payment_t.originatingCompanySupplementalCode = el elements 11,
       payment_t.receiverDFIIdQualifier = el elements 12,
       payment_t.receiverDFIId = el elements 13,
       payment_t.receiverAccountQualifier = el elements 14,
       payment_t.receiverAccountNumber = el elements 15,
       payment_t.effectiveEntryDate = el elements 16,
       payment_t.traceNumber = None,
       payment_t.dates = None,
       payment_t.claims = None \<rparr>"

text \<open>Assignment to properties of the payment object at a position of \<open>payments\<close>.\<close>

definition update_payment :: "nat \<Rightarrow> (payment_t \<Rightarrow> payment_t) \<Rightarrow> parsedData835_t \<Rightarrow> parsedData835_t" where
  "update_payment i f t =
     t\<lparr> parsedData835_t.payments :=
          (parsedData835_t.payments t)[i := f (parsedData835_t.payments t ! i)] \<rparr>"

text \<open>Assignment to properties of the claim object at a position of \<open>claims\<close>.\<close>

definition update_claim835 :: "nat \<Rightarrow> (claim835_t \<Rightarrow> claim835_t) \<Rightarrow> parsedData835_t \<Rightarrow> parsedData835_t" where
  "update_claim835 i f t =
     t\<lparr> parsedData835_t.claims :=
          (parsedData835_t.claims t)[i := f (parsedData835_t.claims t ! i)] \<rparr>"

definition parseTRN :: "string list \<Rightarrow> nat option \<Rightarrow> parsedData835_t \<Rightarrow> thrown + parsedData835_t" where
  "parseTRN elements payment t =
     (let trace = \<lparr> traceNumber_t.traceTypeCode = el elements 1,
                    traceNumber_t.traceNumber = el elements 2,
                    traceNumber_t.originatingCompanyId = el elements 3,
                    traceNumber_t.referenceId = el elements 4 \<rparr>
      in if payment \<noteq> None then
           on_object payment ''traceNumber''
             (\<lambda>i. update_payment i (\<lambda>p. p\<lparr> payment_t.traceNumber := Some trace \<rparr>) t)
         else Inr t)"

definition parseREF_835 :: "string list \<Rightarrow> parsedData835_t \<Rightarrow> parsedData835_t" where
  "parseREF_835 elements t =
     (let reference = reference_of elements
      in t\<lparr> parsedData835_t.references := parsedData835_t.references t @ [reference] \<rparr>)"

definition dateInfo835_of :: "string list \<Rightarrow> dateInfo835_t" where
  "dateInfo835_of elements =
     \<lparr> dateInfo835_t.qualifier = el elements 1,
       dateInfo835_t.date = el elements 2,
       dateInfo835_t.time = el elements 3,
       dateInfo835_t.timeCode = el elements 4 \<rparr>"

text \<open>\<open>parseDTM(elements, payment)\<close>: the date goes to the payment it is given.\<close>

definition parseDTM :: "string list \<Rightarrow> nat option \<Rightarrow> parsedData835_t \<Rightarrow> thrown + parsedData835_t" where
  "parseDTM elements payment t =
     (let dateInfo = dateInfo835_of elements
      in if payment \<noteq> None then
           on_object payment ''dates''
             (\<lambda>i.
             update_payment i
               (\<lambda>p. p\<lparr> payment_t.dates := push_lazy (payment_t.dates p) dateInfo \<rparr>) t)
         else Inr t)"

definition parseN1 :: "string list \<Rightarrow> payer_t" where
  "parseN1 elements =
     \<lparr> payer_t.entityIdentifierCode = el elements 1,
       payer_t.name = el elements 2,
       payer_t.identificationCodeQualifier = el elements 3,
       payer_t.identificationCode = el elements 4 \<rparr>"

definition parseN3_835 :: "string list \<Rightarrow> parsedData835_t \<Rightarrow> parsedData835_t" where
  "parseN3_835 elements t =
     t\<lparr> parsedData835_t.addresses := parsedData835_t.addresses t @ [address_of elements] \<rparr>"

definition parseN4_835 :: "string list \<Rightarrow> parsedData835_t \<Rightarrow> thrown + parsedData835_t" where
  "parseN4_835 elements t =
     (let addrs = parsedData835_t.addresses t;
          lastAddress = (if addrs = [] then None else Some (length addrs - 1))
      in if lastAddress \<noteq> None then
           on_object lastAddress ''city''
             (\<lambda>i. t\<lparr> parsedData835_t.addresses :=
                       addrs[i := set_city_state elements (addrs ! i)] \<rparr>)
         else Inr t)"

definition parsePER_835 :: "string list \<Rightarrow> parsedData835_t \<Rightarrow> parsedData835_t" where
  "parsePER_835 elements t =
     (let contact = contact_of elements
      in t\<lparr> parsedData835_t.contacts := parsedData835_t.contacts t @ [contact] \<rparr>)"

definition parseCLP :: "string list \<Rightarrow> claim835_t" where
  "parseCLP elements =
     \<lparr> claim835_t.claimSubmitterIdentifier = el elements 1,
       claim835_t.claimStatusCode = el elements 2,
       claim835_t.totalClaimChargeAmount = el elements 3,
       claim835_t.claimPaymentAmount = el elements 4,
       claim835_t.patientResponsibilityAmount = el elements 5,
       claim835_t.claimFilingIndicatorCode = el elements 6,
       claim835_t.payerClaimControlNumber = el elements 7,
       claim835_t.facilityTypeCode = el elements 8,
       claim835_t.claimFrequencyCode = el elements 9,
       claim835_t.adjustments = None,
       claim835_t.entities = None,
       claim835_t.inpatientAdjudication = None,
       claim835_t.outpatientAdjudication = None,
       claim835_t.services = None,
       claim835_t.amounts = None,
       claim835_t.quantities = None \<rparr>"

definition adjustment_of :: "string list \<Rightarrow> adjustment_t" where
  "adjustment_of elements =
     \<lparr> adjustment_t.claimAdjustmentGroupCode = el elements 1,
       adjustment_t.adjustmentReasonCode1 = el elements 2,
       adjustment_t.adjustmentAmount1 = el elements 3,
       adjustment_t.adjustmentQuantity1 = el elements 4,
       adjustment_t.adjustmentReasonCode2 = el elements 5,
       adjustment_t.adjustmentAmount2 = el elements 6,
       adjustment_t.adjustmentQuantity2 = el elements 7 \<rparr>"

definition parseCAS :: "string list \<Rightarrow> nat option \<Rightarrow> parsedData835_t \<Rightarrow> thrown + parsedData835_t" where
  "parseCAS elements claim t =
     (let adjustment = adjustment_of elements
      in if claim \<noteq> None then
           on_object claim ''adjustments''
             (\<lambda>i.
             update_claim835 i
               (\<lambda>c. c\<lparr> claim835_t.adjustments := push_lazy (claim835_t.adjustments c) adjustment \<rparr>) t)
         else Inr t)"

definition parseNM1_835 :: "string list \<Rightarrow> nat option \<Rightarrow> parsedData835_t \<Rightarrow> thrown + parsedData835_t" where
  "parseNM1_835 elements claim t =
     (let entity = \<lparr> entity835_t.entityIdentifierCode = el elements 1,
                     entity835_t.entityTypeQualifier = el elements 2,
                     entity835_t.lastName = el elements 3,
                     entity835_t.firstName = el elements 4,
                     entity835_t.middleName = el elements 5,
                     entity835_t.namePrefix = el elements 6,
                     entity835_t.nameSuffix = el elements 7,
                     entity835_t.identificationCodeQualifier = el elements 8,
                     entity835_t.identificationCode = el elements 9 \<rparr>
      in if claim \<noteq> None then
           on_object claim ''entities''
             (\<lambda>i.
             update_claim835 i
               (\<lambda>c. c\<lparr> claim835_t.entities := push_lazy (claim835_t.entities c) entity \<rparr>) t)
         else Inr t)"

definition parseMIA :: "string list \<Rightarrow> nat option \<Rightarrow> parsedData835_t \<Rightarrow> thrown + parsedData835_t" where
  "parseMIA elements claim t =
     (if claim \<noteq> None then
        on_object claim ''inpatientAdjudication''
          (\<lambda>i.
          update_claim835 i
            (\<lambda>c. c\<lparr> claim835_t.inpatientAdjudication := Some
                 \<lparr> inpatientAdjudication_t.coveredDays = el elements 1,
                   inpatientAdjudication_t.ppsOperatingOutlierAmount = el elements 2,
                   inpatientAdjudication_t.lifetimeReserveDays = el elements 3,
                   inpatientAdjudication_t.coinsuranceDays = el elements 4,
                   inpatientAdjudication_t.nonCoveredDays = el elements 5,
                   inpatientAdjudication_t.totalDeductibleAmount = el elements 6,
                   inpatientAdjudication_t.totalCoinsuranceAmount = el elements 7,
                   inpatientAdjudication_t.accommodationTotalAmount = el elements 8,
                   inpatientAdjudication_t.otherMedicalServiceTotalAmount = el elements 9 \<rparr> \<rparr>) t)
      else Inr t)"

definition parseMOA :: "string list \<Rightarrow> nat option \<Rightarrow> parsedData835_t \<Rightarrow> thrown + parsedData835_t" where
  "parseMOA elements claim t =
     (if claim \<noteq> None then
        on_object claim ''outpatientAdjudication''
          (\<lambda>i.
          update_claim835 i
            (\<lambda>c. c\<lparr> claim835_t.outpatientAdjudication := Some
                 \<lparr> outpatientAdjudication_t.reimbursementRate = el elements 1,
                   outpatientAdjudication_t.hcpcsPayableAmount = el elements 2,
                   outpatientAdjudication_t.remarkCode1 = el elements 3,
                   outpatientAdjudication_t.remarkCode2 = el elements 4,
                   outpatientAdjudication_t.remarkCode3 = el elements 5,
                   outpatientAdjudication_t.remarkCode4 = el elements 6,
                   outpatientAdjudication_t.remarkCode5 = el elements 7,
                   outpatientAdjudication_t.endStageRenalDiseasePaymentAmount = el elements 8,
                   outpatientAdjudication_t.nonPayableProfessionalComponentBilledAmount = el elements 9 \<rparr> \<rparr>) t)
      else Inr t)"

definition parseSVC :: "string list \<Rightarrow> service835_t" where
  "parseSVC elements =
     \<lparr> service835_t.serviceCode = el elements 1,
       service835_t.chargeAmount = el elements 2,
       service835_t.paymentAmount = el elements 3,
       service835_t.revenueCode = el elements 4,
       service835_t.paidUnits = el elements 5,
       service835_t.bundledUnits = el elements 6 \<rparr>"

definition parseAMT :: "string list \<Rightarrow> nat option \<Rightarrow> parsedData835_t \<Rightarrow> thrown + parsedData835_t" where
  "parseAMT elements claim t =
     (let amount = \<lparr> amount_t.amountQualifierCode = el elements 1,
                     amount_t.monetaryAmount = el elements 2 \<rparr>
      in if claim \<noteq> None then
           on_object claim ''amounts''
             (\<lambda>i.
             update_claim835 i
               (\<lambda>c. c\<lparr> claim835_t.amounts := push_lazy (claim835_t.amounts c) amount \<rparr>) t)
         else Inr t)"

definition parseQTY :: "string list \<Rightarrow> nat option \<Rightarrow> parsedData835_t \<Rightarrow> thrown + parsedData835_t" where
  "parseQTY elements claim t =
     (let qty = \<lparr> quantity_t.quantityQualifier = el elements 1,
                  quantity_t.quantity = el elements 2 \<rparr>
      in if claim \<noteq> None then
           on_object claim ''quantities''
             (\<lambda>i.
             update_claim835 i
               (\<lambda>c. c\<lparr> claim835_t.quantities := push_lazy (claim835_t.quantities c) qty \<rparr>) t)
         else Inr t)"

definition parsePLB :: "string list \<Rightarrow> providerAdjustment_t" where
  "parsePLB elements =
     \<lparr> providerAdjustment_t.providerIdentifier = el elements 1,
       providerAdjustment_t.fiscalPeriodDate = el elements 2,
       providerAdjustment_t.adjustmentIdentifier1 = el elements 3,
       providerAdjustment_t.providerAdjustmentAmount1 = el elements 4,
       providerAdjustment_t.adjustmentIdentifier2 = el elements 5,
       providerAdjustment_t.providerAdjustmentAmount2 = el elements 6 \<rparr>"

definition parseSE_835 :: "string list \<Rightarrow> parsedData835_t \<Rightarrow> parsedData835_t" where
  "parseSE_835 elements t =
     t\<lparr> parsedData835_t.transactionSetTrailer := Some (transactionSetTrailer_of elements) \<rparr>"

definition parseGE_835 :: "string list \<Rightarrow> parsedData835_t \<Rightarrow> parsedData835_t" where
  "parseGE_835 elements t =
     t\<lparr> parsedData835_t.functionalGroupTrailer := Some (functionalGroupTrailer_of elements) \<rparr>"

definition parseIEA_835 :: "string list \<Rightarrow> parsedData835_t \<Rightarrow> parsedData835_t" where
  "parseIEA_835 elements t =
     t\<lparr> parsedData835_t.interchangeTrailer := Some (interchangeTrailer_of elements) \<rparr>"

subsection \<open>The dispatch loop \<open>parseSegments\<close>\<close>

definition on_parsedData835 :: "(parsedData835_t \<Rightarrow> parsedData835_t) \<Rightarrow> context835_t \<Rightarrow> context835_t" where
  "on_parsedData835 f s = s\<lparr> context835_t.parsedData := f (context835_t.parsedData s) \<rparr>"

text \<open>A handler that may throw, run on \<open>this.parsedData\<close> in the state \<open>s\<close>.\<close>

definition in_state835 ::
  "thrown + parsedData835_t \<Rightarrow> context835_t \<Rightarrow> (thrown \<times> context835_t) + context835_t" where
  "in_state835 r s =
     (case r of
        Inl e \<Rightarrow> Inl (e, s)
      | Inr t \<Rightarrow> Inr (s\<lparr> context835_t.parsedData := t \<rparr>))"

text \<open>The body of \<open>case 'BPR'\<close>.\<close>

definition case_BPR :: "string list \<Rightarrow> context835_t \<Rightarrow> context835_t" where
  "case_BPR elements s =
     (let t = context835_t.parsedData s
      in s\<lparr> context835_t.currentPayment := Some (length (parsedData835_t.payments t)),
            context835_t.parsedData :=
              t\<lparr> parsedData835_t.payments := parsedData835_t.payments t @ [parseBPR elements] \<rparr> \<rparr>)"

text \<open>The body of \<open>case 'CLP'\<close>: the new claim is pushed to the top-level list and, when a
  payment is current, the same object is pushed to that payment's \<open>claims\<close>.\<close>

definition case_CLP :: "string list \<Rightarrow> context835_t \<Rightarrow> (thrown \<times> context835_t) + context835_t" where
  "case_CLP elements s =
     (let t = context835_t.parsedData s;
          at = length (parsedData835_t.claims t);
          s1 = s\<lparr> context835_t.currentClaim := Some at,
                  context835_t.parsedData :=
                    t\<lparr> parsedData835_t.claims := parsedData835_t.claims t @ [parseCLP elements] \<rparr> \<rparr>
      in if context835_t.currentPayment s \<noteq> None then
           in_state835
             (on_object (context835_t.currentPayment s) ''claims''
                (\<lambda>i. update_payment i
                        (\<lambda>p. p\<lparr> payment_t.claims := push_lazy (payment_t.claims p) at \<rparr>)
                        (context835_t.parsedData s1)))
             s1
         else Inr s1)"

text \<open>The body of \<open>case 'SVC'\<close>.\<close>

definition case_SVC :: "string list \<Rightarrow> context835_t \<Rightarrow> (thrown \<times> context835_t) + context835_t" where
  "case_SVC elements s =
     (let service = parseSVC elements;
          t = context835_t.parsedData s;
          s1 = s\<lparr> context835_t.parsedData :=
                    t\<lparr> parsedData835_t.services := parsedData835_t.services t @ [service] \<rparr> \<rparr>
      in if context835_t.currentClaim s \<noteq> None then
           in_state835
             (on_object (context835_t.currentClaim s) ''services''
                (\<lambda>i. update_claim835 i
                        (\<lambda>c. c\<lparr> claim835_t.services := push_lazy (claim835_t.services c) service \<rparr>)
                        (context835_t.parsedData s1)))
             s1
         else Inr s1)"

text \<open>The body of \<open>case 'PLB'\<close>.\<close>

definition case_PLB :: "string list \<Rightarrow> context835_t \<Rightarrow> context835_t" where
  "case_PLB elements s =
     (let adjustment = parsePLB elements; t = context835_t.parsedData s
      in s\<lparr> context835_t.parsedData :=
              t\<lparr> parsedData835_t.adjustments := parsedData835_t.adjustments t @ [adjustment] \<rparr> \<rparr>)"

text \<open>
  The \<open>try\<close> block of one turn of the loop.  \<open>case 'DTM_SVC'\<close> calls \<open>parseDTMService\<close>, which
  builds an object and returns it to a caller that drops it: the case changes nothing.
\<close>

definition switch_835 ::
  "char \<Rightarrow> context835_t \<Rightarrow> string \<Rightarrow> (thrown \<times> context835_t) + context835_t" where
  "switch_835 delim s segment =
     (let elements = js_split delim segment;
          segmentId = el elements 0;
          t = context835_t.parsedData s
      in if segmentId = Some ''ISA'' then Inr (on_parsedData835 (parseISA_835 elements) s)
         else if segmentId = Some ''GS'' then Inr (on_parsedData835 (parseGS_835 elements) s)
         else if segmentId = Some ''ST'' then Inr (on_parsedData835 (parseST_835 elements) s)
         else if segmentId = Some ''BPR'' then Inr (case_BPR elements s)
         else if segmentId = Some ''TRN'' then
           in_state835 (parseTRN elements (context835_t.currentPayment s) t) s
         else if segmentId = Some ''REF'' then Inr (on_parsedData835 (parseREF_835 elements) s)
         else if segmentId = Some ''DTM'' then
           in_state835 (parseDTM elements (context835_t.currentPayment s) t) s
         else if segmentId = Some ''N1'' then
           Inr (s\<lparr> context835_t.currentProvider := Some (parseN1 elements) \<rparr>)
         else if segmentId = Some ''N3'' then Inr (on_parsedData835 (parseN3_835 elements) s)
         else if segmentId = Some ''N4'' then in_state835 (parseN4_835 elements t) s
         else if segmentId = Some ''PER'' then Inr (on_parsedData835 (parsePER_835 elements) s)
         else if segmentId = Some ''CLP'' then case_CLP elements s
         else if segmentId = Some ''CAS'' then
           in_state835 (parseCAS elements (context835_t.currentClaim s) t) s
         else if segmentId = Some ''NM1'' then
           in_state835 (parseNM1_835 elements (context835_t.currentClaim s) t) s
         else if segmentId = Some ''MIA'' then
           in_state835 (parseMIA elements (context835_t.currentClaim s) t) s
         else if segmentId = Some ''MOA'' then
           in_state835 (parseMOA elements (context835_t.currentClaim s) t) s
         else if segmentId = Some ''SVC'' then case_SVC elements s
         else if segmentId = Some ''DTM_SVC'' then Inr s
         else if segmentId = Some ''AMT'' then
           in_state835 (parseAMT elements (context835_t.currentClaim s) t) s
         else if segmentId = Some ''QTY'' then
           in_state835 (parseQTY elements (context835_t.currentClaim s) t) s
         else if segmentId = Some ''PLB'' then Inr (case_PLB elements s)
         else if segmentId = Some ''SE'' then Inr (on_parsedData835 (parseSE_835 elements) s)
         else if segmentId = Some ''GE'' then Inr (on_parsedData835 (parseGE_835 elements) s)
         else if segmentId = Some ''IEA'' then Inr (on_parsedData835 (parseIEA_835 elements) s)
         else Inr s)"

text \<open>One turn of the loop, with its \<open>catch\<close>, as in the 837 parser.\<close>

definition handleSegment_835 :: "char \<Rightarrow> context835_t \<Rightarrow> string \<Rightarrow> context835_t" where
  "handleSegment_835 delim s segment =
     (case switch_835 delim s segment of
        Inl (segmentError, s0) \<Rightarrow> s0
      | Inr s' \<Rightarrow> s')"

text \<open>The state at the top of \<open>parseSegments\<close>: the three locals are \<open>null\<close>.\<close>

definition start_835 :: "parsedData835_t \<Rightarrow> context835_t" where
  "start_835 t =
     \<lparr> context835_t.parsedData = t,
       context835_t.currentPayment = None,
       context835_t.currentClaim = None,
       context835_t.currentProvider = None \<rparr>"

definition parseSegments_835 :: "char \<Rightarrow> string list \<Rightarrow> parsedData835_t \<Rightarrow> parsedData835_t" where
  "parseSegments_835 delim segs t =
     context835_t.parsedData (foldl (handleSegment_835 delim) (start_835 t) segs)"

subsection \<open>The entry point \<open>parse\<close>\<close>

record parser835_t =
  segmentDelimiter :: char
  elementDelimiter :: char
  subElementDelimiter :: char
  segments :: "string list"
  parsedData :: "parsedData835_t option"

definition new_EDI835Parser :: parser835_t where
  "new_EDI835Parser =
     \<lparr> parser835_t.segmentDelimiter = CHR ''~'',
       parser835_t.elementDelimiter = CHR ''*'',
       parser835_t.subElementDelimiter = CHR ''^'',
       parser835_t.segments = [],
       parser835_t.parsedData = None \<rparr>"

definition initial_parsedData835 :: parsedData835_t where
  "initial_parsedData835 =
     \<lparr> parsedData835_t.interchange = None,
       parsedData835_t.groups = [],
       parsedData835_t.payments = [],
       parsedData835_t.claims = [],
       parsedData835_t.services = [],
       parsedData835_t.adjustments = [],
       parsedData835_t.references = [],
       parsedData835_t.contacts = [],
       parsedData835_t.addresses = [],
       parsedData835_t.transactionSet = None,
       parsedData835_t.transactionSetTrailer = None,
       parsedData835_t.functionalGroupTrailer = None,
       parsedData835_t.interchangeTrailer = None \<rparr>"

definition parse_try_835 :: "parser835_t \<Rightarrow> string \<Rightarrow> (error + parsedData835_t) \<times> parser835_t" where
  "parse_try_835 this ediData =
     (let cleaned = cleanData ediData;
          this1 = this\<lparr> parser835_t.segments :=
                           split_segments (parser835_t.segmentDelimiter this) cleaned \<rparr>
      in if length (parser835_t.segments this1) = 0 then
           (Inl (Error ''No valid EDI segments found''), this1)
         else
           (let result = parseSegments_835 (parser835_t.elementDelimiter this1)
                           (parser835_t.segments this1) initial_parsedData835
            in (Inr result, this1\<lparr> parser835_t.parsedData := Some result \<rparr>)))"

definition parse_835 :: "parser835_t \<Rightarrow> string \<Rightarrow> (error + parsedData835_t) \<times> parser835_t" where
  "parse_835 this ediData =
     (case parse_try_835 this ediData of
        (Inl (Error message), this') \<Rightarrow> (Inl (Error (''Parsing failed: '' @ message)), this')
      | (Inr tree, this') \<Rightarrow> (Inr tree, this'))"

section \<open>Vocabulary of the properties\<close>

text \<open>
  \<open>list_ext R xs ys\<close>: \<open>ys\<close> is \<open>xs\<close> with entries added at the end only; the entry at each
  position of \<open>xs\<close> is still at that position in \<open>ys\<close>, up to \<open>R\<close>.  With equality for \<open>R\<close>
  this says that \<open>xs\<close> is a prefix of \<open>ys\<close>.
\<close>

fun list_ext :: "('a \<Rightarrow> 'a \<Rightarrow> bool) \<Rightarrow> 'a list \<Rightarrow> 'a list \<Rightarrow> bool" where
  "list_ext R [] ys = True"
| "list_ext R (x # xs) [] = False"
| "list_ext R (x # xs) (y # ys) = (R x y \<and> list_ext R xs ys)"

text \<open>The same for a list-valued property that may be absent: once present it stays.\<close>

fun opt_ext :: "('a \<Rightarrow> 'a \<Rightarrow> bool) \<Rightarrow> 'a list option \<Rightarrow> 'a list option \<Rightarrow> bool" where
  "opt_ext R None ys = True"
| "opt_ext R (Some xs) None = False"
| "opt_ext R (Some xs) (Some ys) = list_ext R xs ys"

text \<open>An 837 claim object later on: the properties of \<open>parseCLM\<close> are the same, its three
  lists have only grown at the end.\<close>

definition claim837_ext :: "claim837_t \<Rightarrow> claim837_t \<Rightarrow> bool" where
  "claim837_ext c c' =
     (c'\<lparr> claim837_t.services := claim837_t.services c,
          claim837_t.dates := claim837_t.dates c,
          claim837_t.healthInfo := claim837_t.healthInfo c \<rparr> = c \<and>
      opt_ext (=) (claim837_t.services c) (claim837_t.services c') \<and>
      opt_ext (=) (claim837_t.dates c) (claim837_t.dates c') \<and>
      opt_ext (=) (claim837_t.healthInfo c) (claim837_t.healthInfo c'))"

text \<open>An entity object later on: the properties of \<open>parseNM1\<close> are the same.\<close>

definition entity_ext :: "entity_t \<Rightarrow> entity_t \<Rightarrow> bool" where
  "entity_ext e e' =
     (e'\<lparr> entity_t.providerCode := entity_t.providerCode e,
          entity_t.referenceIdQualifier := entity_t.referenceIdQualifier e,
          entity_t.referenceId := entity_t.referenceId e,
          entity_t.demographics := entity_t.demographics e \<rparr> = e)"

text \<open>An address object later on: the properties of \<open>parseN3\<close> are the same.\<close>

definition address_ext :: "address_t \<Rightarrow> address_t \<Rightarrow> bool" where
  "address_ext a a' =
     (address_t.addressLine1 a' = address_t.addressLine1 a \<and>
      address_t.addressLine2 a' = address_t.addressLine2 a)"

definition parsedData837_ext :: "parsedData837_t \<Rightarrow> parsedData837_t \<Rightarrow> bool" where
  "parsedData837_ext t t' =
     (list_ext (=) (parsedData837_t.groups t) (parsedData837_t.groups t') \<and>
      list_ext claim837_ext (parsedData837_t.claims t) (parsedData837_t.claims t') \<and>
      list_ext entity_ext (parsedData837_t.providers t) (parsedData837_t.providers t') \<and>
      list_ext entity_ext (parsedData837_t.subscribers t) (parsedData837_t.subscribers t') \<and>
      list_ext entity_ext (parsedData837_t.patients t) (parsedData837_t.patients t') \<and>
      list_ext (=) (parsedData837_t.services t) (parsedData837_t.services t') \<and>
      opt_ext (=) (parsedData837_t.references t) (parsedData837_t.references t') \<and>
      opt_ext (=) (parsedData837_t.contacts t) (parsedData837_t.contacts t') \<and>
      opt_ext address_ext (parsedData837_t.addresses t) (parsedData837_t.addresses t'))"

text \<open>An 835 payment object later on: the properties of \<open>parseBPR\<close> are the same, its two
  lists have only grown at the end.\<close>

definition payment_ext :: "payment_t \<Rightarrow> payment_t \<Rightarrow> bool" where
  "payment_ext p p' =
     (p'\<lparr> payment_t.traceNumber := payment_t.traceNumber p,
          payment_t.dates := payment_t.dates p,
          payment_t.claims := payment_t.claims p \<rparr> = p \<and>
      opt_ext (=) (payment_t.dates p) (payment_t.dates p') \<and>
      opt_ext (=) (payment_t.claims p) (payment_t.claims p'))"

text \<open>An 835 claim object later on: the properties of \<open>parseCLP\<close> are the same, its five
  lists have only grown at the end.\<close>

definition claim835_ext :: "claim835_t \<Rightarrow> claim835_t \<Rightarrow> bool" where
  "claim835_ext c c' =
     (c'\<lparr> claim835_t.adjustments := claim835_t.adjustments c,
          claim835_t.entities := claim835_t.entities c,
          claim835_t.inpatientAdjudication := claim835_t.inpatientAdjudication c,
          claim835_t.outpatientAdjudication := claim835_t.outpatientAdjudication c,
          claim835_t.services := claim835_t.services c,
          claim835_t.amounts := claim835_t.amounts c,
          claim835_t.quantities := claim835_t.quantities c \<rparr> = c \<and>
      opt_ext (=) (claim835_t.adjustments c) (claim835_t.adjustments c') \<and>
      opt_ext (=) (claim835_t.entities c) (claim835_t.entities c') \<and>
      opt_ext (=) (claim835_t.services c) (claim835_t.services c') \<and>
      opt_ext (=) (claim835_t.amounts c) (claim835_t.amounts c') \<and>
      opt_ext (=) (claim835_t.quantities c) (claim835_t.quantities c'))"

definition parsedData835_ext :: "parsedData835_t \<Rightarrow> parsedData835_t \<Rightarrow> bool" where
  "parsedData835_ext t t' =
     (list_ext (=) (parsedData835_t.groups t) (parsedData835_t.groups t') \<and>
      list_ext payment_ext (parsedData835_t.payments t) (parsedData835_t.payments t') \<and>
      list_ext claim835_ext (parsedData835_t.claims t) (parsedData835_t.claims t') \<and>
      list_ext (=) (parsedData835_t.services t) (parsedData835_t.services t') \<and>
      list_ext (=) (parsedData835_t.adjustments t) (parsedData835_t.adjustments t') \<and>
      list_ext (=) (parsedData835_t.references t) (parsedData835_t.references t') \<and>
      list_ext (=) (parsedData835_t.contacts t) (parsedData835_t.contacts t') \<and>
      list_ext address_ext (parsedData835_t.addresses t) (parsedData835_t.addresses t'))"


text \<open>
  The loop invariant of the 837 \<open>parseSegments\<close>: a pointer that is set refers to the last
  entry of its list, the entity or claim parsed most recently.
\<close>

definition is_last :: "nat \<Rightarrow> 'a list \<Rightarrow> bool" where
  "is_last i xs = (Suc i = length xs)"

definition current_is_last_837 :: "context837_t \<Rightarrow> bool" where
  "current_is_last_837 s =
     (let t = context837_t.parsedData s
      in (case context837_t.currentClaim s of
            None \<Rightarrow> True
          | Some i \<Rightarrow> is_last i (parsedData837_t.claims t)) \<and>
         (case context837_t.currentSubscriber s of
            None \<Rightarrow> True
          | Some r \<Rightarrow>
              (case r of
                 SubscriberAt i \<Rightarrow> is_last i (parsedData837_t.subscribers t)
               | PatientAt i \<Rightarrow> False
               | ProviderAt i \<Rightarrow> False)) \<and>
         (case context837_t.currentPatient s of
            None \<Rightarrow> True
          | Some r \<Rightarrow>
              (case r of
                 SubscriberAt i \<Rightarrow> False
               | PatientAt i \<Rightarrow> is_last i (parsedData837_t.patients t)
               | ProviderAt i \<Rightarrow> False)) \<and>
         (case context837_t.currentProvider s of
            None \<Rightarrow> True
          | Some r \<Rightarrow>
              (case r of
                 SubscriberAt i \<Rightarrow> False
               | PatientAt i \<Rightarrow> False
               | ProviderAt i \<Rightarrow> is_last i (parsedData837_t.providers t))))"

section \<open>Evaluation on concrete inputs\<close>

lemmas js_eval = js_split_def el_def trim_def is_ws_def replace_cr_def remove_lf_def cleanData_def
  split_segments_def Let_def js_or_def colon_part_def

lemmas shared_eval = interchange_of_def group_of_def transactionSet_of_def reference_of_def
  contact_of_def address_of_def set_city_state_def transactionSetTrailer_of_def
  functionalGroupTrailer_of_def interchangeTrailer_of_def

lemmas handlers_837 = parseISA_837_def parseGS_837_def parseST_837_def parseBHT_def
  parseNM1_837_def getEntityType_def entityTypes_def object_prototype_members_def
  parsePRV_def parseDMG_def parseREF_837_def parsePER_837_def parseCLM_def update_claim837_def
  parseDTP_def parseSV1_def parseN3_837_def parseN4_837_def parseSBR_def healthInfo_of_def
  parseHI_def parseLX_def parseSE_837_def parseGE_837_def parseIEA_837_def
  on_parsedData837_def in_state837_def on_object_def case_NM1_837_def case_CLM_def case_SV1_def

lemmas parse_837_eval = parse_837_def parse_try_837_def new_EDI837Parser_def
  initial_parsedData837_def parseSegments_837_def start_837_def handleSegment_837_def
  switch_837_def

lemmas handlers_835 = parseISA_835_def parseGS_835_def parseST_835_def parseBPR_def
  update_payment_def update_claim835_def parseTRN_def parseREF_835_def dateInfo835_of_def
  parseDTM_def parseN1_def parseN3_835_def parseN4_835_def parsePER_835_def parseCLP_def
  adjustment_of_def parseCAS_def parseNM1_835_def parseMIA_def parseMOA_def parseSVC_def
  parseAMT_def parseQTY_def parsePLB_def parseSE_835_def parseGE_835_def parseIEA_835_def
  on_parsedData835_def in_state835_def on_object_def case_BPR_def case_CLP_def case_SVC_def
  case_PLB_def

lemmas parse_835_eval = parse_835_def parse_try_835_def new_EDI835Parser_def
  initial_parsedData835_def parseSegments_835_def start_835_def handleSegment_835_def
  switch_835_def

section \<open>Lists that only grow at the end\<close>

lemma list_ext_refl: "(\<And>x. R x x) \<Longrightarrow> list_ext R xs xs"
  by (induction xs) simp_all

lemma list_ext_trans:
  assumes tr: "\<And>x y z. R x y \<Longrightarrow> R y z \<Longrightarrow> R x z"
  shows "list_ext R xs ys \<Longrightarrow> list_ext R ys zs \<Longrightarrow> list_ext R xs zs"
proof (induction xs arbitrary: ys zs)
  case Nil
  then show ?case by simp
next
  case (Cons x xs)
  from Cons.prems obtain y ys' where ys: "ys = y # ys'" by (cases ys) auto
  from Cons.prems ys obtain z zs' where zs: "zs = z # zs'" by (cases zs) auto
  from Cons.prems ys zs have "R x y" "R y z" "list_ext R xs ys'" "list_ext R ys' zs'"
    by simp_all
  then have "R x z" "list_ext R xs zs'"
    using tr Cons.IH by blast+
  then show ?case by (simp add: zs)
qed

lemma list_ext_snoc: "(\<And>x. R x x) \<Longrightarrow> list_ext R xs (xs @ [y])"
  by (induction xs) simp_all

lemma list_ext_update:
  "(\<And>x. R x x) \<Longrightarrow> (i < length xs \<Longrightarrow> R (xs ! i) y) \<Longrightarrow> list_ext R xs (xs[i := y])"
proof (induction xs arbitrary: i)
  case Nil
  then show ?case by simp
next
  case (Cons x xs)
  then show ?case by (cases i) (simp_all add: list_ext_refl)
qed

lemma opt_ext_refl: "(\<And>x. R x x) \<Longrightarrow> opt_ext R xs xs"
  by (cases xs) (simp_all add: list_ext_refl)

lemma opt_ext_trans:
  assumes tr: "\<And>x y z. R x y \<Longrightarrow> R y z \<Longrightarrow> R x z"
    and xy: "opt_ext R xs ys" and yz: "opt_ext R ys zs"
  shows "opt_ext R xs zs"
proof (cases xs)
  case None
  then show ?thesis by simp
next
  case (Some a)
  with xy obtain b where b: "ys = Some b" by (cases ys) auto
  with yz obtain c where c: "zs = Some c" by (cases zs) auto
  from xy yz Some b c have ab: "list_ext R a b" and bc: "list_ext R b c" by simp_all
  have "list_ext R a c"
  proof (rule list_ext_trans)
    show "\<And>x y z. R x y \<Longrightarrow> R y z \<Longrightarrow> R x z" by (rule tr)
    show "list_ext R a b" by (rule ab)
    show "list_ext R b c" by (rule bc)
  qed
  then show ?thesis by (simp add: Some c)
qed

lemma opt_ext_push_lazy: "(\<And>x. R x x) \<Longrightarrow> opt_ext R xs (push_lazy xs y)"
  by (cases xs) (simp_all add: list_ext_snoc)

lemma list_ext_eq_trans:
  "list_ext (=) xs ys \<Longrightarrow> list_ext (=) ys zs \<Longrightarrow> list_ext (=) xs zs"
  by (rule list_ext_trans [where R = "(=)" and ys = ys]) simp_all

lemma opt_ext_eq_trans:
  "opt_ext (=) xs ys \<Longrightarrow> opt_ext (=) ys zs \<Longrightarrow> opt_ext (=) xs zs"
  by (rule opt_ext_trans [where R = "(=)" and ys = ys]) simp_all

lemma claim837_ext_refl: "claim837_ext c c"
  by (simp add: claim837_ext_def opt_ext_refl)

lemma claim837_ext_trans:
  assumes ab: "claim837_ext a b" and bc: "claim837_ext b c"
  shows "claim837_ext a c"
proof -
  have A: "b\<lparr> claim837_t.services := claim837_t.services a,
              claim837_t.dates := claim837_t.dates a,
              claim837_t.healthInfo := claim837_t.healthInfo a \<rparr> = a"
    using ab by (simp add: claim837_ext_def)
  have B: "c\<lparr> claim837_t.services := claim837_t.services b,
              claim837_t.dates := claim837_t.dates b,
              claim837_t.healthInfo := claim837_t.healthInfo b \<rparr> = b"
    using bc by (simp add: claim837_ext_def)
  have "c\<lparr> claim837_t.services := claim837_t.services a,
            claim837_t.dates := claim837_t.dates a,
            claim837_t.healthInfo := claim837_t.healthInfo a \<rparr> =
        (c\<lparr> claim837_t.services := claim837_t.services b,
            claim837_t.dates := claim837_t.dates b,
            claim837_t.healthInfo := claim837_t.healthInfo b \<rparr>)
         \<lparr> claim837_t.services := claim837_t.services a,
            claim837_t.dates := claim837_t.dates a,
            claim837_t.healthInfo := claim837_t.healthInfo a \<rparr>"
    by simp
  also have "\<dots> = a" by (simp only: B A)
  finally have fields: "c\<lparr> claim837_t.services := claim837_t.services a,
            claim837_t.dates := claim837_t.dates a,
            claim837_t.healthInfo := claim837_t.healthInfo a \<rparr> = a" .
  have lists: "opt_ext (=) (claim837_t.services a) (claim837_t.services c)"
      "opt_ext (=) (claim837_t.dates a) (claim837_t.dates c)"
      "opt_ext (=) (claim837_t.healthInfo a) (claim837_t.healthInfo c)"
    using ab bc
      opt_ext_eq_trans [of "claim837_t.services a" "claim837_t.services b" "claim837_t.services c"]
      opt_ext_eq_trans [of "claim837_t.dates a" "claim837_t.dates b" "claim837_t.dates c"]
      opt_ext_eq_trans [of "claim837_t.healthInfo a" "claim837_t.healthInfo b" "claim837_t.healthInfo c"]
    by (simp_all add: claim837_ext_def)
  show ?thesis
    unfolding claim837_ext_def using fields lists by simp
qed

lemma entity_ext_refl: "entity_ext e e"
  by (simp add: entity_ext_def)

lemma entity_ext_trans:
  assumes ab: "entity_ext a b" and bc: "entity_ext b c"
  shows "entity_ext a c"
proof -
  have "c\<lparr> entity_t.providerCode := entity_t.providerCode a,
          entity_t.referenceIdQualifier := entity_t.referenceIdQualifier a,
          entity_t.referenceId := entity_t.referenceId a,
          entity_t.demographics := entity_t.demographics a \<rparr> =
        (c\<lparr> entity_t.providerCode := entity_t.providerCode b,
          entity_t.referenceIdQualifier := entity_t.referenceIdQualifier b,
          entity_t.referenceId := entity_t.referenceId b,
          entity_t.demographics := entity_t.demographics b \<rparr>)
         \<lparr> entity_t.providerCode := entity_t.providerCode a,
          entity_t.referenceIdQualifier := entity_t.referenceIdQualifier a,
          entity_t.referenceId := entity_t.referenceId a,
          entity_t.demographics := entity_t.demographics a \<rparr>"
    by simp
  also have "\<dots> = a"
    using ab bc by (simp only: entity_ext_def)
  finally show ?thesis by (simp only: entity_ext_def)
qed

lemma address_ext_refl: "address_ext a a"
  by (simp add: address_ext_def)

lemma address_ext_trans: "address_ext a b \<Longrightarrow> address_ext b c \<Longrightarrow> address_ext a c"
  by (simp add: address_ext_def)

lemma parsedData837_ext_refl: "parsedData837_ext t t"
  by (simp add: parsedData837_ext_def list_ext_refl opt_ext_refl claim837_ext_refl
      entity_ext_refl address_ext_refl)

lemma list_claim837_ext_trans:
  "list_ext claim837_ext xs ys \<Longrightarrow> list_ext claim837_ext ys zs \<Longrightarrow> list_ext claim837_ext xs zs"
  by (rule list_ext_trans [where R = claim837_ext and ys = ys]) (auto intro: claim837_ext_trans)

lemma list_entity_ext_trans:
  "list_ext entity_ext xs ys \<Longrightarrow> list_ext entity_ext ys zs \<Longrightarrow> list_ext entity_ext xs zs"
  by (rule list_ext_trans [where R = entity_ext and ys = ys]) (auto intro: entity_ext_trans)

lemma opt_address_ext_trans:
  "opt_ext address_ext xs ys \<Longrightarrow> opt_ext address_ext ys zs \<Longrightarrow> opt_ext address_ext xs zs"
  by (rule opt_ext_trans [where R = address_ext and ys = ys]) (auto intro: address_ext_trans)

lemma parsedData837_ext_trans:
  assumes ab: "parsedData837_ext a b" and bc: "parsedData837_ext b c"
  shows "parsedData837_ext a c"
  using ab bc
    list_ext_eq_trans [of "parsedData837_t.groups a" "parsedData837_t.groups b" "parsedData837_t.groups c"]
    list_claim837_ext_trans [of "parsedData837_t.claims a" "parsedData837_t.claims b" "parsedData837_t.claims c"]
    list_entity_ext_trans [of "parsedData837_t.providers a" "parsedData837_t.providers b" "parsedData837_t.providers c"]
    list_entity_ext_trans [of "parsedData837_t.subscribers a" "parsedData837_t.subscribers b" "parsedData837_t.subscribers c"]
    list_entity_ext_trans [of "parsedData837_t.patients a" "parsedData837_t.patients b" "parsedData837_t.patients c"]
    list_ext_eq_trans [of "parsedData837_t.services a" "parsedData837_t.services b" "parsedData837_t.services c"]
    opt_ext_eq_trans [of "parsedData837_t.references a" "parsedData837_t.references b" "parsedData837_t.references c"]
    opt_ext_eq_trans [of "parsedData837_t.contacts a" "parsedData837_t.contacts b" "parsedData837_t.contacts c"]
    opt_address_ext_trans [of "parsedData837_t.addresses a" "parsedData837_t.addresses b" "parsedData837_t.addresses c"]
  by (simp add: parsedData837_ext_def)

section \<open>The scenarios of the specification\<close>

text \<open>
  C1.  An NM1 segment with one of the provider codes 85, 82, 77 or DN should put its
  entity on the \<open>providers\<close> list and make it the current provider, so that a following
  PRV attaches to it.  The code does not do that: \<open>getEntityType\<close> resolves 85 to
  \<open>billing_provider\<close>, the dispatch loop compares the resolved type with \<open>provider\<close>, and the
  entity is dropped.  Here the source's own sample pair NM1*85, PRV is parsed: nothing of
  either segment reaches the tree, which is still the initial one.  The same holds for
  each of the four codes, in every state and whatever the other elements are: the body of
  \<open>case 'NM1'\<close> leaves the state as it was.
\<close>

theorem C1_billing_provider_dropped:
  "fst (parse_837 new_EDI837Parser
     ''NM1*85*2*BILLING PROVIDER*****XX*1234567890~PRV*BI*PXC*207Q00000X~'') =
   Inr initial_parsedData837 \<and>
   case_NM1_837 (tag # ''85'' # rest) s = s \<and>
   case_NM1_837 (tag # ''82'' # rest) s = s \<and>
   case_NM1_837 (tag # ''77'' # rest) s = s \<and>
   case_NM1_837 (tag # ''DN'' # rest) s = s"
  by (simp add: parse_837_eval handlers_837 shared_eval js_eval)

text \<open>
  C2 (Scenario A).  The 837 input of the scenario parses to a tree whose \<open>claims\<close> list is
  exactly one claim, with \<open>claimId\<close> CLAIM001 and \<open>totalChargeAmount\<close> 150.00, whose nested
  \<open>services\<close> list is exactly one service, with \<open>serviceCode\<close> HC:99213 and \<open>chargeAmount\<close>
  75.00.
\<close>

theorem C2_scenario_A:
  "\<exists>t. fst (parse_837 new_EDI837Parser
     ''ISA*...~GS*HC*...~ST*837*0001*...~CLM*CLAIM001*150.00~SV1*HC:99213*75.00*UN*1~SE*30*0001~GE*1*1~IEA*1*000000001~'') = Inr t \<and>
   parsedData837_t.claims t =
     [\<lparr> claim837_t.claimId = Some ''CLAIM001'',
        claim837_t.totalChargeAmount = Some ''150.00'',
        claim837_t.placeOfService = None,
        claim837_t.providerSignatureIndicator = None,
        claim837_t.assignmentOfBenefitsIndicator = None,
        claim837_t.releaseOfInformationIndicator = None,
        claim837_t.patientSignatureSourceCode = None,
        claim837_t.services = Some
          [\<lparr> service837_t.serviceCode = Some ''HC:99213'',
             service837_t.chargeAmount = Some ''75.00'',
             service837_t.unitOfMeasure = Some ''UN'',
             service837_t.serviceUnits = Some ''1'',
             service837_t.placeOfService = None,
             service837_t.diagnosisPointer = None \<rparr>],
        claim837_t.dates = None,
        claim837_t.healthInfo = None \<rparr>]"
  by (simp add: parse_837_eval handlers_837 shared_eval js_eval)

text \<open>
  C3 (Scenario C).  The 835 input of the scenario parses to a tree whose \<open>claims\<close> list is
  one claim with \<open>claimPaymentAmount\<close> 125.00, whose \<open>adjustments\<close> list is exactly one
  entry, with \<open>adjustmentReasonCode1\<close> 45 and \<open>adjustmentAmount1\<close> 25.00, and whose nested
  \<open>services\<close> list is exactly one service, with \<open>paymentAmount\<close> 65.00.
\<close>

theorem C3_scenario_C:
  "\<exists>t. fst (parse_835 new_EDI835Parser
     ''CLP*CLAIM001*1*150.00*125.00*25.00*MC*PAY001*11~CAS*CO*45*25.00~SVC*HC:99213*75.00*65.00**1~'') = Inr t \<and>
   parsedData835_t.claims t =
     [\<lparr> claim835_t.claimSubmitterIdentifier = Some ''CLAIM001'',
        claim835_t.claimStatusCode = Some ''1'',
        claim835_t.totalClaimChargeAmount = Some ''150.00'',
        claim835_t.claimPaymentAmount = Some ''125.00'',
        claim835_t.patientResponsibilityAmount = Some ''25.00'',
        claim835_t.claimFilingIndicatorCode = Some ''MC'',
        claim835_t.payerClaimControlNumber = Some ''PAY001'',
        claim835_t.facilityTypeCode = Some ''11'',
        claim835_t.claimFrequencyCode = None,
        claim835_t.adjustments = Some
          [\<lparr> adjustment_t.claimAdjustmentGroupCode = Some ''CO'',
             adjustment_t.adjustmentReasonCode1 = Some ''45'',
             adjustment_t.adjustmentAmount1 = Some ''25.00'',
             adjustment_t.adjustmentQuantity1 = None,
             adjustment_t.adjustmentReasonCode2 = None,
             adjustment_t.adjustmentAmount2 = None,
             adjustment_t.adjustmentQuantity2 = None \<rparr>],
        claim835_t.entities = None,
        claim835_t.inpatientAdjudication = None,
        claim835_t.outpatientAdjudication = None,
        claim835_t.services = Some
          [\<lparr> service835_t.serviceCode = Some ''HC:99213'',
             service835_t.chargeAmount = Some ''75.00'',
             service835_t.paymentAmount = Some ''65.00'',
             service835_t.revenueCode = Some '''',
             service835_t.paidUnits = Some ''1'',
             service835_t.bundledUnits = None \<rparr>],
        claim835_t.amounts = None,
        claim835_t.quantities = None \<rparr>]"
  by (simp add: parse_835_eval handlers_835 shared_eval js_eval)

section \<open>Failure of \<open>parse\<close>\<close>

text \<open>
  C4, as stated: on an input without a non-empty segment the error message is exactly
  \<open>No valid EDI segments found\<close>.  It is not: the \<open>throw\<close> is inside the \<open>try\<close> block, so
  the \<open>catch\<close> of \<open>parse\<close> wraps this message as it wraps every other.
\<close>

theorem C4_message_is_wrapped:
  "fst (parse_837 new_EDI837Parser ''   '') \<noteq> Inl (Error ''No valid EDI segments found'') \<and>
   fst (parse_835 new_EDI835Parser ''   '') \<noteq> Inl (Error ''No valid EDI segments found'')"
  by (simp add: parse_837_eval parse_835_eval js_eval)

text \<open>
  C4, amended.  For every input without a non-empty segment after cleaning, \<open>parse\<close> of
  either parser throws (there is no tree) and the message is exactly
  \<open>Parsing failed: No valid EDI segments found\<close>; every error that \<open>parse\<close> throws has a
  message that starts with \<open>Parsing failed: \<close>.
\<close>

theorem C4_empty_payload_error:
  "(split_segments (parser837_t.segmentDelimiter p7) (cleanData x) = [] \<longrightarrow>
      fst (parse_837 p7 x) = Inl (Error ''Parsing failed: No valid EDI segments found'')) \<and>
   (split_segments (parser835_t.segmentDelimiter p5) (cleanData x) = [] \<longrightarrow>
      fst (parse_835 p5 x) = Inl (Error ''Parsing failed: No valid EDI segments found'')) \<and>
   (\<forall>m. fst (parse_837 p7 x) = Inl (Error m) \<longrightarrow> take 16 m = ''Parsing failed: '') \<and>
   (\<forall>m. fst (parse_835 p5 x) = Inl (Error m) \<longrightarrow> take 16 m = ''Parsing failed: '')"
  by (simp add: parse_837_def parse_try_837_def parse_835_def parse_try_835_def Let_def)

theorem C4_empty_payload_error_witness:
  "fst (parse_837 new_EDI837Parser ''   '') =
     Inl (Error ''Parsing failed: No valid EDI segments found'') \<and>
   fst (parse_835 new_EDI835Parser ''   '') =
     Inl (Error ''Parsing failed: No valid EDI segments found'') \<and>
   split_segments (parser837_t.segmentDelimiter new_EDI837Parser) (cleanData ''   '') = [] \<and>
   split_segments (parser835_t.segmentDelimiter new_EDI835Parser) (cleanData ''   '') = []"
proof -
  have h7: "split_segments (parser837_t.segmentDelimiter new_EDI837Parser) (cleanData ''   '') = []"
    by (simp add: new_EDI837Parser_def js_eval)
  have h5: "split_segments (parser835_t.segmentDelimiter new_EDI835Parser) (cleanData ''   '') = []"
    by (simp add: new_EDI835Parser_def js_eval)
  show ?thesis
    using h7 h5 C4_empty_payload_error [of new_EDI837Parser "''   ''" new_EDI835Parser]
    by blast
qed

section \<open>Composite fields of the HI segment\<close>

lemma split_from_no_delim: "d \<notin> set q \<Longrightarrow> split_from d p q = [p @ q]"
  by (induction q arbitrary: p) auto

lemma split_from_at_delim:
  "d \<notin> set q \<Longrightarrow> split_from d p (q @ d # r) = (p @ q) # split_from d [] r"
  by (induction q arbitrary: p) auto

lemma js_split_pair:
  "d \<notin> set q \<Longrightarrow> d \<notin> set c \<Longrightarrow> js_split d (q @ d # c) = [q, c]"
  by (simp add: js_split_def split_from_at_delim split_from_no_delim)

text \<open>
  C5, as stated: the HI handler splits its second field on the sub-element delimiter
  \<open>^\<close>.  It does not: for \<open>BK^Z8701\<close> the whole field is the \<open>codeQualifier\<close> and \<open>code\<close> is
  absent.  \<open>subElementDelimiter\<close> is declared and never read; \<open>parseHI\<close> splits on a colon,
  as the sample data of the source writes the field.
\<close>

theorem C5_caret_is_not_split:
  "\<exists>t. fst (parse_837 new_EDI837Parser ''CLM*C1*10~HI*BK^Z8701~'') = Inr t \<and>
     map claim837_t.healthInfo (parsedData837_t.claims t) =
       [Some [\<lparr> healthInfo_t.codeQualifier = Some ''BK^Z8701'',
                healthInfo_t.code = None,
                healthInfo_t.dateQualifier = None,
                healthInfo_t.date = None \<rparr>]]"
  by (simp add: parse_837_eval handlers_837 shared_eval js_eval)

text \<open>
  C5, amended.  For every HI segment that arrives while a claim is current and whose
  second field is a qualifier and a code joined by a colon (neither containing one), the
  handler appends to that claim's \<open>healthInfo\<close> an entry whose \<open>codeQualifier\<close> is the part
  before the colon and whose \<open>code\<close> is the part after it.
\<close>

theorem C5_HI_splits_on_colon:
  assumes "el (js_split d segment) 0 = Some ''HI''"
    and "el (js_split d segment) 1 = Some (q @ CHR '':'' # c)"
    and "CHR '':'' \<notin> set q" and "CHR '':'' \<notin> set c"
    and "context837_t.currentClaim s = Some i"
  shows "parsedData837_t.claims (context837_t.parsedData (handleSegment_837 d s segment)) =
     (parsedData837_t.claims (context837_t.parsedData s))
       [i := (parsedData837_t.claims (context837_t.parsedData s) ! i)
          \<lparr> claim837_t.healthInfo :=
              push_lazy (claim837_t.healthInfo (parsedData837_t.claims (context837_t.parsedData s) ! i))
                \<lparr> healthInfo_t.codeQualifier = Some q,
                  healthInfo_t.code = Some c,
                  healthInfo_t.dateQualifier = el (js_split d segment) 2,
                  healthInfo_t.date = el (js_split d segment) 3 \<rparr> \<rparr>]"
proof -
  have parts: "js_split (CHR '':'') (q @ CHR '':'' # c) = [q, c]"
    using assms(3,4) by (rule js_split_pair)
  have info: "healthInfo_of (js_split d segment) =
      \<lparr> healthInfo_t.codeQualifier = Some q,
        healthInfo_t.code = Some c,
        healthInfo_t.dateQualifier = el (js_split d segment) 2,
        healthInfo_t.date = el (js_split d segment) 3 \<rparr>"
    using assms(2) parts by (simp add: healthInfo_of_def colon_part_def el_def)
  have "switch_837 d s segment =
      in_state837
        (parseHI (js_split d segment) (context837_t.currentClaim s) (context837_t.parsedData s)) s"
    using assms(1) by (simp add: switch_837_def Let_def)
  then show ?thesis
    using assms(5) info
    by (simp add: handleSegment_837_def in_state837_def parseHI_def on_object_def
        update_claim837_def Let_def)
qed

theorem C5_HI_splits_on_colon_witness:
  "map claim837_t.healthInfo
     (parsedData837_t.claims (context837_t.parsedData
        (handleSegment_837 (CHR ''*'')
           (handleSegment_837 (CHR ''*'') (start_837 initial_parsedData837) ''CLM*C1*10'')
           ''HI*BK:Z8701''))) =
   [Some [\<lparr> healthInfo_t.codeQualifier = Some ''BK'',
            healthInfo_t.code = Some ''Z8701'',
            healthInfo_t.dateQualifier = None,
            healthInfo_t.date = None \<rparr>]]"
proof -
  let ?s = "handleSegment_837 (CHR ''*'') (start_837 initial_parsedData837) ''CLM*C1*10''"
  have s: "context837_t.currentClaim ?s = Some 0"
    "parsedData837_t.claims (context837_t.parsedData ?s) = [parseCLM [''CLM'', ''C1'', ''10'']]"
    by (simp_all add: handleSegment_837_def switch_837_def start_837_def
        initial_parsedData837_def case_CLM_def js_eval)
  have e: "el (js_split (CHR ''*'') ''HI*BK:Z8701'') 0 = Some ''HI''"
    "el (js_split (CHR ''*'') ''HI*BK:Z8701'') 1 = Some (''BK'' @ CHR '':'' # ''Z8701'')"
    "el (js_split (CHR ''*'') ''HI*BK:Z8701'') 2 = None"
    "el (js_split (CHR ''*'') ''HI*BK:Z8701'') 3 = None"
    by (simp_all add: js_eval)
  have n: "CHR '':'' \<notin> set ''BK''" "CHR '':'' \<notin> set ''Z8701''" by simp_all
  show ?thesis
    using C5_HI_splits_on_colon [OF e(1) e(2) n s(1)] s(2) e(3) e(4)
    by (simp add: parseCLM_def)
qed

section \<open>Dates of the 835 parser\<close>

text \<open>
  C6, as stated: a DTM segment that arrives while a claim is current appends its date
  record to that claim's \<open>dates\<close> list.  It does not.  After CLP alone the DTM changes
  nothing (the claim is the object of \<open>parseCLP\<close>, no payment exists); after BPR and CLP
  the date is in the \<open>dates\<close> list of the payment and the claim is again untouched.  No
  handler of the 835 parser gives a claim a \<open>dates\<close> property.
\<close>

theorem C6_DTM_leaves_claim_untouched:
  "(\<exists>t. fst (parse_835 new_EDI835Parser ''CLP*CLAIM001*1~DTM*232*20210301~'') = Inr t \<and>
        parsedData835_t.claims t = [parseCLP [''CLP'', ''CLAIM001'', ''1'']] \<and>
        parsedData835_t.payments t = []) \<and>
   (\<exists>t. fst (parse_835 new_EDI835Parser ''BPR*I*150.00~CLP*CLAIM001*1~DTM*232*20210301~'') = Inr t \<and>
        parsedData835_t.claims t = [parseCLP [''CLP'', ''CLAIM001'', ''1'']] \<and>
        map payment_t.dates (parsedData835_t.payments t) =
          [Some [\<lparr> dateInfo835_t.qualifier = Some ''232'',
                   dateInfo835_t.date = Some ''20210301'',
                   dateInfo835_t.time = None,
                   dateInfo835_t.timeCode = None \<rparr>]])"
  by (simp add: parse_835_eval handlers_835 shared_eval js_eval)

text \<open>
  C6, amended.  For every DTM segment of the 835 parser: when a payment is current (a
  BPR segment came before), the parsed date record is appended to that payment's \<open>dates\<close>
  list, created on the first date; when no payment is current the segment changes
  nothing.  In both cases every claim, the current one included, stays as it was.
\<close>

theorem C6_DTM_goes_to_payment:
  assumes "el (js_split d segment) 0 = Some ''DTM''"
  shows "handleSegment_835 d s segment =
     (case context835_t.currentPayment s of
        None \<Rightarrow> s
      | Some i \<Rightarrow>
          s\<lparr> context835_t.parsedData :=
               (context835_t.parsedData s)
                 \<lparr> parsedData835_t.payments :=
                      (parsedData835_t.payments (context835_t.parsedData s))
                        [i := (parsedData835_t.payments (context835_t.parsedData s) ! i)
                           \<lparr> payment_t.dates :=
                               push_lazy
                                 (payment_t.dates
                                    (parsedData835_t.payments (context835_t.parsedData s) ! i))
                                 (dateInfo835_of (js_split d segment)) \<rparr>] \<rparr> \<rparr>) \<and>
   parsedData835_t.claims (context835_t.parsedData (handleSegment_835 d s segment)) =
     parsedData835_t.claims (context835_t.parsedData s)"
proof -
  have "switch_835 d s segment =
      in_state835
        (parseDTM (js_split d segment) (context835_t.currentPayment s)
           (context835_t.parsedData s)) s"
    using assms by (simp add: switch_835_def Let_def)
  then show ?thesis
    by (simp add: handleSegment_835_def in_state835_def parseDTM_def on_object_def
        update_payment_def Let_def split: option.split)
qed

text \<open>An instance: BPR, CLP, then DTM, with both a payment and a claim current.\<close>

theorem C6_DTM_goes_to_payment_witness:
  "(let s = foldl (handleSegment_835 (CHR ''*'')) (start_835 initial_parsedData835)
              [''BPR*I*150.00'', ''CLP*CLAIM001*1''];
        s' = handleSegment_835 (CHR ''*'') s ''DTM*232*20210301''
    in el (js_split (CHR ''*'') ''DTM*232*20210301'') 0 = Some ''DTM'' \<and>
       context835_t.currentPayment s = Some 0 \<and>
       context835_t.currentClaim s = Some 0 \<and>
       parsedData835_t.claims (context835_t.parsedData s') =
         parsedData835_t.claims (context835_t.parsedData s) \<and>
       map payment_t.dates (parsedData835_t.payments (context835_t.parsedData s')) =
         [Some [dateInfo835_of [''DTM'', ''232'', ''20210301'']]])"
proof -
  let ?s = "foldl (handleSegment_835 (CHR ''*'')) (start_835 initial_parsedData835)
              [''BPR*I*150.00'', ''CLP*CLAIM001*1'']"
  have e: "el (js_split (CHR ''*'') ''DTM*232*20210301'') 0 = Some ''DTM''"
    by (simp add: js_eval)
  show ?thesis
    using C6_DTM_goes_to_payment [OF e, of ?s]
    by (simp add: handleSegment_835_def switch_835_def start_835_def
        initial_parsedData835_def handlers_835 js_eval)
qed

section \<open>Every segment only extends the tree\<close>

lemma guarded_on_object:
  "(if p \<noteq> None then on_object p property k else Inr t) =
     Inr (case p of None \<Rightarrow> t | Some r \<Rightarrow> k r)"
  by (cases p) (simp_all add: on_object_def)

lemma in_state837_Inr: "in_state837 (Inr t) s = Inr (s\<lparr> context837_t.parsedData := t \<rparr>)"
  by (simp add: in_state837_def)

lemma in_state835_Inr: "in_state835 (Inr t) s = Inr (s\<lparr> context835_t.parsedData := t \<rparr>)"
  by (simp add: in_state835_def)

lemma guarded_in_state837:
  "(if p \<noteq> None then in_state837 (on_object p property k) s else Inr s) =
     Inr (case p of None \<Rightarrow> s | Some r \<Rightarrow> s\<lparr> context837_t.parsedData := k r \<rparr>)"
  by (cases p) (simp_all add: on_object_def in_state837_def)

lemma guarded_in_state835:
  "(if p \<noteq> None then in_state835 (on_object p property k) s else Inr s) =
     Inr (case p of None \<Rightarrow> s | Some r \<Rightarrow> s\<lparr> context835_t.parsedData := k r \<rparr>)"
  by (cases p) (simp_all add: on_object_def in_state835_def)

subsection \<open>The 837 parser\<close>

lemma list_ext_eq_refl: "list_ext (=) xs xs"
  by (rule list_ext_refl) simp

lemma opt_ext_eq_refl: "opt_ext (=) xs xs"
  by (rule opt_ext_refl) simp

lemma list_ext_eq_snoc: "list_ext (=) xs (xs @ [y])"
  by (rule list_ext_snoc) simp

lemma opt_ext_eq_push_lazy: "opt_ext (=) xs (push_lazy xs y)"
  by (rule opt_ext_push_lazy) simp

lemma list_claim837_ext_refl: "list_ext claim837_ext xs xs"
  by (rule list_ext_refl) (rule claim837_ext_refl)

lemma list_entity_ext_refl: "list_ext entity_ext xs xs"
  by (rule list_ext_refl) (rule entity_ext_refl)

lemma opt_address_ext_refl: "opt_ext address_ext xs xs"
  by (rule opt_ext_refl) (rule address_ext_refl)

lemma list_claim837_ext_snoc: "list_ext claim837_ext xs (xs @ [y])"
  by (rule list_ext_snoc) (rule claim837_ext_refl)

lemma list_entity_ext_snoc: "list_ext entity_ext xs (xs @ [y])"
  by (rule list_ext_snoc) (rule entity_ext_refl)

lemma list_claim837_ext_update:
  "claim837_ext (xs ! i) y \<Longrightarrow> list_ext claim837_ext xs (xs[i := y])"
  by (rule list_ext_update) (simp_all add: claim837_ext_refl)

lemma list_entity_ext_update:
  "entity_ext (xs ! i) y \<Longrightarrow> list_ext entity_ext xs (xs[i := y])"
  by (rule list_ext_update) (simp_all add: entity_ext_refl)

lemma list_address_ext_update:
  "address_ext (xs ! i) y \<Longrightarrow> list_ext address_ext xs (xs[i := y])"
  by (rule list_ext_update) (simp_all add: address_ext_refl)

lemmas ext_837_simps = parsedData837_ext_def list_ext_eq_refl opt_ext_eq_refl list_ext_eq_snoc
  opt_ext_eq_push_lazy list_claim837_ext_refl list_entity_ext_refl opt_address_ext_refl
  list_claim837_ext_snoc list_entity_ext_snoc

lemma update_entity_ext:
  assumes "\<And>e. entity_ext e (f e)"
  shows "parsedData837_ext t (update_entity r f t)"
  by (cases r) (simp_all add: ext_837_simps list_entity_ext_update assms)

lemma update_claim837_ext:
  assumes "\<And>c. claim837_ext c (f c)"
  shows "parsedData837_ext t (update_claim837 i f t)"
  by (simp add: update_claim837_def ext_837_simps list_claim837_ext_update assms)

lemma parsePRV_ext: "parsePRV es p t = Inr t' \<Longrightarrow> parsedData837_ext t t'"
  by (cases p) (auto simp: parsePRV_def on_object_def parsedData837_ext_refl update_entity_ext
      entity_ext_def)

lemma parseDMG_ext: "parseDMG es p t = Inr t' \<Longrightarrow> parsedData837_ext t t'"
  by (cases p) (auto simp: parseDMG_def on_object_def parsedData837_ext_refl update_entity_ext
      entity_ext_def)

lemma parseDTP_ext: "parseDTP es c t = Inr t' \<Longrightarrow> parsedData837_ext t t'"
  by (cases c) (auto simp: parseDTP_def on_object_def Let_def parsedData837_ext_refl
      update_claim837_ext claim837_ext_def opt_ext_eq_refl opt_ext_eq_push_lazy)

lemma parseHI_ext: "parseHI es c t = Inr t' \<Longrightarrow> parsedData837_ext t t'"
  by (cases c) (auto simp: parseHI_def on_object_def Let_def parsedData837_ext_refl
      update_claim837_ext claim837_ext_def opt_ext_eq_refl opt_ext_eq_push_lazy)

lemma parseN3_837_ext: "parsedData837_ext t (parseN3_837 es t)"
  by (simp add: parseN3_837_def ext_837_simps opt_ext_push_lazy address_ext_refl)

lemma parseN4_837_ext: "parseN4_837 es t = Inr t' \<Longrightarrow> parsedData837_ext t t'"
  by (auto simp: parseN4_837_def on_object_def Let_def ext_837_simps list_address_ext_update
      address_ext_def set_city_state_def split: option.splits if_splits)

lemma simple_837_ext:
  "parsedData837_ext t (parseISA_837 es t)"
  "parsedData837_ext t (parseGS_837 es t)"
  "parsedData837_ext t (parseST_837 es t)"
  "parsedData837_ext t (parseBHT es t)"
  "parsedData837_ext t (parseREF_837 es t)"
  "parsedData837_ext t (parsePER_837 es t)"
  "parsedData837_ext t (parseSBR es t)"
  "parsedData837_ext t (parseLX es t)"
  "parsedData837_ext t (parseSE_837 es t)"
  "parsedData837_ext t (parseGE_837 es t)"
  "parsedData837_ext t (parseIEA_837 es t)"
  by (simp_all add: parseISA_837_def parseGS_837_def parseST_837_def parseBHT_def
      parseREF_837_def parsePER_837_def parseSBR_def parseLX_def parseSE_837_def
      parseGE_837_def parseIEA_837_def Let_def ext_837_simps)

lemma case_NM1_837_ext:
  "parsedData837_ext (context837_t.parsedData s) (context837_t.parsedData (case_NM1_837 es s))"
  by (simp add: case_NM1_837_def Let_def ext_837_simps)

lemma case_CLM_ext:
  "parsedData837_ext (context837_t.parsedData s) (context837_t.parsedData (case_CLM es s))"
  by (simp add: case_CLM_def Let_def ext_837_simps)

lemma case_SV1_ext:
  assumes "case_SV1 es s = Inr s'"
  shows "parsedData837_ext (context837_t.parsedData s) (context837_t.parsedData s')"
proof (cases "context837_t.currentClaim s")
  case None
  then show ?thesis using assms by (auto simp: case_SV1_def Let_def ext_837_simps)
next
  case (Some i)
  let ?t1 = "(context837_t.parsedData s)
      \<lparr> parsedData837_t.services :=
          parsedData837_t.services (context837_t.parsedData s) @ [parseSV1 es] \<rparr>"
  have a: "parsedData837_ext (context837_t.parsedData s) ?t1"
    by (simp add: ext_837_simps)
  have b: "parsedData837_ext ?t1
      (update_claim837 i
         (\<lambda>c. c\<lparr> claim837_t.services := push_lazy (claim837_t.services c) (parseSV1 es) \<rparr>) ?t1)"
    by (rule update_claim837_ext)
      (simp add: claim837_ext_def opt_ext_eq_refl opt_ext_eq_push_lazy)
  show ?thesis
    using parsedData837_ext_trans [OF a b] Some assms
    by (auto simp: case_SV1_def Let_def on_object_def in_state837_def)
qed

lemma in_state837_ext:
  assumes "in_state837 r s = Inr s'"
    and "\<And>t'. r = Inr t' \<Longrightarrow> parsedData837_ext (context837_t.parsedData s) t'"
  shows "parsedData837_ext (context837_t.parsedData s) (context837_t.parsedData s')"
  using assms by (cases r) (auto simp: in_state837_def)

lemma switch_837_ext:
  assumes "switch_837 d s segment = Inr s'"
  shows "parsedData837_ext (context837_t.parsedData s) (context837_t.parsedData s')"
  using assms
  by (auto simp: switch_837_def Let_def on_parsedData837_def simple_837_ext parseN3_837_ext
      parsedData837_ext_refl case_NM1_837_ext case_CLM_ext
      split: if_splits
      elim!: in_state837_ext parsePRV_ext parseDMG_ext parseDTP_ext parseHI_ext
        parseN4_837_ext case_SV1_ext)

lemma switch_837_returns: "switch_837 d s segment = Inr (handleSegment_837 d s segment)"
  by (simp add: handleSegment_837_def switch_837_def Let_def parsePRV_def parseDMG_def
      parseDTP_def parseHI_def parseN4_837_def case_SV1_def guarded_on_object
      guarded_in_state837 in_state837_Inr del: not_None_eq)

lemma handleSegment_837_ext:
  "parsedData837_ext (context837_t.parsedData s)
     (context837_t.parsedData (handleSegment_837 d s segment))"
  by (rule switch_837_ext) (rule switch_837_returns)

lemma foldl_837_ext:
  "parsedData837_ext (context837_t.parsedData s)
     (context837_t.parsedData (foldl (handleSegment_837 d) s segs))"
proof (induction segs arbitrary: s)
  case Nil
  show ?case by (simp add: parsedData837_ext_refl)
next
  case (Cons seg segs)
  show ?case
    using parsedData837_ext_trans [OF handleSegment_837_ext Cons.IH] by simp
qed

subsection \<open>The 835 parser\<close>

lemma payment_ext_refl: "payment_ext p p"
  by (simp add: payment_ext_def opt_ext_eq_refl)

lemma payment_ext_trans:
  assumes ab: "payment_ext a b" and bc: "payment_ext b c"
  shows "payment_ext a c"
proof -
  have A: "b\<lparr> payment_t.traceNumber := payment_t.traceNumber a,
              payment_t.dates := payment_t.dates a,
              payment_t.claims := payment_t.claims a \<rparr> = a"
    using ab by (simp add: payment_ext_def)
  have B: "c\<lparr> payment_t.traceNumber := payment_t.traceNumber b,
              payment_t.dates := payment_t.dates b,
              payment_t.claims := payment_t.claims b \<rparr> = b"
    using bc by (simp add: payment_ext_def)
  have "c\<lparr> payment_t.traceNumber := payment_t.traceNumber a,
            payment_t.dates := payment_t.dates a,
            payment_t.claims := payment_t.claims a \<rparr> =
        (c\<lparr> payment_t.traceNumber := payment_t.traceNumber b,
            payment_t.dates := payment_t.dates b,
            payment_t.claims := payment_t.claims b \<rparr>)
         \<lparr> payment_t.traceNumber := payment_t.traceNumber a,
            payment_t.dates := payment_t.dates a,
            payment_t.claims := payment_t.claims a \<rparr>"
    by simp
  also have "\<dots> = a" by (simp only: B A)
  finally have fields: "c\<lparr> payment_t.traceNumber := payment_t.traceNumber a,
            payment_t.dates := payment_t.dates a,
            payment_t.claims := payment_t.claims a \<rparr> = a" .
  have lists: "opt_ext (=) (payment_t.dates a) (payment_t.dates c)"
      "opt_ext (=) (payment_t.claims a) (payment_t.claims c)"
    using ab bc
      opt_ext_eq_trans [of "payment_t.dates a" "payment_t.dates b" "payment_t.dates c"]
      opt_ext_eq_trans [of "payment_t.claims a" "payment_t.claims b" "payment_t.claims c"]
    by (simp_all add: payment_ext_def)
  show ?thesis
    unfolding payment_ext_def using fields lists by simp
qed

lemma claim835_ext_refl: "claim835_ext c c"
  by (simp add: claim835_ext_def opt_ext_eq_refl)

lemma claim835_ext_trans:
  assumes ab: "claim835_ext a b" and bc: "claim835_ext b c"
  shows "claim835_ext a c"
proof -
  have A: "b\<lparr> claim835_t.adjustments := claim835_t.adjustments a,
          claim835_t.entities := claim835_t.entities a,
          claim835_t.inpatientAdjudication := claim835_t.inpatientAdjudication a,
          claim835_t.outpatientAdjudication := claim835_t.outpatientAdjudication a,
          claim835_t.services := claim835_t.services a,
          claim835_t.amounts := claim835_t.amounts a,
          claim835_t.quantities := claim835_t.quantities a \<rparr> = a"
    using ab by (simp add: claim835_ext_def)
  have B: "c\<lparr> claim835_t.adjustments := claim835_t.adjustments b,
          claim835_t.entities := claim835_t.entities b,
          claim835_t.inpatientAdjudication := claim835_t.inpatientAdjudication b,
          claim835_t.outpatientAdjudication := claim835_t.outpatientAdjudication b,
          claim835_t.services := claim835_t.services b,
          claim835_t.amounts := claim835_t.amounts b,
          claim835_t.quantities := claim835_t.quantities b \<rparr> = b"
    using bc by (simp add: claim835_ext_def)
  have "c\<lparr> claim835_t.adjustments := claim835_t.adjustments a,
          claim835_t.entities := claim835_t.entities a,
          claim835_t.inpatientAdjudication := claim835_t.inpatientAdjudication a,
          claim835_t.outpatientAdjudication := claim835_t.outpatientAdjudication a,
          claim835_t.services := claim835_t.services a,
          claim835_t.amounts := claim835_t.amounts a,
          claim835_t.quantities := claim835_t.quantities a \<rparr> =
        (c\<lparr> claim835_t.adjustments := claim835_t.adjustments b,
          claim835_t.entities := claim835_t.entities b,
          claim835_t.inpatientAdjudication := claim835_t.inpatientAdjudication b,
          claim835_t.outpatientAdjudication := claim835_t.outpatientAdjudication b,
          claim835_t.services := claim835_t.services b,
          claim835_t.amounts := claim835_t.amounts b,
          claim835_t.quantities := claim835_t.quantities b \<rparr>)
         \<lparr> claim835_t.adjustments := claim835_t.adjustments a,
          claim835_t.entities := claim835_t.entities a,
          claim835_t.inpatientAdjudication := claim835_t.inpatientAdjudication a,
          claim835_t.outpatientAdjudication := claim835_t.outpatientAdjudication a,
          claim835_t.services := claim835_t.services a,
          claim835_t.amounts := claim835_t.amounts a,
          claim835_t.quantities := claim835_t.quantities a \<rparr>"
    by simp
  also have "\<dots> = a" by (simp only: B A)
  finally have fields: "c\<lparr> claim835_t.adjustments := claim835_t.adjustments a,
          claim835_t.entities := claim835_t.entities a,
          claim835_t.inpatientAdjudication := claim835_t.inpatientAdjudication a,
          claim835_t.outpatientAdjudication := claim835_t.outpatientAdjudication a,
          claim835_t.services := claim835_t.services a,
          claim835_t.amounts := claim835_t.amounts a,
          claim835_t.quantities := claim835_t.quantities a \<rparr> = a" .
  have lists: "opt_ext (=) (claim835_t.adjustments a) (claim835_t.adjustments c)"
      "opt_ext (=) (claim835_t.entities a) (claim835_t.entities c)"
      "opt_ext (=) (claim835_t.services a) (claim835_t.services c)"
      "opt_ext (=) (claim835_t.amounts a) (claim835_t.amounts c)"
      "opt_ext (=) (claim835_t.quantities a) (claim835_t.quantities c)"
    using ab bc
      opt_ext_eq_trans [of "claim835_t.adjustments a" "claim835_t.adjustments b" "claim835_t.adjustments c"]
      opt_ext_eq_trans [of "claim835_t.entities a" "claim835_t.entities b" "claim835_t.entities c"]
      opt_ext_eq_trans [of "claim835_t.services a" "claim835_t.services b" "claim835_t.services c"]
      opt_ext_eq_trans [of "claim835_t.amounts a" "claim835_t.amounts b" "claim835_t.amounts c"]
      opt_ext_eq_trans [of "claim835_t.quantities a" "claim835_t.quantities b" "claim835_t.quantities c"]
    by (simp_all add: claim835_ext_def)
  show ?thesis
    unfolding claim835_ext_def using fields lists by simp
qed

lemma list_payment_ext_refl: "list_ext payment_ext xs xs"
  by (rule list_ext_refl) (rule payment_ext_refl)

lemma list_claim835_ext_refl: "list_ext claim835_ext xs xs"
  by (rule list_ext_refl) (rule claim835_ext_refl)

lemma list_address_ext_refl: "list_ext address_ext xs xs"
  by (rule list_ext_refl) (rule address_ext_refl)

lemma list_payment_ext_snoc: "list_ext payment_ext xs (xs @ [y])"
  by (rule list_ext_snoc) (rule payment_ext_refl)

lemma list_claim835_ext_snoc: "list_ext claim835_ext xs (xs @ [y])"
  by (rule list_ext_snoc) (rule claim835_ext_refl)

lemma list_address_ext_snoc: "list_ext address_ext xs (xs @ [y])"
  by (rule list_ext_snoc) (rule address_ext_refl)

lemma list_payment_ext_update:
  "payment_ext (xs ! i) y \<Longrightarrow> list_ext payment_ext xs (xs[i := y])"
  by (rule list_ext_update) (simp_all add: payment_ext_refl)

lemma list_claim835_ext_update:
  "claim835_ext (xs ! i) y \<Longrightarrow> list_ext claim835_ext xs (xs[i := y])"
  by (rule list_ext_update) (simp_all add: claim835_ext_refl)

lemma list_payment_ext_trans:
  "list_ext payment_ext xs ys \<Longrightarrow> list_ext payment_ext ys zs \<Longrightarrow> list_ext payment_ext xs zs"
  by (rule list_ext_trans [where R = payment_ext and ys = ys]) (auto intro: payment_ext_trans)

lemma list_claim835_ext_trans:
  "list_ext claim835_ext xs ys \<Longrightarrow> list_ext claim835_ext ys zs \<Longrightarrow> list_ext claim835_ext xs zs"
  by (rule list_ext_trans [where R = claim835_ext and ys = ys]) (auto intro: claim835_ext_trans)

lemma list_address_ext_trans:
  "list_ext address_ext xs ys \<Longrightarrow> list_ext address_ext ys zs \<Longrightarrow> list_ext address_ext xs zs"
  by (rule list_ext_trans [where R = address_ext and ys = ys]) (auto intro: address_ext_trans)

lemmas ext_835_simps = parsedData835_ext_def list_ext_eq_refl list_ext_eq_snoc
  list_payment_ext_refl list_claim835_ext_refl list_address_ext_refl
  list_payment_ext_snoc list_claim835_ext_snoc list_address_ext_snoc

lemma parsedData835_ext_refl: "parsedData835_ext t t"
  by (simp add: ext_835_simps)

lemma parsedData835_ext_trans:
  assumes ab: "parsedData835_ext a b" and bc: "parsedData835_ext b c"
  shows "parsedData835_ext a c"
  using ab bc
    list_ext_eq_trans [of "parsedData835_t.groups a" "parsedData835_t.groups b" "parsedData835_t.groups c"]
    list_payment_ext_trans [of "parsedData835_t.payments a" "parsedData835_t.payments b" "parsedData835_t.payments c"]
    list_claim835_ext_trans [of "parsedData835_t.claims a" "parsedData835_t.claims b" "parsedData835_t.claims c"]
    list_ext_eq_trans [of "parsedData835_t.services a" "parsedData835_t.services b" "parsedData835_t.services c"]
    list_ext_eq_trans [of "parsedData835_t.adjustments a" "parsedData835_t.adjustments b" "parsedData835_t.adjustments c"]
    list_ext_eq_trans [of "parsedData835_t.references a" "parsedData835_t.references b" "parsedData835_t.references c"]
    list_ext_eq_trans [of "parsedData835_t.contacts a" "parsedData835_t.contacts b" "parsedData835_t.contacts c"]
    list_address_ext_trans [of "parsedData835_t.addresses a" "parsedData835_t.addresses b" "parsedData835_t.addresses c"]
  by (simp add: parsedData835_ext_def)

lemma update_payment_ext:
  assumes "\<And>p. payment_ext p (f p)"
  shows "parsedData835_ext t (update_payment i f t)"
  by (simp add: update_payment_def ext_835_simps list_payment_ext_update assms)

lemma update_claim835_ext:
  assumes "\<And>c. claim835_ext c (f c)"
  shows "parsedData835_ext t (update_claim835 i f t)"
  by (simp add: update_claim835_def ext_835_simps list_claim835_ext_update assms)

lemma payment_handlers_ext:
  "parseTRN es p t = Inr t' \<Longrightarrow> parsedData835_ext t t'"
  "parseDTM es p t = Inr t' \<Longrightarrow> parsedData835_ext t t'"
  by (cases p; auto simp: parseTRN_def parseDTM_def on_object_def Let_def parsedData835_ext_refl
      update_payment_ext payment_ext_def opt_ext_eq_refl opt_ext_eq_push_lazy)+

lemma claim_handlers_835_ext:
  "parseCAS es c t = Inr t' \<Longrightarrow> parsedData835_ext t t'"
  "parseNM1_835 es c t = Inr t' \<Longrightarrow> parsedData835_ext t t'"
  "parseMIA es c t = Inr t' \<Longrightarrow> parsedData835_ext t t'"
  "parseMOA es c t = Inr t' \<Longrightarrow> parsedData835_ext t t'"
  "parseAMT es c t = Inr t' \<Longrightarrow> parsedData835_ext t t'"
  "parseQTY es c t = Inr t' \<Longrightarrow> parsedData835_ext t t'"
  by (cases c; auto simp: parseCAS_def parseNM1_835_def parseMIA_def parseMOA_def parseAMT_def
      parseQTY_def on_object_def Let_def parsedData835_ext_refl update_claim835_ext
      claim835_ext_def opt_ext_eq_refl opt_ext_eq_push_lazy)+

lemma parseN4_835_ext: "parseN4_835 es t = Inr t' \<Longrightarrow> parsedData835_ext t t'"
  by (auto simp: parseN4_835_def on_object_def Let_def ext_835_simps list_address_ext_update
      address_ext_def set_city_state_def split: if_splits)

lemma simple_835_ext:
  "parsedData835_ext t (parseISA_835 es t)"
  "parsedData835_ext t (parseGS_835 es t)"
  "parsedData835_ext t (parseST_835 es t)"
  "parsedData835_ext t (parseREF_835 es t)"
  "parsedData835_ext t (parseN3_835 es t)"
  "parsedData835_ext t (parsePER_835 es t)"
  "parsedData835_ext t (parseSE_835 es t)"
  "parsedData835_ext t (parseGE_835 es t)"
  "parsedData835_ext t (parseIEA_835 es t)"
  by (simp_all add: parseISA_835_def parseGS_835_def parseST_835_def parseREF_835_def
      parseN3_835_def parsePER_835_def parseSE_835_def parseGE_835_def parseIEA_835_def
      Let_def ext_835_simps)

lemma case_BPR_ext:
  "parsedData835_ext (context835_t.parsedData s) (context835_t.parsedData (case_BPR es s))"
  by (simp add: case_BPR_def Let_def ext_835_simps)

lemma case_PLB_ext:
  "parsedData835_ext (context835_t.parsedData s) (context835_t.parsedData (case_PLB es s))"
  by (simp add: case_PLB_def Let_def ext_835_simps)

lemma case_CLP_ext:
  assumes "case_CLP es s = Inr s'"
  shows "parsedData835_ext (context835_t.parsedData s) (context835_t.parsedData s')"
proof (cases "context835_t.currentPayment s")
  case None
  then show ?thesis using assms by (auto simp: case_CLP_def Let_def ext_835_simps)
next
  case (Some i)
  let ?t = "context835_t.parsedData s"
  let ?t1 = "?t\<lparr> parsedData835_t.claims := parsedData835_t.claims ?t @ [parseCLP es] \<rparr>"
  have a: "parsedData835_ext ?t ?t1"
    by (simp add: ext_835_simps)
  have b: "parsedData835_ext ?t1
      (update_payment i
         (\<lambda>p. p\<lparr> payment_t.claims :=
                   push_lazy (payment_t.claims p) (length (parsedData835_t.claims ?t)) \<rparr>) ?t1)"
    by (rule update_payment_ext)
      (simp add: payment_ext_def opt_ext_eq_refl opt_ext_eq_push_lazy)
  show ?thesis
    using parsedData835_ext_trans [OF a b] Some assms
    by (auto simp: case_CLP_def Let_def on_object_def in_state835_def)
qed

lemma case_SVC_ext:
  assumes "case_SVC es s = Inr s'"
  shows "parsedData835_ext (context835_t.parsedData s) (context835_t.parsedData s')"
proof (cases "context835_t.currentClaim s")
  case None
  then show ?thesis using assms by (auto simp: case_SVC_def Let_def ext_835_simps)
next
  case (Some i)
  let ?t = "context835_t.parsedData s"
  let ?t1 = "?t\<lparr> parsedData835_t.services := parsedData835_t.services ?t @ [parseSVC es] \<rparr>"
  have a: "parsedData835_ext ?t ?t1"
    by (simp add: ext_835_simps)
  have b: "parsedData835_ext ?t1
      (update_claim835 i
         (\<lambda>c. c\<lparr> claim835_t.services := push_lazy (claim835_t.services c) (parseSVC es) \<rparr>) ?t1)"
    by (rule update_claim835_ext)
      (simp add: claim835_ext_def opt_ext_eq_refl opt_ext_eq_push_lazy)
  show ?thesis
    using parsedData835_ext_trans [OF a b] Some assms
    by (auto simp: case_SVC_def Let_def on_object_def in_state835_def)
qed

lemma in_state835_ext:
  assumes "in_state835 r s = Inr s'"
    and "\<And>t'. r = Inr t' \<Longrightarrow> parsedData835_ext (context835_t.parsedData s) t'"
  shows "parsedData835_ext (context835_t.parsedData s) (context835_t.parsedData s')"
  using assms by (cases r) (auto simp: in_state835_def)

lemma switch_835_ext:
  assumes "switch_835 d s segment = Inr s'"
  shows "parsedData835_ext (context835_t.parsedData s) (context835_t.parsedData s')"
  using assms
  by (auto simp: switch_835_def Let_def on_parsedData835_def simple_835_ext
      parsedData835_ext_refl case_BPR_ext case_PLB_ext
      split: if_splits
      elim!: in_state835_ext payment_handlers_ext claim_handlers_835_ext
        parseN4_835_ext case_CLP_ext case_SVC_ext)

lemma switch_835_returns: "switch_835 d s segment = Inr (handleSegment_835 d s segment)"
  by (simp add: handleSegment_835_def switch_835_def Let_def parseTRN_def parseDTM_def
      parseN4_835_def parseCAS_def parseNM1_835_def parseMIA_def parseMOA_def parseAMT_def
      parseQTY_def case_CLP_def case_SVC_def guarded_on_object guarded_in_state835
      in_state835_Inr del: not_None_eq)

lemma handleSegment_835_ext:
  "parsedData835_ext (context835_t.parsedData s)
     (context835_t.parsedData (handleSegment_835 d s segment))"
  by (rule switch_835_ext) (rule switch_835_returns)

lemma foldl_835_ext:
  "parsedData835_ext (context835_t.parsedData s)
     (context835_t.parsedData (foldl (handleSegment_835 d) s segs))"
proof (induction segs arbitrary: s)
  case Nil
  show ?case by (simp add: parsedData835_ext_refl)
next
  case (Cons seg segs)
  show ?case
    using parsedData835_ext_trans [OF handleSegment_835_ext Cons.IH] by simp
qed

section \<open>What one segment does to each list\<close>

lemma map_update_same: "(map f xs)[i := f (xs ! i)] = map f xs"
  by (simp add: map_update [symmetric])

lemma update_entity_lengths:
  "length (parsedData837_t.claims (update_entity r f t)) = length (parsedData837_t.claims t)"
  "length (parsedData837_t.subscribers (update_entity r f t)) = length (parsedData837_t.subscribers t)"
  "length (parsedData837_t.patients (update_entity r f t)) = length (parsedData837_t.patients t)"
  "length (parsedData837_t.providers (update_entity r f t)) = length (parsedData837_t.providers t)"
  by (cases r; simp)+

lemma update_entity_other:
  "parsedData837_t.groups (update_entity r f t) = parsedData837_t.groups t"
  "parsedData837_t.services (update_entity r f t) = parsedData837_t.services t"
  "parsedData837_t.references (update_entity r f t) = parsedData837_t.references t"
  "parsedData837_t.contacts (update_entity r f t) = parsedData837_t.contacts t"
  "parsedData837_t.addresses (update_entity r f t) = parsedData837_t.addresses t"
  "parsedData837_t.claims (update_entity r f t) = parsedData837_t.claims t"
  by (cases r; simp)+

lemmas step_837_unfold = handleSegment_837_def switch_837_def Let_def on_parsedData837_def
  parseISA_837_def parseGS_837_def parseST_837_def parseBHT_def parsePRV_def parseDMG_def
  parseREF_837_def parsePER_837_def parseDTP_def parseN3_837_def parseN4_837_def parseSBR_def
  parseHI_def parseLX_def parseSE_837_def parseGE_837_def parseIEA_837_def
  case_NM1_837_def case_CLM_def case_SV1_def update_claim837_def update_entity_other
  update_entity_lengths guarded_on_object guarded_in_state837 in_state837_Inr map_update
  map_update_same

lemmas step_835_unfold = handleSegment_835_def switch_835_def Let_def on_parsedData835_def
  parseISA_835_def parseGS_835_def parseST_835_def parseTRN_def parseREF_835_def parseDTM_def
  parseN3_835_def parseN4_835_def parsePER_835_def parseCAS_def parseNM1_835_def parseMIA_def
  parseMOA_def parseAMT_def parseQTY_def parseSE_835_def parseGE_835_def parseIEA_835_def
  case_BPR_def case_CLP_def case_SVC_def case_PLB_def update_payment_def update_claim835_def
  guarded_on_object guarded_in_state835 in_state835_Inr map_update map_update_same

lemma step_837_groups:
  "parsedData837_t.groups (context837_t.parsedData (handleSegment_837 d s segment)) =
     (if el (js_split d segment) 0 = Some ''GS''
      then parsedData837_t.groups (context837_t.parsedData s) @ [group_of (js_split d segment)]
      else parsedData837_t.groups (context837_t.parsedData s))"
  by (simp add: step_837_unfold parseCLM_def del: not_None_eq split: option.split)

lemma step_837_services:
  "parsedData837_t.services (context837_t.parsedData (handleSegment_837 d s segment)) =
     (if el (js_split d segment) 0 = Some ''SV1''
      then parsedData837_t.services (context837_t.parsedData s) @ [parseSV1 (js_split d segment)]
      else parsedData837_t.services (context837_t.parsedData s))"
  by (simp add: step_837_unfold parseCLM_def del: not_None_eq split: option.split)

lemma step_837_references:
  "parsedData837_t.references (context837_t.parsedData (handleSegment_837 d s segment)) =
     (if el (js_split d segment) 0 = Some ''REF''
      then push_lazy (parsedData837_t.references (context837_t.parsedData s)) (reference_of (js_split d segment))
      else parsedData837_t.references (context837_t.parsedData s))"
  by (simp add: step_837_unfold parseCLM_def del: not_None_eq split: option.split)

lemma step_837_contacts:
  "parsedData837_t.contacts (context837_t.parsedData (handleSegment_837 d s segment)) =
     (if el (js_split d segment) 0 = Some ''PER''
      then push_lazy (parsedData837_t.contacts (context837_t.parsedData s)) (contact_of (js_split d segment))
      else parsedData837_t.contacts (context837_t.parsedData s))"
  by (simp add: step_837_unfold parseCLM_def del: not_None_eq split: option.split)

lemma step_837_addresses:
  "(if el (js_split d segment) 0 = Some ''N3''
      then parsedData837_t.addresses (context837_t.parsedData (handleSegment_837 d s segment)) = push_lazy (parsedData837_t.addresses (context837_t.parsedData s)) (address_of (js_split d segment))
      else map_option length (parsedData837_t.addresses (context837_t.parsedData (handleSegment_837 d s segment))) = map_option length (parsedData837_t.addresses (context837_t.parsedData s)))"
  by (simp add: step_837_unfold parseCLM_def del: not_None_eq split: option.split)

lemma step_837_claims:
  "(if el (js_split d segment) 0 = Some ''CLM''
      then parsedData837_t.claims (context837_t.parsedData (handleSegment_837 d s segment)) = parsedData837_t.claims (context837_t.parsedData s) @ [parseCLM (js_split d segment)]
      else length (parsedData837_t.claims (context837_t.parsedData (handleSegment_837 d s segment))) = length (parsedData837_t.claims (context837_t.parsedData s)))"
  by (simp add: step_837_unfold parseCLM_def del: not_None_eq split: option.split)

lemma step_837_subscribers:
  "(if el (js_split d segment) 0 = Some ''NM1'' \<and> entity_t.type (parseNM1_837 (js_split d segment)) = Str ''subscriber''
      then parsedData837_t.subscribers (context837_t.parsedData (handleSegment_837 d s segment)) = parsedData837_t.subscribers (context837_t.parsedData s) @ [parseNM1_837 (js_split d segment)]
      else length (parsedData837_t.subscribers (context837_t.parsedData (handleSegment_837 d s segment))) = length (parsedData837_t.subscribers (context837_t.parsedData s)))"
  by (simp add: step_837_unfold parseCLM_def del: not_None_eq split: option.split)

lemma step_837_patients:
  "(if el (js_split d segment) 0 = Some ''NM1'' \<and> entity_t.type (parseNM1_837 (js_split d segment)) = Str ''patient''
      then parsedData837_t.patients (context837_t.parsedData (handleSegment_837 d s segment)) = parsedData837_t.patients (context837_t.parsedData s) @ [parseNM1_837 (js_split d segment)]
      else length (parsedData837_t.patients (context837_t.parsedData (handleSegment_837 d s segment))) = length (parsedData837_t.patients (context837_t.parsedData s)))"
  by (simp add: step_837_unfold parseCLM_def del: not_None_eq split: option.split)

lemma step_837_providers:
  "(if el (js_split d segment) 0 = Some ''NM1'' \<and> entity_t.type (parseNM1_837 (js_split d segment)) = Str ''provider''
      then parsedData837_t.providers (context837_t.parsedData (handleSegment_837 d s segment)) = parsedData837_t.providers (context837_t.parsedData s) @ [parseNM1_837 (js_split d segment)]
      else length (parsedData837_t.providers (context837_t.parsedData (handleSegment_837 d s segment))) = length (parsedData837_t.providers (context837_t.parsedData s)))"
  by (simp add: step_837_unfold parseCLM_def del: not_None_eq split: option.split)

lemma step_837_claim_dates:
  "map claim837_t.dates (parsedData837_t.claims (context837_t.parsedData (handleSegment_837 d s segment))) =
     (if el (js_split d segment) 0 = Some ''CLM''
      then map claim837_t.dates (parsedData837_t.claims (context837_t.parsedData s)) @ [None]
      else if el (js_split d segment) 0 = Some ''DTP''
      then (case context837_t.currentClaim s of
              None \<Rightarrow> map claim837_t.dates (parsedData837_t.claims (context837_t.parsedData s))
            | Some i \<Rightarrow>
                (map claim837_t.dates (parsedData837_t.claims (context837_t.parsedData s)))
                  [i := push_lazy (claim837_t.dates (parsedData837_t.claims (context837_t.parsedData s) ! i))
                          \<lparr> dateInfo837_t.qualifier = el (js_split d segment) 1,
                            dateInfo837_t.formatQualifier = el (js_split d segment) 2,
                            dateInfo837_t.date = el (js_split d segment) 3 \<rparr>])
      else map claim837_t.dates (parsedData837_t.claims (context837_t.parsedData s)))"
  by (simp add: step_837_unfold parseCLM_def del: not_None_eq split: option.split)

lemma step_837_claim_services:
  "map claim837_t.services (parsedData837_t.claims (context837_t.parsedData (handleSegment_837 d s segment))) =
     (if el (js_split d segment) 0 = Some ''CLM''
      then map claim837_t.services (parsedData837_t.claims (context837_t.parsedData s)) @ [None]
      else if el (js_split d segment) 0 = Some ''SV1''
      then (case context837_t.currentClaim s of
              None \<Rightarrow> map claim837_t.services (parsedData837_t.claims (context837_t.parsedData s))
            | Some i \<Rightarrow>
                (map claim837_t.services (parsedData837_t.claims (context837_t.parsedData s)))
                  [i := push_lazy (claim837_t.services (parsedData837_t.claims (context837_t.parsedData s) ! i))
                          (parseSV1 (js_split d segment))])
      else map claim837_t.services (parsedData837_t.claims (context837_t.parsedData s)))"
  by (simp add: step_837_unfold parseCLM_def del: not_None_eq split: option.split)

lemma step_837_claim_healthInfo:
  "map claim837_t.healthInfo (parsedData837_t.claims (context837_t.parsedData (handleSegment_837 d s segment))) =
     (if el (js_split d segment) 0 = Some ''CLM''
      then map claim837_t.healthInfo (parsedData837_t.claims (context837_t.parsedData s)) @ [None]
      else if el (js_split d segment) 0 = Some ''HI''
      then (case context837_t.currentClaim s of
              None \<Rightarrow> map claim837_t.healthInfo (parsedData837_t.claims (context837_t.parsedData s))
            | Some i \<Rightarrow>
                (map claim837_t.healthInfo (parsedData837_t.claims (context837_t.parsedData s)))
                  [i := push_lazy (claim837_t.healthInfo (parsedData837_t.claims (context837_t.parsedData s) ! i))
                          (healthInfo_of (js_split d segment))])
      else map claim837_t.healthInfo (parsedData837_t.claims (context837_t.parsedData s)))"
  by (simp add: step_837_unfold parseCLM_def del: not_None_eq split: option.split)

lemma step_835_groups:
  "parsedData835_t.groups (context835_t.parsedData (handleSegment_835 d s segment)) =
     (if el (js_split d segment) 0 = Some ''GS''
      then parsedData835_t.groups (context835_t.parsedData s) @ [group_of (js_split d segment)]
      else parsedData835_t.groups (context835_t.parsedData s))"
  by (simp add: step_835_unfold parseCLP_def parseBPR_def del: not_None_eq split: option.split)

lemma step_835_services:
  "parsedData835_t.services (context835_t.parsedData (handleSegment_835 d s segment)) =
     (if el (js_split d segment) 0 = Some ''SVC''
      then parsedData835_t.services (context835_t.parsedData s) @ [parseSVC (js_split d segment)]
      else parsedData835_t.services (context835_t.parsedData s))"
  by (simp add: step_835_unfold parseCLP_def parseBPR_def del: not_None_eq split: option.split)

lemma step_835_adjustments:
  "parsedData835_t.adjustments (context835_t.parsedData (handleSegment_835 d s segment)) =
     (if el (js_split d segment) 0 = Some ''PLB''
      then parsedData835_t.adjustments (context835_t.parsedData s) @ [parsePLB (js_split d segment)]
      else parsedData835_t.adjustments (context835_t.parsedData s))"
  by (simp add: step_835_unfold parseCLP_def parseBPR_def del: not_None_eq split: option.split)

lemma step_835_references:
  "parsedData835_t.references (context835_t.parsedData (handleSegment_835 d s segment)) =
     (if el (js_split d segment) 0 = Some ''REF''
      then parsedData835_t.references (context835_t.parsedData s) @ [reference_of (js_split d segment)]
      else parsedData835_t.references (context835_t.parsedData s))"
  by (simp add: step_835_unfold parseCLP_def parseBPR_def del: not_None_eq split: option.split)

lemma step_835_contacts:
  "parsedData835_t.contacts (context835_t.parsedData (handleSegment_835 d s segment)) =
     (if el (js_split d segment) 0 = Some ''PER''
      then parsedData835_t.contacts (context835_t.parsedData s) @ [contact_of (js_split d segment)]
      else parsedData835_t.contacts (context835_t.parsedData s))"
  by (simp add: step_835_unfold parseCLP_def parseBPR_def del: not_None_eq split: option.split)

lemma step_835_addresses:
  "(if el (js_split d segment) 0 = Some ''N3''
      then parsedData835_t.addresses (context835_t.parsedData (handleSegment_835 d s segment)) = parsedData835_t.addresses (context835_t.parsedData s) @ [address_of (js_split d segment)]
      else length (parsedData835_t.addresses (context835_t.parsedData (handleSegment_835 d s segment))) = length (parsedData835_t.addresses (context835_t.parsedData s)))"
  by (simp add: step_835_unfold parseCLP_def parseBPR_def del: not_None_eq split: option.split)

lemma step_835_payments:
  "(if el (js_split d segment) 0 = Some ''BPR''
      then parsedData835_t.payments (context835_t.parsedData (handleSegment_835 d s segment)) = parsedData835_t.payments (context835_t.parsedData s) @ [parseBPR (js_split d segment)]
      else length (parsedData835_t.payments (context835_t.parsedData (handleSegment_835 d s segment))) = length (parsedData835_t.payments (context835_t.parsedData s)))"
  by (simp add: step_835_unfold parseCLP_def parseBPR_def del: not_None_eq split: option.split)

lemma step_835_claims:
  "(if el (js_split d segment) 0 = Some ''CLP''
      then parsedData835_t.claims (context835_t.parsedData (handleSegment_835 d s segment)) = parsedData835_t.claims (context835_t.parsedData s) @ [parseCLP (js_split d segment)]
      else length (parsedData835_t.claims (context835_t.parsedData (handleSegment_835 d s segment))) = length (parsedData835_t.claims (context835_t.parsedData s)))"
  by (simp add: step_835_unfold parseCLP_def parseBPR_def del: not_None_eq split: option.split)

lemma step_835_payment_dates:
  "map payment_t.dates (parsedData835_t.payments (context835_t.parsedData (handleSegment_835 d s segment))) =
     (if el (js_split d segment) 0 = Some ''BPR''
      then map payment_t.dates (parsedData835_t.payments (context835_t.parsedData s)) @ [None]
      else if el (js_split d segment) 0 = Some ''DTM''
      then (case context835_t.currentPayment s of
              None \<Rightarrow> map payment_t.dates (parsedData835_t.payments (context835_t.parsedData s))
            | Some i \<Rightarrow>
                (map payment_t.dates (parsedData835_t.payments (context835_t.parsedData s)))
                  [i := push_lazy (payment_t.dates (parsedData835_t.payments (context835_t.parsedData s) ! i))
                          (dateInfo835_of (js_split d segment))])
      else map payment_t.dates (parsedData835_t.payments (context835_t.parsedData s)))"
  by (simp add: step_835_unfold parseCLP_def parseBPR_def del: not_None_eq split: option.split)

lemma step_835_payment_claims:
  "map payment_t.claims (parsedData835_t.payments (context835_t.parsedData (handleSegment_835 d s segment))) =
     (if el (js_split d segment) 0 = Some ''BPR''
      then map payment_t.claims (parsedData835_t.payments (context835_t.parsedData s)) @ [None]
      else if el (js_split d segment) 0 = Some ''CLP''
      then (case context835_t.currentPayment s of
              None \<Rightarrow> map payment_t.claims (parsedData835_t.payments (context835_t.parsedData s))
            | Some i \<Rightarrow>
                (map payment_t.claims (parsedData835_t.payments (context835_t.parsedData s)))
                  [i := push_lazy (payment_t.claims (parsedData835_t.payments (context835_t.parsedData s) ! i))
                          (length (parsedData835_t.claims (context835_t.parsedData s)))])
      else map payment_t.claims (parsedData835_t.payments (context835_t.parsedData s)))"
  by (simp add: step_835_unfold parseCLP_def parseBPR_def del: not_None_eq split: option.split)

lemma step_835_claim_adjustments:
  "map claim835_t.adjustments (parsedData835_t.claims (context835_t.parsedData (handleSegment_835 d s segment))) =
     (if el (js_split d segment) 0 = Some ''CLP''
      then map claim835_t.adjustments (parsedData835_t.claims (context835_t.parsedData s)) @ [None]
      else if el (js_split d segment) 0 = Some ''CAS''
      then (case context835_t.currentClaim s of
              None \<Rightarrow> map claim835_t.adjustments (parsedData835_t.claims (context835_t.parsedData s))
            | Some i \<Rightarrow>
                (map claim835_t.adjustments (parsedData835_t.claims (context835_t.parsedData s)))
                  [i := push_lazy (claim835_t.adjustments (parsedData835_t.claims (context835_t.parsedData s) ! i))
                          (adjustment_of (js_split d segment))])
      else map claim835_t.adjustments (parsedData835_t.claims (context835_t.parsedData s)))"
  by (simp add: step_835_unfold parseCLP_def parseBPR_def del: not_None_eq split: option.split)

lemma step_835_claim_entities:
  "map claim835_t.entities (parsedData835_t.claims (context835_t.parsedData (handleSegment_835 d s segment))) =
     (if el (js_split d segment) 0 = Some ''CLP''
      then map claim835_t.entities (parsedData835_t.claims (context835_t.parsedData s)) @ [None]
      else if el (js_split d segment) 0 = Some ''NM1''
      then (case context835_t.currentClaim s of
              None \<Rightarrow> map claim835_t.entities (parsedData835_t.claims (context835_t.parsedData s))
            | Some i \<Rightarrow>
                (map claim835_t.entities (parsedData835_t.claims (context835_t.parsedData s)))
                  [i := push_lazy (claim835_t.entities (parsedData835_t.claims (context835_t.parsedData s) ! i))
                          \<lparr> entity835_t.entityIdentifierCode = el (js_split d segment) 1,
                            entity835_t.entityTypeQualifier = el (js_split d segment) 2,
                            entity835_t.lastName = el (js_split d segment) 3,
                            entity835_t.firstName = el (js_split d segment) 4,
                            entity835_t.middleName = el (js_split d segment) 5,
                            entity835_t.namePrefix = el (js_split d segment) 6,
                            entity835_t.nameSuffix = el (js_split d segment) 7,
                            entity835_t.identificationCodeQualifier = el (js_split d segment) 8,
                            entity835_t.identificationCode = el (js_split d segment) 9 \<rparr>])
      else map claim835_t.entities (parsedData835_t.claims (context835_t.parsedData s)))"
  by (simp add: step_835_unfold parseCLP_def parseBPR_def del: not_None_eq split: option.split)

lemma step_835_claim_services:
  "map claim835_t.services (parsedData835_t.claims (context835_t.parsedData (handleSegment_835 d s segment))) =
     (if el (js_split d segment) 0 = Some ''CLP''
      then map claim835_t.services (parsedData835_t.claims (context835_t.parsedData s)) @ [None]
      else if el (js_split d segment) 0 = Some ''SVC''
      then (case context835_t.currentClaim s of
              None \<Rightarrow> map claim835_t.services (parsedData835_t.claims (context835_t.parsedData s))
            | Some i \<Rightarrow>
                (map claim835_t.services (parsedData835_t.claims (context835_t.parsedData s)))
                  [i := push_lazy (claim835_t.services (parsedData835_t.claims (context835_t.parsedData s) ! i))
                          (parseSVC (js_split d segment))])
      else map claim835_t.services (parsedData835_t.claims (context835_t.parsedData s)))"
  by (simp add: step_835_unfold parseCLP_def parseBPR_def del: not_None_eq split: option.split)

lemma step_835_claim_amounts:
  "map claim835_t.amounts (parsedData835_t.claims (context835_t.parsedData (handleSegment_835 d s segment))) =
     (if el (js_split d segment) 0 = Some ''CLP''
      then map claim835_t.amounts (parsedData835_t.claims (context835_t.parsedData s)) @ [None]
      else if el (js_split d segment) 0 = Some ''AMT''
      then (case context835_t.currentClaim s of
              None \<Rightarrow> map claim835_t.amounts (parsedData835_t.claims (context835_t.parsedData s))
            | Some i \<Rightarrow>
                (map claim835_t.amounts (parsedData835_t.claims (context835_t.parsedData s)))
                  [i := push_lazy (claim835_t.amounts (parsedData835_t.claims (context835_t.parsedData s) ! i))
                          \<lparr> amount_t.amountQualifierCode = el (js_split d segment) 1,
                            amount_t.monetaryAmount = el (js_split d segment) 2 \<rparr>])
      else map claim835_t.amounts (parsedData835_t.claims (context835_t.parsedData s)))"
  by (simp add: step_835_unfold parseCLP_def parseBPR_def del: not_None_eq split: option.split)

lemma step_835_claim_quantities:
  "map claim835_t.quantities (parsedData835_t.claims (context835_t.parsedData (handleSegment_835 d s segment))) =
     (if el (js_split d segment) 0 = Some ''CLP''
      then map claim835_t.quantities (parsedData835_t.claims (context835_t.parsedData s)) @ [None]
      else if el (js_split d segment) 0 = Some ''QTY''
      then (case context835_t.currentClaim s of
              None \<Rightarrow> map claim835_t.quantities (parsedData835_t.claims (context835_t.parsedData s))
            | Some i \<Rightarrow>
                (map claim835_t.quantities (parsedData835_t.claims (context835_t.parsedData s)))
                  [i := push_lazy (claim835_t.quantities (parsedData835_t.claims (context835_t.parsedData s) ! i))
                          \<lparr> quantity_t.quantityQualifier = el (js_split d segment) 1,
                            quantity_t.quantity = el (js_split d segment) 2 \<rparr>])
      else map claim835_t.quantities (parsedData835_t.claims (context835_t.parsedData s)))"
  by (simp add: step_835_unfold parseCLP_def parseBPR_def del: not_None_eq split: option.split)

lemma step_837_pointers:
  "context837_t.currentClaim (handleSegment_837 d s segment) =
     (if el (js_split d segment) 0 = Some ''CLM''
      then Some (length (parsedData837_t.claims (context837_t.parsedData s)))
      else context837_t.currentClaim s)"
  "context837_t.currentSubscriber (handleSegment_837 d s segment) =
     (if el (js_split d segment) 0 = Some ''NM1'' \<and>
         entity_t.type (parseNM1_837 (js_split d segment)) = Str ''subscriber''
      then Some (SubscriberAt (length (parsedData837_t.subscribers (context837_t.parsedData s))))
      else context837_t.currentSubscriber s)"
  "context837_t.currentPatient (handleSegment_837 d s segment) =
     (if el (js_split d segment) 0 = Some ''NM1'' \<and>
         entity_t.type (parseNM1_837 (js_split d segment)) = Str ''patient''
      then Some (PatientAt (length (parsedData837_t.patients (context837_t.parsedData s))))
      else context837_t.currentPatient s)"
  "context837_t.currentProvider (handleSegment_837 d s segment) =
     (if el (js_split d segment) 0 = Some ''NM1'' \<and>
         entity_t.type (parseNM1_837 (js_split d segment)) = Str ''provider''
      then Some (ProviderAt (length (parsedData837_t.providers (context837_t.parsedData s))))
      else context837_t.currentProvider s)"
  by (simp_all add: step_837_unfold del: not_None_eq split: option.split)

lemma foldl_push_lazy_Some: "foldl push_lazy (Some ys) xs = Some (ys @ xs)"
  by (induction xs arbitrary: ys) simp_all

lemma foldl_push_lazy_None: "foldl push_lazy None xs = (if xs = [] then None else Some xs)"
  by (cases xs) (simp_all add: foldl_push_lazy_Some)

lemma loop_837_groups:
  "parsedData837_t.groups (context837_t.parsedData (foldl (handleSegment_837 d) s segs)) =
     parsedData837_t.groups (context837_t.parsedData s) @
     map (\<lambda>seg. group_of (js_split d seg)) (filter (\<lambda>seg. el (js_split d seg) 0 = Some ''GS'') segs)"
  by (induction segs arbitrary: s) (simp_all add: step_837_groups)

lemma loop_837_services:
  "parsedData837_t.services (context837_t.parsedData (foldl (handleSegment_837 d) s segs)) =
     parsedData837_t.services (context837_t.parsedData s) @
     map (\<lambda>seg. parseSV1 (js_split d seg)) (filter (\<lambda>seg. el (js_split d seg) 0 = Some ''SV1'') segs)"
  by (induction segs arbitrary: s) (simp_all add: step_837_services)

lemma loop_837_references:
  "parsedData837_t.references (context837_t.parsedData (foldl (handleSegment_837 d) s segs)) =
     foldl push_lazy (parsedData837_t.references (context837_t.parsedData s))
       (map (\<lambda>seg. reference_of (js_split d seg)) (filter (\<lambda>seg. el (js_split d seg) 0 = Some ''REF'') segs))"
  by (induction segs arbitrary: s) (simp_all add: step_837_references)

lemma loop_837_contacts:
  "parsedData837_t.contacts (context837_t.parsedData (foldl (handleSegment_837 d) s segs)) =
     foldl push_lazy (parsedData837_t.contacts (context837_t.parsedData s))
       (map (\<lambda>seg. contact_of (js_split d seg)) (filter (\<lambda>seg. el (js_split d seg) 0 = Some ''PER'') segs))"
  by (induction segs arbitrary: s) (simp_all add: step_837_contacts)

lemma step_837_addresses_absent:
  "(parsedData837_t.addresses (context837_t.parsedData (handleSegment_837 d s segment)) = None) =
     (parsedData837_t.addresses (context837_t.parsedData s) = None \<and>
      el (js_split d segment) 0 \<noteq> Some ''N3'')"
proof (cases "el (js_split d segment) 0 = Some ''N3''")
  case True
  then show ?thesis
    using step_837_addresses [where d = d and s = s and segment = segment]
    by (cases "parsedData837_t.addresses (context837_t.parsedData s)") simp_all
next
  case False
  then have "map_option length
        (parsedData837_t.addresses (context837_t.parsedData (handleSegment_837 d s segment))) =
      map_option length (parsedData837_t.addresses (context837_t.parsedData s))"
    using step_837_addresses [where d = d and s = s and segment = segment] by simp
  then have "(parsedData837_t.addresses
        (context837_t.parsedData (handleSegment_837 d s segment)) = None) =
      (parsedData837_t.addresses (context837_t.parsedData s) = None)"
    by (metis option.map_disc_iff)
  with False show ?thesis by simp
qed

lemma loop_837_addresses:
  "(parsedData837_t.addresses (context837_t.parsedData (foldl (handleSegment_837 d) s segs)) = None) =
     (parsedData837_t.addresses (context837_t.parsedData s) = None \<and>
      (filter (\<lambda>seg. el (js_split d seg) 0 = Some ''N3'') segs) = [])"
  by (induction segs arbitrary: s) (auto simp: step_837_addresses_absent)

lemma loop_835_groups:
  "parsedData835_t.groups (context835_t.parsedData (foldl (handleSegment_835 d) s segs)) =
     parsedData835_t.groups (context835_t.parsedData s) @
     map (\<lambda>seg. group_of (js_split d seg)) (filter (\<lambda>seg. el (js_split d seg) 0 = Some ''GS'') segs)"
  by (induction segs arbitrary: s) (simp_all add: step_835_groups)

lemma loop_835_services:
  "parsedData835_t.services (context835_t.parsedData (foldl (handleSegment_835 d) s segs)) =
     parsedData835_t.services (context835_t.parsedData s) @
     map (\<lambda>seg. parseSVC (js_split d seg)) (filter (\<lambda>seg. el (js_split d seg) 0 = Some ''SVC'') segs)"
  by (induction segs arbitrary: s) (simp_all add: step_835_services)

lemma loop_835_adjustments:
  "parsedData835_t.adjustments (context835_t.parsedData (foldl (handleSegment_835 d) s segs)) =
     parsedData835_t.adjustments (context835_t.parsedData s) @
     map (\<lambda>seg. parsePLB (js_split d seg)) (filter (\<lambda>seg. el (js_split d seg) 0 = Some ''PLB'') segs)"
  by (induction segs arbitrary: s) (simp_all add: step_835_adjustments)

lemma loop_835_references:
  "parsedData835_t.references (context835_t.parsedData (foldl (handleSegment_835 d) s segs)) =
     parsedData835_t.references (context835_t.parsedData s) @
     map (\<lambda>seg. reference_of (js_split d seg)) (filter (\<lambda>seg. el (js_split d seg) 0 = Some ''REF'') segs)"
  by (induction segs arbitrary: s) (simp_all add: step_835_references)

lemma loop_835_contacts:
  "parsedData835_t.contacts (context835_t.parsedData (foldl (handleSegment_835 d) s segs)) =
     parsedData835_t.contacts (context835_t.parsedData s) @
     map (\<lambda>seg. contact_of (js_split d seg)) (filter (\<lambda>seg. el (js_split d seg) 0 = Some ''PER'') segs)"
  by (induction segs arbitrary: s) (simp_all add: step_835_contacts)

subsection \<open>List-valued fields\<close>

text \<open>
  C7, as stated: every list-valued field of the tree, the top-level \<open>references\<close>,
  \<open>contacts\<close> and \<open>addresses\<close> and the per-claim lists included, is present and empty before
  any segment is handled.  In the 837 parser it is not: after a CLM segment alone the
  three top-level lists are still absent, and so are the three lists of the claim.
\<close>

theorem C7_lists_absent_until_first_push:
  "\<exists>t. fst (parse_837 new_EDI837Parser ''CLM*C1*10~'') = Inr t \<and>
     parsedData837_t.references t = None \<and>
     parsedData837_t.contacts t = None \<and>
     parsedData837_t.addresses t = None \<and>
     map claim837_t.services (parsedData837_t.claims t) = [None] \<and>
     map claim837_t.dates (parsedData837_t.claims t) = [None] \<and>
     map claim837_t.healthInfo (parsedData837_t.claims t) = [None]"
  by (simp add: parse_837_eval handlers_837 shared_eval js_eval)

text \<open>
  C7, amended.  Before any segment is handled the 837 tree holds the empty lists
  \<open>groups\<close>, \<open>claims\<close>, \<open>providers\<close>, \<open>subscribers\<close>, \<open>patients\<close> and \<open>services\<close>, while its
  \<open>references\<close>, \<open>contacts\<close> and \<open>addresses\<close> are absent; the 835 tree holds all eight of its
  top-level lists, empty.  The lists of a claim (and of an 835 payment) are absent on the
  new object.  Handling a segment only extends: in every list that exists the entries
  keep their positions and new entries are added at the end, in both parsers, for one
  segment and hence for any run of segments.

  What one segment does to each list is exact.  A flat list gets the record of the
  segment at its end when the segment has the list's tag, and is unchanged otherwise; a
  list that may be absent is created by that first push and by nothing else (an N4
  segment changes neither the presence nor the length of \<open>addresses\<close>).  An entity list
  grows by the NM1 entity of its role and keeps its length otherwise; \<open>claims\<close> and
  \<open>payments\<close> grow by the new object on CLM, CLP and BPR.  The lists inside the claims
  (and payments) are absent on the new object, get the segment's record at the end of the
  current object's list on DTP, SV1, HI (DTM, CLP, CAS, NM1, SVC, AMT, QTY), which
  creates the list when it was absent, and are unchanged by every other segment.

  Over a whole run from the initial tree a flat list is the records of its segments in
  arrival order; the 837 \<open>references\<close> and \<open>contacts\<close> are absent exactly when the input has
  no REF or PER segment and \<open>addresses\<close> exactly when it has no N3 segment.
\<close>

theorem C7_lists_grow_at_the_end:
  "(parsedData837_t.groups initial_parsedData837 = [] \<and>
    parsedData837_t.claims initial_parsedData837 = [] \<and>
    parsedData837_t.providers initial_parsedData837 = [] \<and>
    parsedData837_t.subscribers initial_parsedData837 = [] \<and>
    parsedData837_t.patients initial_parsedData837 = [] \<and>
    parsedData837_t.services initial_parsedData837 = [] \<and>
    parsedData837_t.references initial_parsedData837 = None \<and>
    parsedData837_t.contacts initial_parsedData837 = None \<and>
    parsedData837_t.addresses initial_parsedData837 = None) \<and>
   (parsedData837_t.references (parseREF_837 es initial_parsedData837) = Some [reference_of es] \<and>
    parsedData837_t.contacts (parsePER_837 es initial_parsedData837) = Some [contact_of es] \<and>
    parsedData837_t.addresses (parseN3_837 es initial_parsedData837) = Some [address_of es]) \<and>
   (parsedData835_t.groups initial_parsedData835 = [] \<and>
    parsedData835_t.payments initial_parsedData835 = [] \<and>
    parsedData835_t.claims initial_parsedData835 = [] \<and>
    parsedData835_t.services initial_parsedData835 = [] \<and>
    parsedData835_t.adjustments initial_parsedData835 = [] \<and>
    parsedData835_t.references initial_parsedData835 = [] \<and>
    parsedData835_t.contacts initial_parsedData835 = [] \<and>
    parsedData835_t.addresses initial_parsedData835 = []) \<and>
   (claim837_t.services (parseCLM es) = None \<and>
    claim837_t.dates (parseCLM es) = None \<and>
    claim837_t.healthInfo (parseCLM es) = None) \<and>
   (claim835_t.adjustments (parseCLP es) = None \<and>
    claim835_t.entities (parseCLP es) = None \<and>
    claim835_t.services (parseCLP es) = None \<and>
    claim835_t.amounts (parseCLP es) = None \<and>
    claim835_t.quantities (parseCLP es) = None \<and>
    payment_t.dates (parseBPR es) = None \<and>
    payment_t.claims (parseBPR es) = None) \<and>
   parsedData837_ext (context837_t.parsedData s7)
     (context837_t.parsedData (handleSegment_837 d s7 segment)) \<and>
   parsedData835_ext (context835_t.parsedData s5)
     (context835_t.parsedData (handleSegment_835 d s5 segment)) \<and>
   parsedData837_ext (parseSegments_837 d before t7) (parseSegments_837 d (before @ after) t7) \<and>
   parsedData835_ext (parseSegments_835 d before t5) (parseSegments_835 d (before @ after) t5) \<and>
   (parsedData837_t.groups (context837_t.parsedData (handleSegment_837 d s7 segment)) =
       (if el (js_split d segment) 0 = Some ''GS''
        then parsedData837_t.groups (context837_t.parsedData s7) @ [group_of (js_split d segment)]
        else parsedData837_t.groups (context837_t.parsedData s7))) \<and>
   (parsedData837_t.services (context837_t.parsedData (handleSegment_837 d s7 segment)) =
       (if el (js_split d segment) 0 = Some ''SV1''
        then parsedData837_t.services (context837_t.parsedData s7) @ [parseSV1 (js_split d segment)]
        else parsedData837_t.services (context837_t.parsedData s7))) \<and>
   (parsedData837_t.references (context837_t.parsedData (handleSegment_837 d s7 segment)) =
       (if el (js_split d segment) 0 = Some ''REF''
        then push_lazy (parsedData837_t.references (context837_t.parsedData s7)) (reference_of (js_split d segment))
        else parsedData837_t.references (context837_t.parsedData s7))) \<and>
   (parsedData837_t.contacts (context837_t.parsedData (handleSegment_837 d s7 segment)) =
       (if el (js_split d segment) 0 = Some ''PER''
        then push_lazy (parsedData837_t.contacts (context837_t.parsedData s7)) (contact_of (js_split d segment))
        else parsedData837_t.contacts (context837_t.parsedData s7))) \<and>
   ((if el (js_split d segment) 0 = Some ''N3''
        then parsedData837_t.addresses (context837_t.parsedData (handleSegment_837 d s7 segment)) = push_lazy (parsedData837_t.addresses (context837_t.parsedData s7)) (address_of (js_split d segment))
        else map_option length (parsedData837_t.addresses (context837_t.parsedData (handleSegment_837 d s7 segment))) = map_option length (parsedData837_t.addresses (context837_t.parsedData s7)))) \<and>
   ((if el (js_split d segment) 0 = Some ''CLM''
        then parsedData837_t.claims (context837_t.parsedData (handleSegment_837 d s7 segment)) = parsedData837_t.claims (context837_t.parsedData s7) @ [parseCLM (js_split d segment)]
        else length (parsedData837_t.claims (context837_t.parsedData (handleSegment_837 d s7 segment))) = length (parsedData837_t.claims (context837_t.parsedData s7)))) \<and>
   ((if el (js_split d segment) 0 = Some ''NM1'' \<and> entity_t.type (parseNM1_837 (js_split d segment)) = Str ''subscriber''
        then parsedData837_t.subscribers (context837_t.parsedData (handleSegment_837 d s7 segment)) = parsedData837_t.subscribers (context837_t.parsedData s7) @ [parseNM1_837 (js_split d segment)]
        else length (parsedData837_t.subscribers (context837_t.parsedData (handleSegment_837 d s7 segment))) = length (parsedData837_t.subscribers (context837_t.parsedData s7)))) \<and>
   ((if el (js_split d segment) 0 = Some ''NM1'' \<and> entity_t.type (parseNM1_837 (js_split d segment)) = Str ''patient''
        then parsedData837_t.patients (context837_t.parsedData (handleSegment_837 d s7 segment)) = parsedData837_t.patients (context837_t.parsedData s7) @ [parseNM1_837 (js_split d segment)]
        else length (parsedData837_t.patients (context837_t.parsedData (handleSegment_837 d s7 segment))) = length (parsedData837_t.patients (context837_t.parsedData s7)))) \<and>
   ((if el (js_split d segment) 0 = Some ''NM1'' \<and> entity_t.type (parseNM1_837 (js_split d segment)) = Str ''provider''
        then parsedData837_t.providers (context837_t.parsedData (handleSegment_837 d s7 segment)) = parsedData837_t.providers (context837_t.parsedData s7) @ [parseNM1_837 (js_split d segment)]
        else length (parsedData837_t.providers (context837_t.parsedData (handleSegment_837 d s7 segment))) = length (parsedData837_t.providers (context837_t.parsedData s7)))) \<and>
   (map claim837_t.dates (parsedData837_t.claims (context837_t.parsedData (handleSegment_837 d s7 segment))) =
       (if el (js_split d segment) 0 = Some ''CLM''
        then map claim837_t.dates (parsedData837_t.claims (context837_t.parsedData s7)) @ [None]
        else if el (js_split d segment) 0 = Some ''DTP''
        then (case context837_t.currentClaim s7 of
                None \<Rightarrow> map claim837_t.dates (parsedData837_t.claims (context837_t.parsedData s7))
              | Some i \<Rightarrow>
                  (map claim837_t.dates (parsedData837_t.claims (context837_t.parsedData s7)))
                    [i := push_lazy (claim837_t.dates (parsedData837_t.claims (context837_t.parsedData s7) ! i))
                            \<lparr> dateInfo837_t.qualifier = el (js_split d segment) 1,
                              dateInfo837_t.formatQualifier = el (js_split d segment) 2,
                              dateInfo837_t.date = el (js_split d segment) 3 \<rparr>])
        else map claim837_t.dates (parsedData837_t.claims (context837_t.parsedData s7)))) \<and>
   (map claim837_t.services (parsedData837_t.claims (context837_t.parsedData (handleSegment_837 d s7 segment))) =
       (if el (js_split d segment) 0 = Some ''CLM''
        then map claim837_t.services (parsedData837_t.claims (context837_t.parsedData s7)) @ [None]
        else if el (js_split d segment) 0 = Some ''SV1''
        then (case context837_t.currentClaim s7 of
                None \<Rightarrow> map claim837_t.services (parsedData837_t.claims (context837_t.parsedData s7))
              | Some i \<Rightarrow>
                  (map claim837_t.services (parsedData837_t.claims (context837_t.parsedData s7)))
                    [i := push_lazy (claim837_t.services (parsedData837_t.claims (context837_t.parsedData s7) ! i))
                            (parseSV1 (js_split d segment))])
        else map claim837_t.services (parsedData837_t.claims (context837_t.parsedData s7)))) \<and>
   (map claim837_t.healthInfo (parsedData837_t.claims (context837_t.parsedData (handleSegment_837 d s7 segment))) =
       (if el (js_split d segment) 0 = Some ''CLM''
        then map claim837_t.healthInfo (parsedData837_t.claims (context837_t.parsedData s7)) @ [None]
        else if el (js_split d segment) 0 = Some ''HI''
        then (case context837_t.currentClaim s7 of
                None \<Rightarrow> map claim837_t.healthInfo (parsedData837_t.claims (context837_t.parsedData s7))
              | Some i \<Rightarrow>
                  (map claim837_t.healthInfo (parsedData837_t.claims (context837_t.parsedData s7)))
                    [i := push_lazy (claim837_t.healthInfo (parsedData837_t.claims (context837_t.parsedData s7) ! i))
                            (healthInfo_of (js_split d segment))])
        else map claim837_t.healthInfo (parsedData837_t.claims (context837_t.parsedData s7)))) \<and>
   (parsedData835_t.groups (context835_t.parsedData (handleSegment_835 d s5 segment)) =
       (if el (js_split d segment) 0 = Some ''GS''
        then parsedData835_t.groups (context835_t.parsedData s5) @ [group_of (js_split d segment)]
        else parsedData835_t.groups (context835_t.parsedData s5))) \<and>
   (parsedData835_t.services (context835_t.parsedData (handleSegment_835 d s5 segment)) =
       (if el (js_split d segment) 0 = Some ''SVC''
        then parsedData835_t.services (context835_t.parsedData s5) @ [parseSVC (js_split d segment)]
        else parsedData835_t.services (context835_t.parsedData s5))) \<and>
   (parsedData835_t.adjustments (context835_t.parsedData (handleSegment_835 d s5 segment)) =
       (if el (js_split d segment) 0 = Some ''PLB''
        then parsedData835_t.adjustments (context835_t.parsedData s5) @ [parsePLB (js_split d segment)]
        else parsedData835_t.adjustments (context835_t.parsedData s5))) \<and>
   (parsedData835_t.references (context835_t.parsedData (handleSegment_835 d s5 segment)) =
       (if el (js_split d segment) 0 = Some ''REF''
        then parsedData835_t.references (context835_t.parsedData s5) @ [reference_of (js_split d segment)]
        else parsedData835_t.references (context835_t.parsedData s5))) \<and>
   (parsedData835_t.contacts (context835_t.parsedData (handleSegment_835 d s5 segment)) =
       (if el (js_split d segment) 0 = Some ''PER''
        then parsedData835_t.contacts (context835_t.parsedData s5) @ [contact_of (js_split d segment)]
        else parsedData835_t.contacts (context835_t.parsedData s5))) \<and>
   ((if el (js_split d segment) 0 = Some ''N3''
        then parsedData835_t.addresses (context835_t.parsedData (handleSegment_835 d s5 segment)) = parsedData835_t.addresses (context835_t.parsedData s5) @ [address_of (js_split d segment)]
        else length (parsedData835_t.addresses (context835_t.parsedData (handleSegment_835 d s5 segment))) = length (parsedData835_t.addresses (context835_t.parsedData s5)))) \<and>
   ((if el (js_split d segment) 0 = Some ''BPR''
        then parsedData835_t.payments (context835_t.parsedData (handleSegment_835 d s5 segment)) = parsedData835_t.payments (context835_t.parsedData s5) @ [parseBPR (js_split d segment)]
        else length (parsedData835_t.payments (context835_t.parsedData (handleSegment_835 d s5 segment))) = length (parsedData835_t.payments (context835_t.parsedData s5)))) \<and>
   ((if el (js_split d segment) 0 = Some ''CLP''
        then parsedData835_t.claims (context835_t.parsedData (handleSegment_835 d s5 segment)) = parsedData835_t.claims (context835_t.parsedData s5) @ [parseCLP (js_split d segment)]
        else length (parsedData835_t.claims (context835_t.parsedData (handleSegment_835 d s5 segment))) = length (parsedData835_t.claims (context835_t.parsedData s5)))) \<and>
   (map payment_t.dates (parsedData835_t.payments (context835_t.parsedData (handleSegment_835 d s5 segment))) =
       (if el (js_split d segment) 0 = Some ''BPR''
        then map payment_t.dates (parsedData835_t.payments (context835_t.parsedData s5)) @ [None]
        else if el (js_split d segment) 0 = Some ''DTM''
        then (case context835_t.currentPayment s5 of
                None \<Rightarrow> map payment_t.dates (parsedData835_t.payments (context835_t.parsedData s5))
              | Some i \<Rightarrow>
                  (map payment_t.dates (parsedData835_t.payments (context835_t.parsedData s5)))
                    [i := push_lazy (payment_t.dates (parsedData835_t.payments (context835_t.parsedData s5) ! i))
                            (dateInfo835_of (js_split d segment))])
        else map payment_t.dates (parsedData835_t.payments (context835_t.parsedData s5)))) \<and>
   (map payment_t.claims (parsedData835_t.payments (context835_t.parsedData (handleSegment_835 d s5 segment))) =
       (if el (js_split d segment) 0 = Some ''BPR''
        then map payment_t.claims (parsedData835_t.payments (context835_t.parsedData s5)) @ [None]
        else if el (js_split d segment) 0 = Some ''CLP''
        then (case context835_t.currentPayment s5 of
                None \<Rightarrow> map payment_t.claims (parsedData835_t.payments (context835_t.parsedData s5))
              | Some i \<Rightarrow>
                  (map payment_t.claims (parsedData835_t.payments (context835_t.parsedData s5)))
                    [i := push_lazy (payment_t.claims (parsedData835_t.payments (context835_t.parsedData s5) ! i))
                            (length (parsedData835_t.claims (context835_t.parsedData s5)))])
        else map payment_t.claims (parsedData835_t.payments (context835_t.parsedData s5)))) \<and>
   (map claim835_t.adjustments (parsedData835_t.claims (context835_t.parsedData (handleSegment_835 d s5 segment))) =
       (if el (js_split d segment) 0 = Some ''CLP''
        then map claim835_t.adjustments (parsedData835_t.claims (context835_t.parsedData s5)) @ [None]
        else if el (js_split d segment) 0 = Some ''CAS''
        then (case context835_t.currentClaim s5 of
                None \<Rightarrow> map claim835_t.adjustments (parsedData835_t.claims (context835_t.parsedData s5))
              | Some i \<Rightarrow>
                  (map claim835_t.adjustments (parsedData835_t.claims (context835_t.parsedData s5)))
                    [i := push_lazy (claim835_t.adjustments (parsedData835_t.claims (context835_t.parsedData s5) ! i))
                            (adjustment_of (js_split d segment))])
        else map claim835_t.adjustments (parsedData835_t.claims (context835_t.parsedData s5)))) \<and>
   (map claim835_t.entities (parsedData835_t.claims (context835_t.parsedData (handleSegment_835 d s5 segment))) =
       (if el (js_split d segment) 0 = Some ''CLP''
        then map claim835_t.entities (parsedData835_t.claims (context835_t.parsedData s5)) @ [None]
        else if el (js_split d segment) 0 = Some ''NM1''
        then (case context835_t.currentClaim s5 of
                None \<Rightarrow> map claim835_t.entities (parsedData835_t.claims (context835_t.parsedData s5))
              | Some i \<Rightarrow>
                  (map claim835_t.entities (parsedData835_t.claims (context835_t.parsedData s5)))
                    [i := push_lazy (claim835_t.entities (parsedData835_t.claims (context835_t.parsedData s5) ! i))
                            \<lparr> entity835_t.entityIdentifierCode = el (js_split d segment) 1,
                              entity835_t.entityTypeQualifier = el (js_split d segment) 2,
                              entity835_t.lastName = el (js_split d segment) 3,
                              entity835_t.firstName = el (js_split d segment) 4,
                              entity835_t.middleName = el (js_split d segment) 5,
                              entity835_t.namePrefix = el (js_split d segment) 6,
                              entity835_t.nameSuffix = el (js_split d segment) 7,
                              entity835_t.identificationCodeQualifier = el (js_split d segment) 8,
                              entity835_t.identificationCode = el (js_split d segment) 9 \<rparr>])
        else map claim835_t.entities (parsedData835_t.claims (context835_t.parsedData s5)))) \<and>
   (map claim835_t.services (parsedData835_t.claims (context835_t.parsedData (handleSegment_835 d s5 segment))) =
       (if el (js_split d segment) 0 = Some ''CLP''
        then map claim835_t.services (parsedData835_t.claims (context835_t.parsedData s5)) @ [None]
        else if el (js_split d segment) 0 = Some ''SVC''
        then (case context835_t.currentClaim s5 of
                None \<Rightarrow> map claim835_t.services (parsedData835_t.claims (context835_t.parsedData s5))
              | Some i \<Rightarrow>
                  (map claim835_t.services (parsedData835_t.claims (context835_t.parsedData s5)))
                    [i := push_lazy (claim835_t.services (parsedData835_t.claims (context835_t.parsedData s5) ! i))
                            (parseSVC (js_split d segment))])
        else map claim835_t.services (parsedData835_t.claims (context835_t.parsedData s5)))) \<and>
   (map claim835_t.amounts (parsedData835_t.claims (context835_t.parsedData (handleSegment_835 d s5 segment))) =
       (if el (js_split d segment) 0 = Some ''CLP''
        then map claim835_t.amounts (parsedData835_t.claims (context835_t.parsedData s5)) @ [None]
        else if el (js_split d segment) 0 = Some ''AMT''
        then (case context835_t.currentClaim s5 of
                None \<Rightarrow> map claim835_t.amounts (parsedData835_t.claims (context835_t.parsedData s5))
              | Some i \<Rightarrow>
                  (map claim835_t.amounts (parsedData835_t.claims (context835_t.parsedData s5)))
                    [i := push_lazy (claim835_t.amounts (parsedData835_t.claims (context835_t.parsedData s5) ! i))
                            \<lparr> amount_t.amountQualifierCode = el (js_split d segment) 1,
                              amount_t.monetaryAmount = el (js_split d segment) 2 \<rparr>])
        else map claim835_t.amounts (parsedData835_t.claims (context835_t.parsedData s5)))) \<and>
   (map claim835_t.quantities (parsedData835_t.claims (context835_t.parsedData (handleSegment_835 d s5 segment))) =
       (if el (js_split d segment) 0 = Some ''CLP''
        then map claim835_t.quantities (parsedData835_t.claims (context835_t.parsedData s5)) @ [None]
        else if el (js_split d segment) 0 = Some ''QTY''
        then (case context835_t.currentClaim s5 of
                None \<Rightarrow> map claim835_t.quantities (parsedData835_t.claims (context835_t.parsedData s5))
              | Some i \<Rightarrow>
                  (map claim835_t.quantities (parsedData835_t.claims (context835_t.parsedData s5)))
                    [i := push_lazy (claim835_t.quantities (parsedData835_t.claims (context835_t.parsedData s5) ! i))
                            \<lparr> quantity_t.quantityQualifier = el (js_split d segment) 1,
                              quantity_t.quantity = el (js_split d segment) 2 \<rparr>])
        else map claim835_t.quantities (parsedData835_t.claims (context835_t.parsedData s5)))) \<and>
   (parsedData837_t.groups (parseSegments_837 d segs initial_parsedData837) =
       map (\<lambda>seg. group_of (js_split d seg)) (filter (\<lambda>seg. el (js_split d seg) 0 = Some ''GS'') segs)) \<and>
   (parsedData837_t.services (parseSegments_837 d segs initial_parsedData837) =
       map (\<lambda>seg. parseSV1 (js_split d seg)) (filter (\<lambda>seg. el (js_split d seg) 0 = Some ''SV1'') segs)) \<and>
   (parsedData837_t.references (parseSegments_837 d segs initial_parsedData837) =
       (if (filter (\<lambda>seg. el (js_split d seg) 0 = Some ''REF'') segs) = [] then None
        else Some (map (\<lambda>seg. reference_of (js_split d seg)) (filter (\<lambda>seg. el (js_split d seg) 0 = Some ''REF'') segs)))) \<and>
   (parsedData837_t.contacts (parseSegments_837 d segs initial_parsedData837) =
       (if (filter (\<lambda>seg. el (js_split d seg) 0 = Some ''PER'') segs) = [] then None
        else Some (map (\<lambda>seg. contact_of (js_split d seg)) (filter (\<lambda>seg. el (js_split d seg) 0 = Some ''PER'') segs)))) \<and>
   ((parsedData837_t.addresses (parseSegments_837 d segs initial_parsedData837) = None) =
       ((filter (\<lambda>seg. el (js_split d seg) 0 = Some ''N3'') segs) = [])) \<and>
   (parsedData835_t.groups (parseSegments_835 d segs initial_parsedData835) =
       map (\<lambda>seg. group_of (js_split d seg)) (filter (\<lambda>seg. el (js_split d seg) 0 = Some ''GS'') segs)) \<and>
   (parsedData835_t.services (parseSegments_835 d segs initial_parsedData835) =
       map (\<lambda>seg. parseSVC (js_split d seg)) (filter (\<lambda>seg. el (js_split d seg) 0 = Some ''SVC'') segs)) \<and>
   (parsedData835_t.adjustments (parseSegments_835 d segs initial_parsedData835) =
       map (\<lambda>seg. parsePLB (js_split d seg)) (filter (\<lambda>seg. el (js_split d seg) 0 = Some ''PLB'') segs)) \<and>
   (parsedData835_t.references (parseSegments_835 d segs initial_parsedData835) =
       map (\<lambda>seg. reference_of (js_split d seg)) (filter (\<lambda>seg. el (js_split d seg) 0 = Some ''REF'') segs)) \<and>
   (parsedData835_t.contacts (parseSegments_835 d segs initial_parsedData835) =
       map (\<lambda>seg. contact_of (js_split d seg)) (filter (\<lambda>seg. el (js_split d seg) 0 = Some ''PER'') segs))"
proof -

  have init837: "parsedData837_t.groups initial_parsedData837 = [] \<and>
    parsedData837_t.claims initial_parsedData837 = [] \<and>
    parsedData837_t.providers initial_parsedData837 = [] \<and>
    parsedData837_t.subscribers initial_parsedData837 = [] \<and>
    parsedData837_t.patients initial_parsedData837 = [] \<and>
    parsedData837_t.services initial_parsedData837 = [] \<and>
    parsedData837_t.references initial_parsedData837 = None \<and>
    parsedData837_t.contacts initial_parsedData837 = None \<and>
    parsedData837_t.addresses initial_parsedData837 = None"
    by (simp add: initial_parsedData837_def)
  have first: "parsedData837_t.references (parseREF_837 es initial_parsedData837) = Some [reference_of es] \<and>
    parsedData837_t.contacts (parsePER_837 es initial_parsedData837) = Some [contact_of es] \<and>
    parsedData837_t.addresses (parseN3_837 es initial_parsedData837) = Some [address_of es]"
    by (simp add: initial_parsedData837_def parseREF_837_def parsePER_837_def parseN3_837_def)
  have init835: "parsedData835_t.groups initial_parsedData835 = [] \<and>
    parsedData835_t.payments initial_parsedData835 = [] \<and>
    parsedData835_t.claims initial_parsedData835 = [] \<and>
    parsedData835_t.services initial_parsedData835 = [] \<and>
    parsedData835_t.adjustments initial_parsedData835 = [] \<and>
    parsedData835_t.references initial_parsedData835 = [] \<and>
    parsedData835_t.contacts initial_parsedData835 = [] \<and>
    parsedData835_t.addresses initial_parsedData835 = []"
    by (simp add: initial_parsedData835_def)
  have clm: "claim837_t.services (parseCLM es) = None \<and>
    claim837_t.dates (parseCLM es) = None \<and>
    claim837_t.healthInfo (parseCLM es) = None"
    by (simp add: parseCLM_def)
  have clp: "claim835_t.adjustments (parseCLP es) = None \<and>
    claim835_t.entities (parseCLP es) = None \<and>
    claim835_t.services (parseCLP es) = None \<and>
    claim835_t.amounts (parseCLP es) = None \<and>
    claim835_t.quantities (parseCLP es) = None \<and>
    payment_t.dates (parseBPR es) = None \<and>
    payment_t.claims (parseBPR es) = None"
    by (simp add: parseCLP_def parseBPR_def)
  have run837: "parsedData837_ext (parseSegments_837 d before t7)
      (parseSegments_837 d (before @ after) t7)"
    unfolding parseSegments_837_def foldl_append by (rule foldl_837_ext)
  have run835: "parsedData835_ext (parseSegments_835 d before t5)
      (parseSegments_835 d (before @ after) t5)"
    unfolding parseSegments_835_def foldl_append by (rule foldl_835_ext)
  note step837 = handleSegment_837_ext [of s7 d segment]
  note step835 = handleSegment_835_ext [of s5 d segment]
  note f_step_837_groups = step_837_groups [where d = d and s = s7 and segment = segment]
  note f_step_837_services = step_837_services [where d = d and s = s7 and segment = segment]
  note f_step_837_references = step_837_references [where d = d and s = s7 and segment = segment]
  note f_step_837_contacts = step_837_contacts [where d = d and s = s7 and segment = segment]
  note f_step_837_addresses = step_837_addresses [where d = d and s = s7 and segment = segment]
  note f_step_837_claims = step_837_claims [where d = d and s = s7 and segment = segment]
  note f_step_837_subscribers = step_837_subscribers [where d = d and s = s7 and segment = segment]
  note f_step_837_patients = step_837_patients [where d = d and s = s7 and segment = segment]
  note f_step_837_providers = step_837_providers [where d = d and s = s7 and segment = segment]
  note f_step_837_claim_dates = step_837_claim_dates [where d = d and s = s7 and segment = segment]
  note f_step_837_claim_services = step_837_claim_services [where d = d and s = s7 and segment = segment]
  note f_step_837_claim_healthInfo = step_837_claim_healthInfo [where d = d and s = s7 and segment = segment]
  note f_step_835_groups = step_835_groups [where d = d and s = s5 and segment = segment]
  note f_step_835_services = step_835_services [where d = d and s = s5 and segment = segment]
  note f_step_835_adjustments = step_835_adjustments [where d = d and s = s5 and segment = segment]
  note f_step_835_references = step_835_references [where d = d and s = s5 and segment = segment]
  note f_step_835_contacts = step_835_contacts [where d = d and s = s5 and segment = segment]
  note f_step_835_addresses = step_835_addresses [where d = d and s = s5 and segment = segment]
  note f_step_835_payments = step_835_payments [where d = d and s = s5 and segment = segment]
  note f_step_835_claims = step_835_claims [where d = d and s = s5 and segment = segment]
  note f_step_835_payment_dates = step_835_payment_dates [where d = d and s = s5 and segment = segment]
  note f_step_835_payment_claims = step_835_payment_claims [where d = d and s = s5 and segment = segment]
  note f_step_835_claim_adjustments = step_835_claim_adjustments [where d = d and s = s5 and segment = segment]
  note f_step_835_claim_entities = step_835_claim_entities [where d = d and s = s5 and segment = segment]
  note f_step_835_claim_services = step_835_claim_services [where d = d and s = s5 and segment = segment]
  note f_step_835_claim_amounts = step_835_claim_amounts [where d = d and s = s5 and segment = segment]
  note f_step_835_claim_quantities = step_835_claim_quantities [where d = d and s = s5 and segment = segment]
  have f_run_837_groups:
    "parsedData837_t.groups (parseSegments_837 d segs initial_parsedData837) =
        map (\<lambda>seg. group_of (js_split d seg)) (filter (\<lambda>seg. el (js_split d seg) 0 = Some ''GS'') segs)"
    by (simp add: initial_parsedData837_def start_837_def parseSegments_837_def loop_837_groups foldl_push_lazy_None)
  have f_run_837_services:
    "parsedData837_t.services (parseSegments_837 d segs initial_parsedData837) =
        map (\<lambda>seg. parseSV1 (js_split d seg)) (filter (\<lambda>seg. el (js_split d seg) 0 = Some ''SV1'') segs)"
    by (simp add: initial_parsedData837_def start_837_def parseSegments_837_def loop_837_services foldl_push_lazy_None)
  have f_run_837_references:
    "parsedData837_t.references (parseSegments_837 d segs initial_parsedData837) =
        (if (filter (\<lambda>seg. el (js_split d seg) 0 = Some ''REF'') segs) = [] then None
         else Some (map (\<lambda>seg. reference_of (js_split d seg)) (filter (\<lambda>seg. el (js_split d seg) 0 = Some ''REF'') segs)))"
    by (simp add: initial_parsedData837_def start_837_def parseSegments_837_def loop_837_references foldl_push_lazy_None)
  have f_run_837_contacts:
    "parsedData837_t.contacts (parseSegments_837 d segs initial_parsedData837) =
        (if (filter (\<lambda>seg. el (js_split d seg) 0 = Some ''PER'') segs) = [] then None
         else Some (map (\<lambda>seg. contact_of (js_split d seg)) (filter (\<lambda>seg. el (js_split d seg) 0 = Some ''PER'') segs)))"
    by (simp add: initial_parsedData837_def start_837_def parseSegments_837_def loop_837_contacts foldl_push_lazy_None)
  have f_run_837_addresses:
    "(parsedData837_t.addresses (parseSegments_837 d segs initial_parsedData837) = None) =
        ((filter (\<lambda>seg. el (js_split d seg) 0 = Some ''N3'') segs) = [])"
    by (simp add: initial_parsedData837_def start_837_def parseSegments_837_def loop_837_addresses foldl_push_lazy_None)
  have f_run_835_groups:
    "parsedData835_t.groups (parseSegments_835 d segs initial_parsedData835) =
        map (\<lambda>seg. group_of (js_split d seg)) (filter (\<lambda>seg. el (js_split d seg) 0 = Some ''GS'') segs)"
    by (simp add: initial_parsedData835_def start_835_def parseSegments_835_def loop_835_groups foldl_push_lazy_None)
  have f_run_835_services:
    "parsedData835_t.services (parseSegments_835 d segs initial_parsedData835) =
        map (\<lambda>seg. parseSVC (js_split d seg)) (filter (\<lambda>seg. el (js_split d seg) 0 = Some ''SVC'') segs)"
    by (simp add: initial_parsedData835_def start_835_def parseSegments_835_def loop_835_services foldl_push_lazy_None)
  have f_run_835_adjustments:
    "parsedData835_t.adjustments (parseSegments_835 d segs initial_parsedData835) =
        map (\<lambda>seg. parsePLB (js_split d seg)) (filter (\<lambda>seg. el (js_split d seg) 0 = Some ''PLB'') segs)"
    by (simp add: initial_parsedData835_def start_835_def parseSegments_835_def loop_835_adjustments foldl_push_lazy_None)
  have f_run_835_references:
    "parsedData835_t.references (parseSegments_835 d segs initial_parsedData835) =
        map (\<lambda>seg. reference_of (js_split d seg)) (filter (\<lambda>seg. el (js_split d seg) 0 = Some ''REF'') segs)"
    by (simp add: initial_parsedData835_def start_835_def parseSegments_835_def loop_835_references foldl_push_lazy_None)
  have f_run_835_contacts:
    "parsedData835_t.contacts (parseSegments_835 d segs initial_parsedData835) =
        map (\<lambda>seg. contact_of (js_split d seg)) (filter (\<lambda>seg. el (js_split d seg) 0 = Some ''PER'') segs)"
    by (simp add: initial_parsedData835_def start_835_def parseSegments_835_def loop_835_contacts foldl_push_lazy_None)
  show ?thesis
    by (rule conjI [OF init837
      conjI [OF first
      conjI [OF init835
      conjI [OF clm
      conjI [OF clp
      conjI [OF step837
      conjI [OF step835
      conjI [OF run837
      conjI [OF run835
      conjI [OF f_step_837_groups
      conjI [OF f_step_837_services
      conjI [OF f_step_837_references
      conjI [OF f_step_837_contacts
      conjI [OF f_step_837_addresses
      conjI [OF f_step_837_claims
      conjI [OF f_step_837_subscribers
      conjI [OF f_step_837_patients
      conjI [OF f_step_837_providers
      conjI [OF f_step_837_claim_dates
      conjI [OF f_step_837_claim_services
      conjI [OF f_step_837_claim_healthInfo
      conjI [OF f_step_835_groups
      conjI [OF f_step_835_services
      conjI [OF f_step_835_adjustments
      conjI [OF f_step_835_references
      conjI [OF f_step_835_contacts
      conjI [OF f_step_835_addresses
      conjI [OF f_step_835_payments
      conjI [OF f_step_835_claims
      conjI [OF f_step_835_payment_dates
      conjI [OF f_step_835_payment_claims
      conjI [OF f_step_835_claim_adjustments
      conjI [OF f_step_835_claim_entities
      conjI [OF f_step_835_claim_services
      conjI [OF f_step_835_claim_amounts
      conjI [OF f_step_835_claim_quantities
      conjI [OF f_run_837_groups
      conjI [OF f_run_837_services
      conjI [OF f_run_837_references
      conjI [OF f_run_837_contacts
      conjI [OF f_run_837_addresses
      conjI [OF f_run_835_groups
      conjI [OF f_run_835_services
      conjI [OF f_run_835_adjustments
      conjI [OF f_run_835_references f_run_835_contacts]]]]]]]]]]]]]]]]]]]]]]]]]]]]]]]]]]]]]]]]]]]]])
qed

section \<open>What \<open>parse\<close> returns\<close>

lemma parse_837_result:
  "fst (parse_837 p x) =
     (if split_segments (parser837_t.segmentDelimiter p) (cleanData x) = []
      then Inl (Error ''Parsing failed: No valid EDI segments found'')
      else Inr (parseSegments_837 (parser837_t.elementDelimiter p)
             (split_segments (parser837_t.segmentDelimiter p) (cleanData x))
             initial_parsedData837))"
  by (simp add: parse_837_def parse_try_837_def Let_def)

lemma parse_835_result:
  "fst (parse_835 p x) =
     (if split_segments (parser835_t.segmentDelimiter p) (cleanData x) = []
      then Inl (Error ''Parsing failed: No valid EDI segments found'')
      else Inr (parseSegments_835 (parser835_t.elementDelimiter p)
             (split_segments (parser835_t.segmentDelimiter p) (cleanData x))
             initial_parsedData835))"
  by (simp add: parse_835_def parse_try_835_def Let_def)

lemma parse_837_delimiters:
  "parser837_t.segmentDelimiter (snd (parse_837 p x)) = parser837_t.segmentDelimiter p"
  "parser837_t.elementDelimiter (snd (parse_837 p x)) = parser837_t.elementDelimiter p"
  by (simp_all add: parse_837_def parse_try_837_def Let_def)

lemma parse_835_delimiters:
  "parser835_t.segmentDelimiter (snd (parse_835 p x)) = parser835_t.segmentDelimiter p"
  "parser835_t.elementDelimiter (snd (parse_835 p x)) = parser835_t.elementDelimiter p"
  by (simp_all add: parse_835_def parse_try_835_def Let_def)

lemma history_837_delimiters:
  "parser837_t.segmentDelimiter (foldl (\<lambda>p a. snd (parse_837 p a)) p history) =
     parser837_t.segmentDelimiter p \<and>
   parser837_t.elementDelimiter (foldl (\<lambda>p a. snd (parse_837 p a)) p history) =
     parser837_t.elementDelimiter p"
  by (induction history arbitrary: p) (simp_all add: parse_837_delimiters)

lemma history_835_delimiters:
  "parser835_t.segmentDelimiter (foldl (\<lambda>p a. snd (parse_835 p a)) p history) =
     parser835_t.segmentDelimiter p \<and>
   parser835_t.elementDelimiter (foldl (\<lambda>p a. snd (parse_835 p a)) p history) =
     parser835_t.elementDelimiter p"
  by (induction history arbitrary: p) (simp_all add: parse_835_delimiters)



































text \<open>
  C10.  \<open>parse\<close> does not depend on the parser's earlier calls: the result for an input
  \<open>b\<close> after a call on \<open>a\<close>, or after any sequence of earlier calls, is the result of a
  fresh parser for \<open>b\<close>; two calls on the same input return the same result.
\<close>

theorem C10_parse_is_history_insensitive:
  "fst (parse_837 (snd (parse_837 new_EDI837Parser a)) b) = fst (parse_837 new_EDI837Parser b) \<and>
   fst (parse_835 (snd (parse_835 new_EDI835Parser a)) b) = fst (parse_835 new_EDI835Parser b) \<and>
   fst (parse_837 (foldl (\<lambda>p a. snd (parse_837 p a)) new_EDI837Parser history) b) =
     fst (parse_837 new_EDI837Parser b) \<and>
   fst (parse_835 (foldl (\<lambda>p a. snd (parse_835 p a)) new_EDI835Parser history) b) =
     fst (parse_835 new_EDI835Parser b) \<and>
   fst (parse_837 (snd (parse_837 p7 b)) b) = fst (parse_837 p7 b) \<and>
   fst (parse_835 (snd (parse_835 p5 b)) b) = fst (parse_835 p5 b)"
  by (simp add: parse_837_result parse_835_result parse_837_delimiters parse_835_delimiters
      history_837_delimiters history_835_delimiters)

section \<open>The current pointers of the 837 parser\<close>

lemma handleSegment_837_current:
  assumes "current_is_last_837 s"
  shows "current_is_last_837 (handleSegment_837 d s segment)"
proof -
  note len = step_837_claims [where d = d and s = s and segment = segment]
    step_837_subscribers [where d = d and s = s and segment = segment]
    step_837_patients [where d = d and s = s and segment = segment]
    step_837_providers [where d = d and s = s and segment = segment]
  show ?thesis
    using assms len
    by (auto simp: current_is_last_837_def is_last_def Let_def step_837_pointers
        split: option.splits entity_ref.splits if_splits)
qed

lemma start_837_current: "current_is_last_837 (start_837 t)"
  by (simp add: start_837_def current_is_last_837_def)

lemma foldl_837_current:
  "current_is_last_837 s \<Longrightarrow> current_is_last_837 (foldl (handleSegment_837 d) s segs)"
  by (induction segs arbitrary: s) (simp_all add: handleSegment_837_current)

lemma update_last: "Suc i = length xs \<Longrightarrow> xs[i := y] = butlast xs @ [y]"
  by (induction xs arbitrary: i rule: rev_induct) simp_all

lemma nth_last: "Suc i = length xs \<Longrightarrow> xs ! i = last xs"
  by (induction xs arbitrary: i rule: rev_induct) simp_all

text \<open>
  C8.  In a state \<open>s\<close> that the 837 loop reaches, for a DMG segment: when a subscriber is
  current, the demographics record is attached to that subscriber, the last one of
  \<open>subscribers\<close>, whether or not a patient is current too, and nothing else changes; when
  no subscriber but a patient is current, it is attached to that patient, the last one
  of \<open>patients\<close>; when neither is current the segment has no effect.  In particular
  NM1*IL*1*SMITH*JOHN followed by DMG*D8*19800101*M gives exactly one subscriber, with
  \<open>lastName\<close> SMITH, \<open>firstName\<close> JOHN and the \<open>birthDate\<close> 19800101 in its demographics.
\<close>

theorem C8_DMG_prefers_subscriber:
  assumes s: "s = foldl (handleSegment_837 d) (start_837 t0) before"
    and tag: "el (js_split d segment) 0 = Some ''DMG''"
    and demo: "demo = \<lparr> demographics_t.dateFormat = el (js_split d segment) 1,
                        demographics_t.birthDate = el (js_split d segment) 2,
                        demographics_t.gender = el (js_split d segment) 3 \<rparr>"
    and t: "t = context837_t.parsedData s"
    and s': "s' = handleSegment_837 d s segment"
  shows "(context837_t.currentSubscriber s \<noteq> None \<longrightarrow>
            parsedData837_t.subscribers t \<noteq> [] \<and>
            s' = s\<lparr> context837_t.parsedData :=
                     t\<lparr> parsedData837_t.subscribers :=
                          butlast (parsedData837_t.subscribers t) @
                          [(last (parsedData837_t.subscribers t))
                             \<lparr> entity_t.demographics := Some demo \<rparr>] \<rparr> \<rparr>) \<and>
         (context837_t.currentSubscriber s = None \<and> context837_t.currentPatient s \<noteq> None \<longrightarrow>
            parsedData837_t.patients t \<noteq> [] \<and>
            s' = s\<lparr> context837_t.parsedData :=
                     t\<lparr> parsedData837_t.patients :=
                          butlast (parsedData837_t.patients t) @
                          [(last (parsedData837_t.patients t))
                             \<lparr> entity_t.demographics := Some demo \<rparr>] \<rparr> \<rparr>) \<and>
         (context837_t.currentSubscriber s = None \<and> context837_t.currentPatient s = None \<longrightarrow>
            s' = s) \<and>
         (\<exists>tree. fst (parse_837 new_EDI837Parser ''NM1*IL*1*SMITH*JOHN~DMG*D8*19800101*M'') = Inr tree \<and>
            map (\<lambda>e. (entity_t.lastName e, entity_t.firstName e, entity_t.demographics e))
              (parsedData837_t.subscribers tree) =
            [(Some ''SMITH'', Some ''JOHN'',
              Some \<lparr> demographics_t.dateFormat = Some ''D8'',
                     demographics_t.birthDate = Some ''19800101'',
                     demographics_t.gender = Some ''M'' \<rparr>)])"
proof -
  have inv: "current_is_last_837 s"
    unfolding s by (rule foldl_837_current) (rule start_837_current)
  have "switch_837 d s segment = in_state837
      (parseDMG (js_split d segment)
         (js_or (context837_t.currentSubscriber s) (context837_t.currentPatient s))
         (context837_t.parsedData s)) s"
    using tag by (simp add: switch_837_def Let_def)
  then have step: "s' =
      (case js_or (context837_t.currentSubscriber s) (context837_t.currentPatient s) of
         None \<Rightarrow> s
       | Some r \<Rightarrow>
           s\<lparr> context837_t.parsedData :=
                update_entity r (\<lambda>e. e\<lparr> entity_t.demographics := Some demo \<rparr>)
                  (context837_t.parsedData s) \<rparr>)"
    by (simp add: s' handleSegment_837_def in_state837_def parseDMG_def on_object_def demo
        split: option.split)
  have sub: "context837_t.currentSubscriber s \<noteq> None \<longrightarrow>
            parsedData837_t.subscribers t \<noteq> [] \<and>
            s' = s\<lparr> context837_t.parsedData :=
                     t\<lparr> parsedData837_t.subscribers :=
                          butlast (parsedData837_t.subscribers t) @
                          [(last (parsedData837_t.subscribers t))
                             \<lparr> entity_t.demographics := Some demo \<rparr>] \<rparr> \<rparr>"
  proof
    assume "context837_t.currentSubscriber s \<noteq> None"
    then obtain r where r: "context837_t.currentSubscriber s = Some r" by auto
    with inv obtain i where i: "r = SubscriberAt i" "Suc i = length (parsedData837_t.subscribers t)"
      by (cases r) (auto simp: current_is_last_837_def is_last_def Let_def t)
    from i(2) have ne: "parsedData837_t.subscribers t \<noteq> []" by auto
    show "parsedData837_t.subscribers t \<noteq> [] \<and>
            s' = s\<lparr> context837_t.parsedData :=
                     t\<lparr> parsedData837_t.subscribers :=
                          butlast (parsedData837_t.subscribers t) @
                          [(last (parsedData837_t.subscribers t))
                             \<lparr> entity_t.demographics := Some demo \<rparr>] \<rparr> \<rparr>"
      using ne r i update_last [OF i(2)] nth_last [OF i(2)]
      by (simp add: step js_or_def t)
  qed
  have pat: "context837_t.currentSubscriber s = None \<and> context837_t.currentPatient s \<noteq> None \<longrightarrow>
            parsedData837_t.patients t \<noteq> [] \<and>
            s' = s\<lparr> context837_t.parsedData :=
                     t\<lparr> parsedData837_t.patients :=
                          butlast (parsedData837_t.patients t) @
                          [(last (parsedData837_t.patients t))
                             \<lparr> entity_t.demographics := Some demo \<rparr>] \<rparr> \<rparr>"
  proof
    assume a: "context837_t.currentSubscriber s = None \<and> context837_t.currentPatient s \<noteq> None"
    then obtain r where r: "context837_t.currentPatient s = Some r" by auto
    with inv obtain i where i: "r = PatientAt i" "Suc i = length (parsedData837_t.patients t)"
      by (cases r) (auto simp: current_is_last_837_def is_last_def Let_def t)
    from i(2) have ne: "parsedData837_t.patients t \<noteq> []" by auto
    show "parsedData837_t.patients t \<noteq> [] \<and>
            s' = s\<lparr> context837_t.parsedData :=
                     t\<lparr> parsedData837_t.patients :=
                          butlast (parsedData837_t.patients t) @
                          [(last (parsedData837_t.patients t))
                             \<lparr> entity_t.demographics := Some demo \<rparr>] \<rparr> \<rparr>"
      using ne a r i update_last [OF i(2)] nth_last [OF i(2)]
      by (simp add: step js_or_def t)
  qed
  have none: "context837_t.currentSubscriber s = None \<and> context837_t.currentPatient s = None \<longrightarrow>
            s' = s"
    by (simp add: step js_or_def)
  have scenario: "\<exists>tree. fst (parse_837 new_EDI837Parser ''NM1*IL*1*SMITH*JOHN~DMG*D8*19800101*M'') = Inr tree \<and>
            map (\<lambda>e. (entity_t.lastName e, entity_t.firstName e, entity_t.demographics e))
              (parsedData837_t.subscribers tree) =
            [(Some ''SMITH'', Some ''JOHN'',
              Some \<lparr> demographics_t.dateFormat = Some ''D8'',
                     demographics_t.birthDate = Some ''19800101'',
                     demographics_t.gender = Some ''M'' \<rparr>)]"
    by (simp add: parse_837_eval handlers_837 shared_eval js_eval)
  show ?thesis
    by (rule conjI [OF sub conjI [OF pat conjI [OF none scenario]]])
qed

text \<open>An instance with both a patient and a subscriber current: the subscriber gets the
  demographics, the patient does not.\<close>

theorem C8_DMG_prefers_subscriber_witness:
  "(let s = foldl (handleSegment_837 (CHR ''*'')) (start_837 initial_parsedData837)
              [''NM1*QC*1*DOE*JANE'', ''NM1*IL*1*SMITH*JOHN''];
        s' = handleSegment_837 (CHR ''*'') s ''DMG*D8*19800101*M''
    in context837_t.currentSubscriber s = Some (SubscriberAt 0) \<and>
       context837_t.currentPatient s = Some (PatientAt 0) \<and>
       map entity_t.demographics (parsedData837_t.subscribers (context837_t.parsedData s')) =
         [Some \<lparr> demographics_t.dateFormat = Some ''D8'',
                 demographics_t.birthDate = Some ''19800101'',
                 demographics_t.gender = Some ''M'' \<rparr>] \<and>
       map entity_t.demographics (parsedData837_t.patients (context837_t.parsedData s')) =
         [None])"
proof -
  have tag: "el (js_split (CHR ''*'') ''DMG*D8*19800101*M'') 0 = Some ''DMG''"
    by (simp add: js_eval)
  show ?thesis
    using C8_DMG_prefers_subscriber [OF refl tag refl refl refl,
        of initial_parsedData837 "[''NM1*QC*1*DOE*JANE'', ''NM1*IL*1*SMITH*JOHN'']"]
    by (simp add: handleSegment_837_def switch_837_def start_837_def
        initial_parsedData837_def handlers_837 js_eval)
qed

end
